theory Spec2Isabelle
  imports Complex_Main "HOL-Library.Sublist" "HOL-Library.AList" "HOL-Library.Multiset"
begin

section \<open>Python values\<close>

text \<open>
  The repository is a set of notebooks. Each notebook is a sequence of cells run top to
  bottom; what a cell computes is modelled by a function from the values it reads to the
  values it leaves, a Python exception by \<open>Inl\<close> of the error raised. Tensors and NumPy
  arrays hold floating-point numbers in the notebooks and exact reals here: a rank-1 tensor
  is a list, a rank-2 tensor a list of rows.
\<close>

type_synonym vector = "real list"
type_synonym matrix = "real list list"

datatype py_error = IndexError | KeyError | ZeroDivisionError | ValueError

subsection \<open>Strings\<close>

text \<open>
  A Python string is modelled as a list of characters with code points below 256, which
  covers the ASCII dataset files. \<^verbatim>\<open>str.isspace\<close> holds for the code points 9 to 13, 28 to
  32, 133 and 160 in that range; \<^verbatim>\<open>str.lower\<close> adds 32 to the code points of \<open>A\<close> to \<open>Z\<close> and
  of the upper-case Latin-1 letters (192 to 222 without the multiplication sign 215).
\<close>

definition isspace :: "char \<Rightarrow> bool" where
  "isspace c = (let n = (of_char c :: nat) in
     (9 \<le> n \<and> n \<le> 13) \<or> (28 \<le> n \<and> n \<le> 32) \<or> n = 133 \<or> n = 160)"

definition lower_char :: "char \<Rightarrow> char" where
  "lower_char c = (let n = (of_char c :: nat) in
     if (65 \<le> n \<and> n \<le> 90) \<or> (192 \<le> n \<and> n \<le> 222 \<and> n \<noteq> 215)
     then char_of (n + 32) else c)"

definition str_lower :: "string \<Rightarrow> string" where
  "str_lower s = map lower_char s"

definition str_strip :: "string \<Rightarrow> string" where
  "str_strip s = rev (dropWhile isspace (rev (dropWhile isspace s)))"

text \<open>
  \<^verbatim>\<open>s.split(sep)\<close> scans from the left: at an occurrence of the separator the piece read
  so far (kept reversed in \<open>cur\<close>) is emitted and the scan resumes after the separator.
  The notebooks pass the literal separators \<^verbatim>\<open>' ||| '\<close> and \<^verbatim>\<open>" "\<close>, never an empty one.
\<close>

function split_from :: "string \<Rightarrow> string \<Rightarrow> string \<Rightarrow> string list" where
  "split_from sep cur [] = [rev cur]"
| "split_from sep cur (c # cs) =
     (if sep \<noteq> [] \<and> prefix sep (c # cs)
      then rev cur # split_from sep [] (drop (length sep) (c # cs))
      else split_from sep (c # cur) cs)"
  by pat_completeness auto
termination
  by (relation "measure (\<lambda>(sep, cur, s). length s)") auto

definition str_split :: "string \<Rightarrow> string \<Rightarrow> string list" where
  "str_split s sep = split_from sep [] s"

subsection \<open>Dictionaries and lists\<close>

text \<open>
  A Python \<^verbatim>\<open>dict\<close> with string keys is an association list in insertion order:
  \<^verbatim>\<open>d[k] = v\<close> replaces the value of a present key and appends an absent one, \<^verbatim>\<open>len(d)\<close>
  counts the entries, \<^verbatim>\<open>d[k]\<close> raises \<^verbatim>\<open>KeyError\<close> on an absent key and \<^verbatim>\<open>xs[i]\<close> raises
  \<^verbatim>\<open>IndexError\<close> past the end of a list.
\<close>

type_synonym 'v dict = "(string \<times> 'v) list"

definition dict_contains :: "'v dict \<Rightarrow> string \<Rightarrow> bool" where
  "dict_contains d k = (map_of d k \<noteq> None)"

definition dict_get :: "'v dict \<Rightarrow> string \<Rightarrow> py_error + 'v" where
  "dict_get d k = (case map_of d k of None \<Rightarrow> Inl KeyError | Some v \<Rightarrow> Inr v)"

definition dict_set :: "'v dict \<Rightarrow> string \<Rightarrow> 'v \<Rightarrow> 'v dict" where
  "dict_set d k v = AList.update k v d"

definition dict_len :: "'v dict \<Rightarrow> nat" where
  "dict_len d = length d"

definition list_get :: "'a list \<Rightarrow> nat \<Rightarrow> py_error + 'a" where
  "list_get xs i = (if i < length xs then Inr (xs ! i) else Inl IndexError)"

section \<open>The data pipeline of the BoW, CBOW and Deep CBOW notebooks\<close>

text \<open>
  The three notebooks share this code verbatim. \<^verbatim>\<open>read_data\<close> gets the lines of the file
  (each with its line terminator) and appends one list of fields per line:
  \<^verbatim>\<open>line = line.lower().strip(); line = line.split(' ||| '); data.append(line)\<close>.
\<close>

fun read_data_loop :: "string list \<Rightarrow> string list list \<Rightarrow> string list list" where
  "read_data_loop [] data = data"
| "read_data_loop (line # f) data =
     read_data_loop f (data @ [str_split (str_strip (str_lower line)) '' ||| ''])"

definition read_data :: "string list \<Rightarrow> string list list" where
  "read_data f = read_data_loop f []"

text \<open>
  The two global dictionaries. \<^verbatim>\<open>word_to_index["<unk>"] = len(word_to_index)\<close> runs on the
  empty dictionary before any data is seen.
\<close>

record vocab =
  word_to_index :: "nat dict"
  tag_to_index :: "nat dict"

definition init_vocab :: vocab where
  "init_vocab = \<lparr>word_to_index = dict_set [] ''<unk>'' (dict_len ([] :: nat dict)),
                 tag_to_index = []\<rparr>"

text \<open>
  \<^verbatim>\<open>create_dict(data, check_unk)\<close>: the inner loop over the words of \<^verbatim>\<open>line[1].split(" ")\<close>,
  then the outer loop over the lines, which reads \<^verbatim>\<open>line[1]\<close> before \<^verbatim>\<open>line[0]\<close>. An exception
  ends the cell; the model then returns the error.
\<close>

fun create_dict_words :: "bool \<Rightarrow> string list \<Rightarrow> nat dict \<Rightarrow> py_error + nat dict" where
  "create_dict_words check_unk [] w2i = Inr w2i"
| "create_dict_words check_unk (word # ws) w2i =
     (if check_unk = False then
        (if \<not> dict_contains w2i word
         then create_dict_words check_unk ws (dict_set w2i word (dict_len w2i))
         else create_dict_words check_unk ws w2i)
      else
        (if \<not> dict_contains w2i word
         then (case dict_get w2i ''<unk>'' of
                 Inl e \<Rightarrow> Inl e
               | Inr u \<Rightarrow> create_dict_words check_unk ws (dict_set w2i word u))
         else create_dict_words check_unk ws w2i))"

fun create_dict :: "string list list \<Rightarrow> bool \<Rightarrow> vocab \<Rightarrow> py_error + vocab" where
  "create_dict [] check_unk v = Inr v"
| "create_dict (line # data) check_unk v =
     (case list_get line 1 of
        Inl e \<Rightarrow> Inl e
      | Inr body \<Rightarrow>
         (case create_dict_words check_unk (str_split body '' '') (word_to_index v) of
            Inl e \<Rightarrow> Inl e
          | Inr w2i \<Rightarrow>
             (case list_get line 0 of
                Inl e \<Rightarrow> Inl e
              | Inr tag \<Rightarrow>
                 create_dict data check_unk
                   \<lparr>word_to_index = w2i,
                    tag_to_index =
                      (if \<not> dict_contains (tag_to_index v) tag
                       then dict_set (tag_to_index v) tag (dict_len (tag_to_index v))
                       else tag_to_index v)\<rparr>)))"

text \<open>
  \<^verbatim>\<open>create_tensor(data)\<close> is a generator that the notebook forces with \<^verbatim>\<open>list(...)\<close>; each
  line yields \<^verbatim>\<open>([word_to_index[word] for word in line[1].split(" ")], tag_to_index[line[0]])\<close>.
\<close>

fun lookup_words :: "nat dict \<Rightarrow> string list \<Rightarrow> py_error + nat list" where
  "lookup_words w2i [] = Inr []"
| "lookup_words w2i (word # ws) =
     (case dict_get w2i word of
        Inl e \<Rightarrow> Inl e
      | Inr i \<Rightarrow> (case lookup_words w2i ws of Inl e \<Rightarrow> Inl e | Inr is \<Rightarrow> Inr (i # is)))"

fun create_tensor :: "vocab \<Rightarrow> string list list \<Rightarrow> py_error + (nat list \<times> nat) list" where
  "create_tensor v [] = Inr []"
| "create_tensor v (line # data) =
     (case list_get line 1 of
        Inl e \<Rightarrow> Inl e
      | Inr body \<Rightarrow>
         (case lookup_words (word_to_index v) (str_split body '' '') of
            Inl e \<Rightarrow> Inl e
          | Inr sentence \<Rightarrow>
             (case list_get line 0 of
                Inl e \<Rightarrow> Inl e
              | Inr tag_name \<Rightarrow>
                 (case dict_get (tag_to_index v) tag_name of
                    Inl e \<Rightarrow> Inl e
                  | Inr tag \<Rightarrow>
                     (case create_tensor v data of
                        Inl e \<Rightarrow> Inl e
                      | Inr rest \<Rightarrow> Inr ((sentence, tag) # rest))))))"

text \<open>
  The cells in sequence: both files are read, the dictionaries are built from the training
  lines and extended from the test lines with \<^verbatim>\<open>check_unk=True\<close>, both sets are encoded with
  the final dictionaries, and the two sizes are taken.
\<close>

record dataset =
  train_tensors :: "(nat list \<times> nat) list"
  test_tensors :: "(nat list \<times> nat) list"
  number_of_words :: nat
  number_of_tags :: nat

definition load_dataset :: "string list \<Rightarrow> string list \<Rightarrow> py_error + dataset" where
  "load_dataset train_txt test_txt =
     (let train = read_data train_txt; test = read_data test_txt in
      case create_dict train False init_vocab of
        Inl e \<Rightarrow> Inl e
      | Inr v1 \<Rightarrow>
         (case create_dict test True v1 of
            Inl e \<Rightarrow> Inl e
          | Inr v2 \<Rightarrow>
             (case create_tensor v2 train of
                Inl e \<Rightarrow> Inl e
              | Inr tr \<Rightarrow>
                 (case create_tensor v2 test of
                    Inl e \<Rightarrow> Inl e
                  | Inr te \<Rightarrow>
                     Inr \<lparr>train_tensors = tr, test_tensors = te,
                          number_of_words = dict_len (word_to_index v2),
                          number_of_tags = dict_len (tag_to_index v2)\<rparr>))))"

text \<open>
  A dictionary is \<open>counted\<close> when its keys are distinct and its values are the positions of
  its entries, which is how \<^verbatim>\<open>d[k] = len(d)\<close> on absent keys fills it.
\<close>

definition counted :: "nat dict \<Rightarrow> bool" where
  "counted d = (distinct (map fst d) \<and> map snd d = [0..<length d])"

text \<open>The words and the tags that occur in a list of lines with at least two fields.\<close>

definition words_of :: "string list list \<Rightarrow> string set" where
  "words_of data = (\<Union>line \<in> set data. set (str_split (line ! 1) '' ''))"

definition tags_of :: "string list list \<Rightarrow> string set" where
  "tags_of data = (\<lambda>line. line ! 0) ` set data"

section \<open>The BoW and CBoW modules\<close>

text \<open>
  \<^verbatim>\<open>nn.Embedding(n, d)\<close> holds an \<open>n\<close> by \<open>d\<close> table and returns, for a tensor of indices, the
  rows at these indices; an index outside the table raises \<^verbatim>\<open>IndexError\<close>.
  \<^verbatim>\<open>torch.sum(emb, dim=0)\<close> adds the rows up, starting from the zero vector of length \<open>d\<close>;
  \<^verbatim>\<open>out.view(1, -1)\<close> makes the vector the only row of a matrix; \<^verbatim>\<open>nn.Linear\<close> maps a row
  \<open>r\<close> to \<open>r\<close> times the transposed weight plus the bias. The elementwise operations pair
  up entries of operands of equal shape, which is how the notebooks use them.
\<close>

record embedding =
  num_embeddings :: nat
  embedding_dim :: nat
  weight :: matrix

definition embedding_call :: "embedding \<Rightarrow> nat list \<Rightarrow> py_error + matrix" where
  "embedding_call E x =
     (if list_all (\<lambda>i. i < num_embeddings E) x
      then Inr (map (\<lambda>i. weight E ! i) x) else Inl IndexError)"

definition vec_add :: "vector \<Rightarrow> vector \<Rightarrow> vector" where
  "vec_add a b = map2 (+) a b"

definition torch_sum_dim0 :: "nat \<Rightarrow> matrix \<Rightarrow> vector" where
  "torch_sum_dim0 n emb = foldl vec_add (replicate n 0) emb"

definition view_1 :: "vector \<Rightarrow> matrix" where
  "view_1 out = [out]"

definition dot :: "vector \<Rightarrow> vector \<Rightarrow> real" where
  "dot a b = sum_list (map2 (*) a b)"

record linear =
  in_features :: nat
  out_features :: nat
  lin_weight :: matrix
  lin_bias :: vector

definition linear_call :: "linear \<Rightarrow> matrix \<Rightarrow> matrix" where
  "linear_call L inp = map (\<lambda>row. vec_add (map (dot row) (lin_weight L)) (lin_bias L)) inp"

record BoW =
  bow_embedding :: embedding
  bow_bias :: vector

definition BoW_forward :: "BoW \<Rightarrow> nat list \<Rightarrow> py_error + matrix" where
  "BoW_forward self x =
     (case embedding_call (bow_embedding self) x of
        Inl e \<Rightarrow> Inl e
      | Inr emb \<Rightarrow>
         (let out = vec_add (torch_sum_dim0 (embedding_dim (bow_embedding self)) emb) (bow_bias self);
              out = view_1 out
          in Inr out))"

record CBoW =
  cbow_embedding :: embedding
  cbow_linear :: linear

definition CBoW_forward :: "CBoW \<Rightarrow> nat list \<Rightarrow> py_error + matrix" where
  "CBoW_forward self x =
     (case embedding_call (cbow_embedding self) x of
        Inl e \<Rightarrow> Inl e
      | Inr emb \<Rightarrow>
         (let out = torch_sum_dim0 (embedding_dim (cbow_embedding self)) emb;
              out = view_1 out;
              out = linear_call (cbow_linear self) out
          in Inr out))"

definition embedding_ok :: "embedding \<Rightarrow> bool" where
  \<comment> \<open>the table has the shape its constructor was given\<close>
  "embedding_ok E = (length (weight E) = num_embeddings E
                     \<and> list_all (\<lambda>row. length row = embedding_dim E) (weight E))"


section \<open>The from-scratch network\<close>

subsection \<open>Tensor primitives\<close>

text \<open>
  \<^verbatim>\<open>torch.matmul\<close> of two matrices and of a vector with a matrix, \<^verbatim>\<open>torch.t\<close>, the elementwise
  \<open>+\<close>, \<open>-\<close> and \<open>*\<close> of tensors of equal shape, \<^verbatim>\<open>torch.mean\<close> over all entries,
  \<^verbatim>\<open>torch.max(A, 0)\<close> (the maxima of the columns) and \<^verbatim>\<open>torch.div\<close> of a matrix by a row. The
  shapes are fixed by literals in the notebook: \<open>X\<close> is 3 by 2, \<open>y\<close> is 3 by 1, \<open>W1\<close> is 2 by 3
  and \<open>W2\<close> is 3 by 1.
\<close>

definition matmul :: "matrix \<Rightarrow> matrix \<Rightarrow> matrix" where
  "matmul A B = map (\<lambda>row. map (dot row) (transpose B)) A"

definition matmul_1d :: "vector \<Rightarrow> matrix \<Rightarrow> vector" where
  "matmul_1d v B = map (dot v) (transpose B)"

definition torch_t :: "matrix \<Rightarrow> matrix" where
  "torch_t A = transpose A"

definition mat_add :: "matrix \<Rightarrow> matrix \<Rightarrow> matrix" where
  "mat_add A B = map2 (map2 (+)) A B"

definition mat_sub :: "matrix \<Rightarrow> matrix \<Rightarrow> matrix" where
  "mat_sub A B = map2 (map2 (-)) A B"

definition mat_mul :: "matrix \<Rightarrow> matrix \<Rightarrow> matrix" where
  "mat_mul A B = map2 (map2 (*)) A B"

definition torch_mean :: "matrix \<Rightarrow> real" where
  "torch_mean A = sum_list (concat A) / real (length (concat A))"

definition torch_max_dim0 :: "matrix \<Rightarrow> vector" where
  "torch_max_dim0 A = map (\<lambda>col. fold max (tl col) (hd col)) (transpose A)"

definition torch_div :: "matrix \<Rightarrow> vector \<Rightarrow> matrix" where
  "torch_div A v = map (\<lambda>row. map2 (/) row v) A"

text \<open>
  \<^verbatim>\<open>sigmoid\<close> is \<^verbatim>\<open>1 / (1 + torch.exp(-s))\<close> and \<^verbatim>\<open>sigmoidPrime\<close> is \<^verbatim>\<open>s * (1 - s)\<close>, both
  elementwise; \<open>sigmoid_r\<close> and \<open>sigmoidPrime_r\<close> are what they do to one entry.
\<close>

definition sigmoid_r :: "real \<Rightarrow> real" where
  "sigmoid_r s = 1 / (1 + exp (- s))"

definition sigmoidPrime_r :: "real \<Rightarrow> real" where
  "sigmoidPrime_r s = s * (1 - s)"

definition sigmoid :: "matrix \<Rightarrow> matrix" where
  "sigmoid s = map (map sigmoid_r) s"

definition sigmoidPrime :: "matrix \<Rightarrow> matrix" where
  "sigmoidPrime s = map (map sigmoidPrime_r) s"

subsection \<open>The class \<open>Neural_Network\<close>\<close>

text \<open>
  The object's attributes. The constructor sets the two weight matrices from
  \<^verbatim>\<open>torch.randn\<close>, whose draws are arguments here; the other attributes come into being
  when \<open>forward\<close> and \<open>backward\<close> first assign them and are empty until then. \<open>forward\<close>
  returns its output together with the updated object.
\<close>

record Neural_Network =
  W1 :: matrix
  W2 :: matrix
  z :: matrix
  z2 :: matrix
  z3 :: matrix
  o_error :: matrix
  o_delta :: matrix
  z2_error :: matrix
  z2_delta :: matrix

definition Neural_Network_init :: "matrix \<Rightarrow> matrix \<Rightarrow> Neural_Network" where
  "Neural_Network_init randn1 randn2 =
     \<lparr>W1 = randn1, W2 = randn2, z = [], z2 = [], z3 = [],
      o_error = [], o_delta = [], z2_error = [], z2_delta = []\<rparr>"

definition forward :: "Neural_Network \<Rightarrow> matrix \<Rightarrow> matrix \<times> Neural_Network" where
  "forward self X =
     (let self = self\<lparr>z := matmul X (W1 self)\<rparr>;
          self = self\<lparr>z2 := sigmoid (z self)\<rparr>;
          self = self\<lparr>z3 := matmul (z2 self) (W2 self)\<rparr>;
          out = sigmoid (z3 self)
      in (out, self))"

definition backward :: "Neural_Network \<Rightarrow> matrix \<Rightarrow> matrix \<Rightarrow> matrix \<Rightarrow> Neural_Network" where
  "backward self X y out =
     (let self = self\<lparr>o_error := mat_sub y out\<rparr>;
          self = self\<lparr>o_delta := mat_mul (o_error self) (sigmoidPrime out)\<rparr>;
          self = self\<lparr>z2_error := matmul (o_delta self) (torch_t (W2 self))\<rparr>;
          self = self\<lparr>z2_delta := mat_mul (z2_error self) (sigmoidPrime (z2 self))\<rparr>;
          self = self\<lparr>W1 := mat_add (W1 self) (matmul (torch_t X) (z2_delta self))\<rparr>;
          self = self\<lparr>W2 := mat_add (W2 self) (matmul (torch_t (z2 self)) (o_delta self))\<rparr>
      in self)"

definition train :: "Neural_Network \<Rightarrow> matrix \<Rightarrow> matrix \<Rightarrow> Neural_Network" where
  "train self X y = (let (out, self) = forward self X in backward self X y out)"

text \<open>
  \<open>predict\<close> calls \<open>forward\<close> on the rank-1 tensor \<open>xPredicted\<close>; \<open>forward_1d\<close> is the output of
  that call. The rank-1 values the call leaves in \<open>z\<close>, \<open>z2\<close> and \<open>z3\<close> are read by nothing
  that follows and are not kept.
\<close>

definition forward_1d :: "Neural_Network \<Rightarrow> vector \<Rightarrow> vector" where
  "forward_1d self x =
     (let z = matmul_1d x (W1 self);
          z2 = map sigmoid_r z;
          z3 = matmul_1d z2 (W2 self)
      in map sigmoid_r z3)"

text \<open>The data cell and the scaling cell.\<close>

definition X_raw :: matrix where "X_raw = [[2, 9], [1, 5], [3, 6]]"
definition y_raw :: matrix where "y_raw = [[92], [100], [89]]"
definition xPredicted_raw :: vector where "xPredicted_raw = [4, 8]"

definition X_scaled :: matrix where
  "X_scaled = torch_div X_raw (torch_max_dim0 X_raw)"

definition xPredicted :: vector where
  "xPredicted = map (\<lambda>v. v / fold max (tl xPredicted_raw) (hd xPredicted_raw)) xPredicted_raw"

definition y_scaled :: matrix where
  "y_scaled = map (map (\<lambda>v. v / 100)) y_raw"


section \<open>What the notebooks print and which training calls they make\<close>

text \<open>
  A printed line is kept with the numbers it shows, before formatting: the from-scratch
  loop's \<^verbatim>\<open>"#i Loss: l"\<close>, the three lines of \<open>predict\<close>, \<^verbatim>\<open>"Finished training!"\<close>, the
  hello-world \<^verbatim>\<open>'Epoch: %d | Loss: %.4f'\<close>, the epoch log of the BoW family with its label
  (\<^verbatim>\<open>ITER\<close> or \<^verbatim>\<open>epoch\<close>), loss per sentence and two accuracies, and the three kinds of
  line of the counterfactual notebook. The calls a loop makes on the module, the loss
  and the optimizer it was given, on \<^verbatim>\<open>random.shuffle\<close> and on \<^verbatim>\<open>torch.save\<close> are recorded in
  the order they happen.
\<close>

datatype printed =
    Loss_line nat real
  | Predicted_header
  | Input_line vector
  | Output_line vector
  | Finished_training
  | Hello_line nat real
  | Log_line string nat real real real
  | Success_header
  | Feature_line string real real
  | Failure_message

datatype torch_call =
    Module_train | Module_eval | Module_call | Criterion | Zero_grad | Loss_backward
  | Optimizer_step | Random_shuffle | Torch_save

section \<open>The training cell of the from-scratch notebook\<close>

text \<open>
  The training cell of the from-scratch notebook:
  \<^verbatim>\<open>for i in range(1000): if (i % 100) == 0: print(... torch.mean((y - NN(X))**2) ...); NN.train(X, y)\<close>,
  then \<^verbatim>\<open>NN.saveWeights(NN)\<close>, \<^verbatim>\<open>NN.predict()\<close> and a last \<^verbatim>\<open>print\<close>.
\<close>

record nn_world =
  NN :: Neural_Network
  nn_calls :: "torch_call list"
  nn_stdout :: "printed list"

definition squared :: "matrix \<Rightarrow> matrix" where
  \<comment> \<open>\<^verbatim>\<open>A ** 2\<close>, elementwise\<close>
  "squared A = map (map (\<lambda>v. v * v)) A"

definition nn_loop_body :: "nn_world \<Rightarrow> nat \<Rightarrow> nn_world" where
  "nn_loop_body w i =
     (let w = (if i mod 100 = 0
               then (let (out, self) = forward (NN w) X_scaled
                     in w\<lparr>NN := self,
                          nn_stdout := nn_stdout w
                            @ [Loss_line i (torch_mean (squared (mat_sub y_scaled out)))]\<rparr>)
               else w)
      in w\<lparr>NN := train (NN w) X_scaled y_scaled\<rparr>)"

definition nn_training_loop :: "nn_world \<Rightarrow> nn_world" where
  "nn_training_loop w = foldl nn_loop_body w [0..<1000]"

definition saveWeights :: "nn_world \<Rightarrow> nn_world" where
  "saveWeights w = w\<lparr>nn_calls := nn_calls w @ [Torch_save]\<rparr>"

definition predict :: "nn_world \<Rightarrow> nn_world" where
  "predict w = w\<lparr>nn_stdout := nn_stdout w
                  @ [Predicted_header, Input_line xPredicted,
                     Output_line (forward_1d (NN w) xPredicted)]\<rparr>"

definition nn_notebook :: "matrix \<Rightarrow> matrix \<Rightarrow> nn_world" where
  "nn_notebook randn1 randn2 =
     (let w = \<lparr>NN = Neural_Network_init randn1 randn2, nn_calls = [], nn_stdout = []\<rparr>;
          w = nn_training_loop w;
          w = saveWeights w;
          w = predict w
      in w\<lparr>nn_stdout := nn_stdout w @ [Finished_training]\<rparr>)"

section \<open>Training loops over a torch module\<close>

text \<open>
  What PyTorch keeps between calls (the parameters of the module, their gradients, the
  state of the optimizer) is a value of an arbitrary type \<open>'t\<close>, and the state of the
  generator behind \<^verbatim>\<open>random.shuffle\<close> a value of type \<open>'g\<close>. The operations the loops call
  are the fields of a record: \<^verbatim>\<open>model(x)\<close>, \<^verbatim>\<open>model.train()\<close>, \<^verbatim>\<open>model.eval()\<close>,
  \<^verbatim>\<open>criterion(output, tag).item()\<close>, \<^verbatim>\<open>optimizer.zero_grad()\<close>, \<^verbatim>\<open>loss.backward()\<close> for the loss
  of the given sample, \<^verbatim>\<open>optimizer.step()\<close> and \<^verbatim>\<open>random.shuffle\<close>. \<^verbatim>\<open>train_bow\<close> receives
  the first three objects as arguments.
\<close>

record ('t, 'g) world =
  torch :: 't
  rng :: 'g
  calls :: "torch_call list"
  stdout :: "printed list"

record ('t, 'g, 'x, 'y) torch_api =
  module_call :: "'t \<Rightarrow> 'x \<Rightarrow> py_error + matrix"
  module_train :: "'t \<Rightarrow> 't"
  module_eval :: "'t \<Rightarrow> 't"
  criterion :: "matrix \<Rightarrow> 'y \<Rightarrow> real"
  zero_grad :: "'t \<Rightarrow> 't"
  loss_backward :: "'t \<Rightarrow> 'x \<Rightarrow> 'y \<Rightarrow> 't"
  optimizer_step :: "'t \<Rightarrow> 't"
  random_shuffle :: "'g \<Rightarrow> ('x \<times> 'y) list \<Rightarrow> ('x \<times> 'y) list \<times> 'g"

text \<open>
  \<^verbatim>\<open>torch.argmax(output.data.detach()).item()\<close>: the index, in the flattened tensor, of the
  first largest entry.
\<close>

fun argmax_from :: "real list \<Rightarrow> nat \<Rightarrow> real \<Rightarrow> nat \<Rightarrow> nat" where
  "argmax_from [] i best best_i = best_i"
| "argmax_from (v # vs) i best best_i =
     (if best < v then argmax_from vs (Suc i) v i else argmax_from vs (Suc i) best best_i)"

definition torch_argmax :: "matrix \<Rightarrow> nat" where
  "torch_argmax A = (case concat A of [] \<Rightarrow> 0 | v # vs \<Rightarrow> argmax_from vs 1 v 0)"

text \<open>
  The inner training loop \<^verbatim>\<open>for sentence, tag in train_data\<close> with its running
  \<^verbatim>\<open>total_loss\<close> and \<^verbatim>\<open>train_correct\<close>, and the test loop with \<^verbatim>\<open>test_correct\<close>.
\<close>

fun train_sentences ::
  "('t, 'g, nat list, nat) torch_api \<Rightarrow> (nat list \<times> nat) list \<Rightarrow>
   ('t, 'g) world \<times> real \<times> nat \<Rightarrow> py_error + ('t, 'g) world \<times> real \<times> nat" where
  "train_sentences api [] acc = Inr acc"
| "train_sentences api ((sentence, tag) # rest) (w, total_loss, train_correct) =
     (case module_call api (torch w) sentence of
        Inl e \<Rightarrow> Inl e
      | Inr output \<Rightarrow>
         (let predicted = torch_argmax output;
              loss = criterion api output tag;
              total_loss = total_loss + loss;
              w = w\<lparr>torch := zero_grad api (torch w)\<rparr>;
              w = w\<lparr>torch := loss_backward api (torch w) sentence tag\<rparr>;
              w = w\<lparr>torch := optimizer_step api (torch w)\<rparr>;
              w = w\<lparr>calls := calls w
                     @ [Module_call, Criterion, Zero_grad, Loss_backward, Optimizer_step]\<rparr>;
              train_correct = (if predicted = tag then train_correct + 1 else train_correct)
          in train_sentences api rest (w, total_loss, train_correct)))"

fun test_sentences ::
  "('t, 'g, nat list, nat) torch_api \<Rightarrow> (nat list \<times> nat) list \<Rightarrow>
   ('t, 'g) world \<times> nat \<Rightarrow> py_error + ('t, 'g) world \<times> nat" where
  "test_sentences api [] acc = Inr acc"
| "test_sentences api ((sentence, tag) # rest) (w, test_correct) =
     (case module_call api (torch w) sentence of
        Inl e \<Rightarrow> Inl e
      | Inr output \<Rightarrow>
         (let predicted = torch_argmax output;
              w = w\<lparr>calls := calls w @ [Module_call]\<rparr>;
              test_correct = (if predicted = tag then test_correct + 1 else test_correct)
          in test_sentences api rest (w, test_correct)))"

text \<open>
  One pass of the outer loop. The log line divides by \<^verbatim>\<open>len(train_data)\<close> twice and by
  \<^verbatim>\<open>len(test_data)\<close> once, in this order; Python's \<^verbatim>\<open>/\<close> raises \<^verbatim>\<open>ZeroDivisionError\<close> on 0.
  \<^verbatim>\<open>random.shuffle\<close> reorders the list in place, so the next epoch starts from the order
  this one left.
\<close>

definition py_truediv :: "real \<Rightarrow> nat \<Rightarrow> py_error + real" where
  "py_truediv a n = (if n = 0 then Inl ZeroDivisionError else Inr (a / real n))"

definition epoch ::
  "string \<Rightarrow> ('t, 'g, nat list, nat) torch_api \<Rightarrow> (nat list \<times> nat) list \<Rightarrow> nat \<Rightarrow>
   ('t, 'g) world \<times> (nat list \<times> nat) list \<Rightarrow>
   py_error + ('t, 'g) world \<times> (nat list \<times> nat) list" where
  "epoch label api test_data ITER st =
     (let (w, train_data) = st;
          w = w\<lparr>torch := module_train api (torch w), calls := calls w @ [Module_train]\<rparr>;
          (train_data, g) = random_shuffle api (rng w) train_data;
          w = w\<lparr>rng := g, calls := calls w @ [Random_shuffle]\<rparr>
      in case train_sentences api train_data (w, 0, 0) of
           Inl e \<Rightarrow> Inl e
         | Inr (w, total_loss, train_correct) \<Rightarrow>
            (let w = w\<lparr>torch := module_eval api (torch w), calls := calls w @ [Module_eval]\<rparr>
             in case test_sentences api test_data (w, 0) of
                  Inl e \<Rightarrow> Inl e
                | Inr (w, test_correct) \<Rightarrow>
                   (case py_truediv total_loss (length train_data) of
                      Inl e \<Rightarrow> Inl e
                    | Inr loss_per_sent \<Rightarrow>
                       (case py_truediv (real train_correct) (length train_data) of
                          Inl e \<Rightarrow> Inl e
                        | Inr train_acc \<Rightarrow>
                           (case py_truediv (real test_correct) (length test_data) of
                              Inl e \<Rightarrow> Inl e
                            | Inr test_acc \<Rightarrow>
                               Inr (w\<lparr>stdout := stdout w
                                       @ [Log_line label (ITER + 1) loss_per_sent train_acc test_acc]\<rparr>,
                                    train_data))))))"

fun epochs ::
  "string \<Rightarrow> ('t, 'g, nat list, nat) torch_api \<Rightarrow> (nat list \<times> nat) list \<Rightarrow> nat list \<Rightarrow>
   ('t, 'g) world \<times> (nat list \<times> nat) list \<Rightarrow>
   py_error + ('t, 'g) world \<times> (nat list \<times> nat) list" where
  "epochs label api test_data [] st = Inr st"
| "epochs label api test_data (ITER # iters) st =
     (case epoch label api test_data ITER st of
        Inl e \<Rightarrow> Inl e
      | Inr st \<Rightarrow> epochs label api test_data iters st)"

text \<open>
  \<^verbatim>\<open>train_bow\<close> of the BoW notebook and the training cell of the CBOW and Deep CBOW
  notebooks, which differ in the label of the log line only: \<^verbatim>\<open>for ... in range(10)\<close>.
\<close>

definition train_bow ::
  "('t, 'g, nat list, nat) torch_api \<Rightarrow> (nat list \<times> nat) list \<Rightarrow> (nat list \<times> nat) list \<Rightarrow>
   ('t, 'g) world \<Rightarrow> py_error + ('t, 'g) world \<times> (nat list \<times> nat) list" where
  "train_bow api train_data test_data w = epochs ''ITER'' api test_data [0..<10] (w, train_data)"

definition cbow_training ::
  "('t, 'g, nat list, nat) torch_api \<Rightarrow> (nat list \<times> nat) list \<Rightarrow> (nat list \<times> nat) list \<Rightarrow>
   ('t, 'g) world \<Rightarrow> py_error + ('t, 'g) world \<times> (nat list \<times> nat) list" where
  "cbow_training api train_data test_data w = epochs ''epoch'' api test_data [0..<10] (w, train_data)"

subsection \<open>The hello-world loop\<close>

text \<open>
  \<^verbatim>\<open>for ITER in range(150)\<close> over the fixed tensors \<open>x\<close> and \<open>y\<close>; every iteration prints.
\<close>

definition hello_x :: matrix where "hello_x = [[-1], [0], [1], [2], [3], [4]]"
definition hello_y :: matrix where "hello_y = [[-3], [-1], [1], [3], [5], [7]]"

definition hello_body ::
  "('t, 'g, matrix, matrix) torch_api \<Rightarrow> nat \<Rightarrow> ('t, 'g) world \<Rightarrow> py_error + ('t, 'g) world" where
  "hello_body api ITER w =
     (let w = w\<lparr>torch := module_train api (torch w), calls := calls w @ [Module_train]\<rparr>
      in case module_call api (torch w) hello_x of
           Inl e \<Rightarrow> Inl e
         | Inr output \<Rightarrow>
            (let loss = criterion api output hello_y;
                 w = w\<lparr>torch := zero_grad api (torch w)\<rparr>;
                 w = w\<lparr>torch := loss_backward api (torch w) hello_x hello_y\<rparr>;
                 w = w\<lparr>torch := optimizer_step api (torch w)\<rparr>;
                 w = w\<lparr>torch := module_eval api (torch w)\<rparr>;
                 w = w\<lparr>calls := calls w
                        @ [Module_call, Criterion, Zero_grad, Loss_backward, Optimizer_step,
                           Module_eval]\<rparr>
             in Inr (w\<lparr>stdout := stdout w @ [Hello_line ITER loss]\<rparr>)))"

fun hello_loop ::
  "('t, 'g, matrix, matrix) torch_api \<Rightarrow> nat list \<Rightarrow> ('t, 'g) world \<Rightarrow> py_error + ('t, 'g) world" where
  "hello_loop api [] w = Inr w"
| "hello_loop api (ITER # iters) w =
     (case hello_body api ITER w of Inl e \<Rightarrow> Inl e | Inr w \<Rightarrow> hello_loop api iters w)"

definition hello_training ::
  "('t, 'g, matrix, matrix) torch_api \<Rightarrow> ('t, 'g) world \<Rightarrow> py_error + ('t, 'g) world" where
  "hello_training api w = hello_loop api [0..<150] w"

section \<open>Assumptions on the library and the calls of a run\<close>

text \<open>
  The loops are studied for modules that return scores on every sample of the data and
  for a shuffle that returns a reordering of its argument. \<open>sample_calls\<close> are the calls of
  one pass of the inner training loop, \<open>epoch_calls n m\<close> those of one epoch over \<open>n\<close>
  training and \<open>m\<close> test samples, \<open>hello_calls\<close> those of one hello-world iteration.
\<close>

definition module_accepts ::
  "('t, 'g, 'x, 'y) torch_api \<Rightarrow> ('x \<times> 'y) list \<Rightarrow> bool" where
  \<comment> \<open>calling the module on any sample of the data returns scores, whatever its state\<close>
  "module_accepts api data = (\<forall>t. \<forall>(x, y) \<in> set data. \<exists>output. module_call api t x = Inr output)"

definition shuffle_permutes :: "('t, 'g, 'x, 'y) torch_api \<Rightarrow> bool" where
  \<comment> \<open>\<^verbatim>\<open>random.shuffle\<close> reorders the list it is given\<close>
  "shuffle_permutes api = (\<forall>g xs. mset (fst (random_shuffle api g xs)) = mset xs)"

definition sample_calls :: "torch_call list" where
  "sample_calls = [Module_call, Criterion, Zero_grad, Loss_backward, Optimizer_step]"

definition epoch_calls :: "nat \<Rightarrow> nat \<Rightarrow> torch_call list" where
  "epoch_calls n m =
     [Module_train, Random_shuffle] @ concat (replicate n sample_calls)
       @ [Module_eval] @ replicate m Module_call"

definition hello_calls :: "torch_call list" where
  "hello_calls =
     [Module_train, Module_call, Criterion, Zero_grad, Loss_backward, Optimizer_step, Module_eval]"

subsection \<open>Runs that consist of library calls only\<close>

text \<open>
  To say that a loop leaves the loss and the update of the parameters to the library, the
  loops are compared with the following compositions of library operations, which contain
  no arithmetic on parameters or gradients. \<open>library_step\<close> is what the three calls
  \<^verbatim>\<open>optimizer.zero_grad(); loss.backward(); optimizer.step()\<close> do to the state for one sample,
  \<open>library_scores\<close> are the scores the module returns along a pass over the data, each
  with the tag of its sample, \<open>library_epoch\<close> is one epoch (shuffle, \<^verbatim>\<open>model.train()\<close>, one
  step per sample, \<^verbatim>\<open>model.eval()\<close>) and \<open>library_hello_step\<close> one hello-world iteration.
\<close>

definition library_step :: "('t, 'g, 'x, 'y) torch_api \<Rightarrow> 't \<Rightarrow> 'x \<times> 'y \<Rightarrow> 't" where
  "library_step api t s = optimizer_step api (loss_backward api (zero_grad api t) (fst s) (snd s))"

fun library_scores ::
  "('t, 'g, 'x, 'y) torch_api \<Rightarrow> 't \<Rightarrow> ('x \<times> 'y) list \<Rightarrow> (matrix \<times> 'y) list" where
  "library_scores api t [] = []"
| "library_scores api t (s # rest) =
     (projr (module_call api t (fst s)), snd s) # library_scores api (library_step api t s) rest"

definition library_epoch ::
  "('t, 'g, 'x, 'y) torch_api \<Rightarrow> 't \<times> 'g \<times> ('x \<times> 'y) list \<Rightarrow> 't \<times> 'g \<times> ('x \<times> 'y) list" where
  "library_epoch api st =
     (let (t, g, train_data) = st;
          (train_data, g) = random_shuffle api g train_data
      in (module_eval api (foldl (library_step api) (module_train api t) train_data),
          g, train_data))"

definition library_hello_step :: "('t, 'g, matrix, matrix) torch_api \<Rightarrow> 't \<Rightarrow> 't" where
  "library_hello_step api t =
     module_eval api (library_step api (module_train api t) (hello_x, hello_y))"

definition library_hello_loss :: "('t, 'g, matrix, matrix) torch_api \<Rightarrow> 't \<Rightarrow> real" where
  \<comment> \<open>the value of \<^verbatim>\<open>criterion(model(x), y)\<close> in an iteration that starts in state \<open>t\<close>\<close>
  "library_hello_loss api t =
     criterion api (projr (module_call api (module_train api t) hello_x)) hello_y"

text \<open>One step of the from-scratch loop and the loss it would print.\<close>

definition nn_step :: "Neural_Network \<Rightarrow> Neural_Network" where
  \<comment> \<open>one \<^verbatim>\<open>NN.train(X, y)\<close> on the notebook's data\<close>
  "nn_step self = train self X_scaled y_scaled"

definition nn_loss :: "Neural_Network \<Rightarrow> real" where
  \<comment> \<open>\<^verbatim>\<open>torch.mean((y - NN(X))**2).detach().item()\<close>\<close>
  "nn_loss self = torch_mean (squared (mat_sub y_scaled (fst (forward self X_scaled))))"


section \<open>The counterfactual-explanation notebook\<close>

subsection \<open>Picking the user and showing the explanation\<close>

text \<open>
  The black-box classifier, the genetic search and NumPy are external: \<^verbatim>\<open>bbm.predict\<close> on
  one row is a function from a feature vector to a class label, \<^verbatim>\<open>cogs.elite\<close> is the
  vector the search returned, and \<^verbatim>\<open>np.round\<close> is a function \<open>np_round\<close> of a value and a
  number of decimals, about which nothing is assumed. Feature values are exact reals.
\<close>

definition np_sub :: "vector \<Rightarrow> vector \<Rightarrow> py_error + vector" where
  \<comment> \<open>\<^verbatim>\<open>a - b\<close> on rank-1 arrays, with NumPy's broadcasting of a length-1 operand\<close>
  "np_sub a b =
     (if length a = length b then Inr (map2 (-) a b)
      else if length b = 1 then Inr (map (\<lambda>v. v - b ! 0) a)
      else if length a = 1 then Inr (map (\<lambda>v. a ! 0 - v) b)
      else Inl ValueError)"

definition pick_user :: "(vector \<Rightarrow> int) \<Rightarrow> int \<Rightarrow> matrix \<Rightarrow> py_error + vector" where
  \<comment> \<open>\<^verbatim>\<open>idx = np.argwhere(p != desired_class).squeeze()[-1]; x = X_test[idx]\<close>:
      with no hit the squeezed array is empty, with one hit it is 0-dimensional, and
      indexing either with \<^verbatim>\<open>[-1]\<close> raises \<^verbatim>\<open>IndexError\<close>\<close>
  "pick_user bbm_predict desired_class X_test =
     (let p = map bbm_predict X_test;
          hits = filter (\<lambda>i. p ! i \<noteq> desired_class) [0..<length p]
      in if length hits \<le> 1 then Inl IndexError else Inr (X_test ! last hits))"

text \<open>
  The last cell: \<^verbatim>\<open>cf_example = cogs.elite; cf_explanation = cogs.elite - x\<close>, then the test
  \<^verbatim>\<open>bbm.predict([cf_example])[0] == desired_class\<close>; in the success branch the loop
  \<^verbatim>\<open>for i, feat in enumerate(feature_names)\<close> prints the features with
  \<^verbatim>\<open>cf_explanation[i] != 0\<close>, each with \<^verbatim>\<open>np.round(x[i], 3)\<close> and
  \<^verbatim>\<open>np.round(cf_example[i], 3)\<close>.
\<close>

fun explanation_lines ::
  "(real \<Rightarrow> nat \<Rightarrow> real) \<Rightarrow> (nat \<times> string) list \<Rightarrow> vector \<Rightarrow> vector \<Rightarrow> vector \<Rightarrow>
   py_error + printed list" where
  "explanation_lines np_round [] cf_explanation x cf_example = Inr []"
| "explanation_lines np_round ((i, feat) # rest) cf_explanation x cf_example =
     (case list_get cf_explanation i of
        Inl e \<Rightarrow> Inl e
      | Inr change \<Rightarrow>
         (if change \<noteq> 0 then
            (case list_get x i of
               Inl e \<Rightarrow> Inl e
             | Inr x_i \<Rightarrow>
                (case list_get cf_example i of
                   Inl e \<Rightarrow> Inl e
                 | Inr cf_i \<Rightarrow>
                    (case explanation_lines np_round rest cf_explanation x cf_example of
                       Inl e \<Rightarrow> Inl e
                     | Inr lines \<Rightarrow>
                        Inr (Feature_line feat (np_round x_i 3) (np_round cf_i 3) # lines))))
          else explanation_lines np_round rest cf_explanation x cf_example))"

record explanation_cell =
  cf_example :: vector
  cf_explanation :: vector
  cell_stdout :: "printed list"

definition show_explanation ::
  "(real \<Rightarrow> nat \<Rightarrow> real) \<Rightarrow> (vector \<Rightarrow> int) \<Rightarrow> int \<Rightarrow> string list \<Rightarrow> vector \<Rightarrow> vector \<Rightarrow>
   py_error + explanation_cell" where
  "show_explanation np_round bbm_predict desired_class feature_names x elite =
     (case np_sub elite x of
        Inl e \<Rightarrow> Inl e
      | Inr diff \<Rightarrow>
         (if bbm_predict elite = desired_class then
            (case explanation_lines np_round (enumerate 0 feature_names) diff x elite of
               Inl e \<Rightarrow> Inl e
             | Inr lines \<Rightarrow>
                Inr \<lparr>cf_example = elite, cf_explanation = diff,
                     cell_stdout = Success_header # lines\<rparr>)
          else Inr \<lparr>cf_example = elite, cf_explanation = diff,
                    cell_stdout = [Failure_message]\<rparr>))"

definition desired_class :: int where
  \<comment> \<open>\<^verbatim>\<open>desired_class = 1 # this means "low risk"\<close>\<close>
  "desired_class = 1"


subsection \<open>Splitting, fitting and scoring in the counterfactual notebook\<close>

text \<open>
  scikit-learn and NumPy are external. NumPy keeps one global generator, whose state is a
  value of an arbitrary type \<open>'g\<close>; the state it has when the notebook starts is an input
  of the run. \<open>RandomState sk seed\<close> is the state of a generator seeded with \<open>seed\<close>.
  What a library function does with a generator is a field of the record: it returns its
  result together with the state the generator is left in.

  \<^verbatim>\<open>np.random.seed(seed)\<close> puts the global generator into the state of that seed. A
  scikit-learn function called with \<^verbatim>\<open>random_state=seed\<close> draws from a generator of its own,
  seeded with \<open>seed\<close>, and leaves the global one alone; called without \<^verbatim>\<open>random_state\<close> it
  draws from the global generator, which moves on.
\<close>

record ('f, 'g) sklearn_api =
  RandomState :: "nat \<Rightarrow> 'g"
  split_with :: "'g \<Rightarrow> matrix \<Rightarrow> int list \<Rightarrow> real \<Rightarrow> (matrix \<times> matrix \<times> int list \<times> int list) \<times> 'g"
  fit_with :: "'g \<Rightarrow> matrix \<Rightarrow> int list \<Rightarrow> 'f \<times> 'g"
  forest_predict :: "'f \<Rightarrow> matrix \<Rightarrow> int list"
  accuracy_score :: "int list \<Rightarrow> int list \<Rightarrow> real"
  balanced_accuracy_score :: "int list \<Rightarrow> int list \<Rightarrow> real"

definition np_random_seed :: "('f, 'g) sklearn_api \<Rightarrow> nat \<Rightarrow> 'g \<Rightarrow> 'g" where
  \<comment> \<open>\<^verbatim>\<open>np.random.seed(seed)\<close>, as a change of the global generator\<close>
  "np_random_seed sk seed g = RandomState sk seed"

definition train_test_split ::
  "('f, 'g) sklearn_api \<Rightarrow> matrix \<Rightarrow> int list \<Rightarrow> real \<Rightarrow> nat option \<Rightarrow> 'g \<Rightarrow>
   (matrix \<times> matrix \<times> int list \<times> int list) \<times> 'g" where
  \<comment> \<open>\<^verbatim>\<open>train_test_split(X, y, test_size=..., random_state=...)\<close> with the global generator
      before and after\<close>
  "train_test_split sk X y test_size random_state g =
     (case random_state of
        None \<Rightarrow> split_with sk g X y test_size
      | Some seed \<Rightarrow> (fst (split_with sk (RandomState sk seed) X y test_size), g))"

definition forest_fit ::
  "('f, 'g) sklearn_api \<Rightarrow> nat option \<Rightarrow> matrix \<Rightarrow> int list \<Rightarrow> 'g \<Rightarrow> 'f \<times> 'g" where
  \<comment> \<open>\<^verbatim>\<open>RandomForestClassifier(random_state=..., ...).fit(X_train, y_train)\<close>\<close>
  "forest_fit sk random_state X y g =
     (case random_state of
        None \<Rightarrow> fit_with sk g X y
      | Some seed \<Rightarrow> (fst (fit_with sk (RandomState sk seed) X y), g))"

text \<open>
  The cells of the notebook up to the accuracy line, started with the global generator in
  state \<open>g0\<close>: \<^verbatim>\<open>SEED = 42; np.random.seed(SEED)\<close>, then
  \<^verbatim>\<open>train_test_split(X, y, test_size=0.1, random_state=SEED)\<close>, then
  \<^verbatim>\<open>bbm = RandomForestClassifier(random_state=SEED, ...); bbm.fit(X_train, y_train)\<close>, then the
  two scores of \<^verbatim>\<open>bbm.predict(X_test)\<close> against \<^verbatim>\<open>y_test\<close>.
\<close>

record ('f, 'g) cf_world =
  cf_np_rng :: 'g
  cf_X_train :: matrix
  cf_X_test :: matrix
  cf_y_train :: "int list"
  cf_y_test :: "int list"
  cf_bbm :: 'f
  cf_acc :: real
  cf_bal_acc :: real

definition SEED :: nat where
  "SEED = 42"

definition cf_training :: "('f, 'g) sklearn_api \<Rightarrow> 'g \<Rightarrow> matrix \<Rightarrow> int list \<Rightarrow> ('f, 'g) cf_world" where
  "cf_training sk g0 X y =
     (let g = np_random_seed sk SEED g0;
          ((Xtr, Xte, ytr, yte), g) = train_test_split sk X y (1 / 10) (Some SEED) g;
          (bbm, g) = forest_fit sk (Some SEED) Xtr ytr g
      in \<lparr>cf_np_rng = g, cf_X_train = Xtr, cf_X_test = Xte, cf_y_train = ytr, cf_y_test = yte,
          cf_bbm = bbm,
          cf_acc = accuracy_score sk yte (forest_predict sk bbm Xte),
          cf_bal_acc = balanced_accuracy_score sk yte (forest_predict sk bbm Xte)\<rparr>)"


section \<open>The computational-graph notebook\<close>

text \<open>
  PyTorch's autograd engine is external. What it keeps (the tensors created so far, the
  graph recording how each was computed, the gradients stored) is a value of an arbitrary
  type \<open>'s\<close>, and a tensor is a handle of type \<open>'v\<close> into it. The operations the notebook
  calls are the fields of a record: \<^verbatim>\<open>torch.tensor(data, requires_grad=...)\<close>, \<^verbatim>\<open>u + v\<close>,
  \<^verbatim>\<open>u + k\<close> for a number \<open>k\<close>, \<^verbatim>\<open>u * v\<close>, \<^verbatim>\<open>u.retain_grad()\<close>, \<^verbatim>\<open>u.backward()\<close>, the data of a tensor
  as \<^verbatim>\<open>print\<close> shows it, and \<^verbatim>\<open>u.grad\<close>, which is \<^verbatim>\<open>None\<close> or a tensor.
\<close>

record ('s, 'v) autograd_api =
  torch_tensor :: "real list \<Rightarrow> bool \<Rightarrow> 's \<Rightarrow> 'v \<times> 's"
  tensor_add :: "'v \<Rightarrow> 'v \<Rightarrow> 's \<Rightarrow> 'v \<times> 's"
  tensor_add_scalar :: "'v \<Rightarrow> real \<Rightarrow> 's \<Rightarrow> 'v \<times> 's"
  tensor_mul :: "'v \<Rightarrow> 'v \<Rightarrow> 's \<Rightarrow> 'v \<times> 's"
  retain_grad :: "'v \<Rightarrow> 's \<Rightarrow> 's"
  tensor_backward :: "'v \<Rightarrow> 's \<Rightarrow> 's"
  tensor_data :: "'v \<Rightarrow> 's \<Rightarrow> real list"
  tensor_grad :: "'v \<Rightarrow> 's \<Rightarrow> real list option"

datatype cg_printed =
    Tensor_line "real list"
  | Grad_line "real list option list"

text \<open>
  The cells in order. \<open>cg_inputs\<close>: \<^verbatim>\<open>a = torch.tensor([2.], requires_grad=True)\<close> and
  \<^verbatim>\<open>b = torch.tensor([1.], requires_grad=True)\<close>. \<open>cg_operations\<close>: \<^verbatim>\<open>c = a + b; d = b + 1; e = c * d\<close>
  and the three \<^verbatim>\<open>retain_grad()\<close>. Then \<^verbatim>\<open>print(e)\<close>, \<^verbatim>\<open>e.backward()\<close>, \<^verbatim>\<open>print(a.grad)\<close>,
  \<^verbatim>\<open>print(b.grad)\<close> and \<^verbatim>\<open>print(a.grad, b.grad, c.grad, d.grad, e.grad)\<close>.
\<close>

definition cg_inputs :: "('s, 'v) autograd_api \<Rightarrow> 's \<Rightarrow> 'v \<times> 'v \<times> 's" where
  "cg_inputs ag s =
     (let (a, s) = torch_tensor ag [2] True s;
          (b, s) = torch_tensor ag [1] True s
      in (a, b, s))"

definition cg_operations ::
  "('s, 'v) autograd_api \<Rightarrow> 'v \<Rightarrow> 'v \<Rightarrow> 's \<Rightarrow> 'v \<times> 'v \<times> 'v \<times> 's" where
  "cg_operations ag a b s =
     (let (c, s) = tensor_add ag a b s;
          (d, s) = tensor_add_scalar ag b 1 s;
          (e, s) = tensor_mul ag c d s;
          s = retain_grad ag c s;
          s = retain_grad ag d s;
          s = retain_grad ag e s
      in (c, d, e, s))"

definition cg_notebook :: "('s, 'v) autograd_api \<Rightarrow> 's \<Rightarrow> 's \<times> cg_printed list" where
  "cg_notebook ag s =
     (let (a, b, s) = cg_inputs ag s;
          (c, d, e, s) = cg_operations ag a b s;
          out = [Tensor_line (tensor_data ag e s)];
          s = tensor_backward ag e s;
          out = out @ [Grad_line [tensor_grad ag a s]];
          out = out @ [Grad_line [tensor_grad ag b s]];
          out = out @ [Grad_line [tensor_grad ag a s, tensor_grad ag b s, tensor_grad ag c s,
                                  tensor_grad ag d s, tensor_grad ag e s]]
      in (s, out))"

section \<open>Example inputs\<close>

text \<open>
  Two small dataset files, the dictionaries and tensors the pipeline builds from them,
  and a BoW and a CBoW module over the resulting vocabulary of 7 words.
\<close>

definition example_train :: "string list" where
  "example_train = [''3 ||| I love dogs\<newline>'', ''1 ||| i hate Rain\<newline>'']"

definition example_test :: "string list" where
  "example_test = [''1 ||| dogs hate cats\<newline>'', ''4 ||| <unk> rain'']"

definition example_v1 :: vocab where
  "example_v1 = \<lparr>word_to_index = [(''<unk>'', 0), (''i'', 1), (''love'', 2), (''dogs'', 3),
                                    (''hate'', 4), (''rain'', 5)],
                 tag_to_index = [(''3'', 0), (''1'', 1)]\<rparr>"

definition example_v2 :: vocab where
  "example_v2 = \<lparr>word_to_index = [(''<unk>'', 0), (''i'', 1), (''love'', 2), (''dogs'', 3),
                                    (''hate'', 4), (''rain'', 5), (''cats'', 0)],
                 tag_to_index = [(''3'', 0), (''1'', 1), (''4'', 2)]\<rparr>"

definition example_bow :: BoW where
  "example_bow = \<lparr>bow_embedding = \<lparr>num_embeddings = 7, embedding_dim = 2,
                                     weight = [[0, 1], [1, 2], [2, 3], [3, 4], [4, 5], [5, 6], [6, 7]]\<rparr>,
                  bow_bias = [0, 0]\<rparr>"

definition example_cbow :: CBoW where
  "example_cbow = \<lparr>cbow_embedding = \<lparr>num_embeddings = 7, embedding_dim = 2,
                                       weight = [[0, 1], [1, 2], [2, 3], [3, 4], [4, 5], [5, 6], [6, 7]]\<rparr>,
                   cbow_linear = \<lparr>in_features = 2, out_features = 3,
                                  lin_weight = [[1, 0], [0, 1], [1, 1]], lin_bias = [0, 1, 2]\<rparr>\<rparr>"

definition example_train_tensors :: "(nat list \<times> nat) list" where
  "example_train_tensors = [([1, 2, 3], 0), ([1, 4, 5], 1)]"

definition example_test_tensors :: "(nat list \<times> nat) list" where
  "example_test_tensors = [([3, 4, 0], 1), ([0, 5], 2)]"

definition example_dataset :: dataset where
  "example_dataset = \<lparr>train_tensors = example_train_tensors, test_tensors = example_test_tensors,
                        number_of_words = 7, number_of_tags = 3\<rparr>"

subsection \<open>A classifier and a search result\<close>

text \<open>The classifier of the examples predicts class 1 from a duration of at least 1.\<close>

definition example_predict :: "vector \<Rightarrow> int" where
  "example_predict v = (if 1 \<le> hd v then 1 else 0)"

text \<open>
  The rounding of the examples: to the given number of decimals on the exact value, a tie
  going to the even neighbour.
\<close>

definition rint :: "real \<Rightarrow> int" where
  "rint r =
     (let f = \<lfloor>r\<rfloor>; d = r - of_int f
      in if d < 1 / 2 then f else if 1 / 2 < d then f + 1 else if even f then f else f + 1)"

definition example_round :: "real \<Rightarrow> nat \<Rightarrow> real" where
  "example_round v decimals = of_int (rint (v * 10 ^ decimals)) / 10 ^ decimals"

definition example_features :: "string list" where
  "example_features = [''duration'', ''amount'', ''age'']"

definition example_X_test :: matrix where
  "example_X_test = [[0, 1000, 30], [2, 500, 20], [0, 2000, 40]]"

definition example_cell :: explanation_cell where
  "example_cell = \<lparr>cf_example = [5, 2000, 40], cf_explanation = [5, 0, 0],
                    cell_stdout = [Success_header, Feature_line ''duration'' 0 5]\<rparr>"

subsection \<open>A small learner to run the loops on\<close>

text \<open>
  \<^verbatim>\<open>train_bow(model, optimizer, criterion, train_data)\<close> takes its model, optimizer and loss
  as arguments. The instance below is a learner that scores class \<open>p\<close> highest, where \<open>p\<close>
  is its single parameter, and whose optimizer step stores the tag of the last sample
  seen; its loss is 0 on a correct prediction and 1 otherwise. The shuffle of generator
  state 1 reverses the list and moves to state 2; every other state leaves the order
  alone.
\<close>

definition toy_scores :: "nat \<Rightarrow> matrix" where
  "toy_scores p = [map (\<lambda>k. if k = p then 1 else 0) [0..<3]]"

definition toy_api :: "(nat \<times> nat, nat, nat list, nat) torch_api" where
  "toy_api =
     \<lparr>module_call = (\<lambda>t x. Inr (toy_scores (fst t))),
      module_train = (\<lambda>t. t),
      module_eval = (\<lambda>t. t),
      criterion = (\<lambda>output tag. if torch_argmax output = tag then 0 else 1),
      zero_grad = (\<lambda>t. (fst t, 0)),
      loss_backward = (\<lambda>t x tag. (fst t, tag)),
      optimizer_step = (\<lambda>t. (snd t, snd t)),
      random_shuffle = (\<lambda>g xs. if g = 1 then (rev xs, 2) else (xs, g))\<rparr>"

definition toy_world :: "nat \<Rightarrow> (nat \<times> nat, nat) world" where
  "toy_world g = \<lparr>torch = (0, 0), rng = g, calls = [], stdout = []\<rparr>"

definition toy_train :: "(nat list \<times> nat) list" where
  "toy_train = [([1, 2], 0), ([3], 1)]"

definition toy_test :: "(nat list \<times> nat) list" where
  "toy_test = [([1], 0)]"

text \<open>
  For the hello-world loop: a linear model \<open>x \<mapsto> w x\<close> with the mean squared error as
  its loss and an optimizer that leaves \<open>w\<close> alone.
\<close>

definition toy_hello_api :: "(real, nat, matrix, matrix) torch_api" where
  "toy_hello_api =
     \<lparr>module_call = (\<lambda>w x. Inr (map (map (\<lambda>v. v * w)) x)),
      module_train = (\<lambda>t. t),
      module_eval = (\<lambda>t. t),
      criterion = (\<lambda>output y. torch_mean (squared (mat_sub output y))),
      zero_grad = (\<lambda>t. t),
      loss_backward = (\<lambda>t x y. t),
      optimizer_step = (\<lambda>t. t),
      random_shuffle = (\<lambda>g xs. (xs, g))\<rparr>"

text \<open>
  A second instance for the hello-world loop that does learn: the model \<open>x \<mapsto> w x + b\<close>,
  the mean squared error, its two partial derivatives as what \<^verbatim>\<open>loss.backward()\<close> adds to
  the stored gradients, and a descent step of rate 1/100. The state is
  \<open>(w, b, grad_w, grad_b)\<close>.
\<close>

definition sgd_hello_api :: "(real \<times> real \<times> real \<times> real, nat, matrix, matrix) torch_api" where
  "sgd_hello_api =
     \<lparr>module_call = (\<lambda>(w, b, gw, gb) x. Inr (map (map (\<lambda>v. w * v + b)) x)),
      module_train = (\<lambda>t. t),
      module_eval = (\<lambda>t. t),
      criterion = (\<lambda>scores y. torch_mean (squared (mat_sub scores y))),
      zero_grad = (\<lambda>(w, b, gw, gb). (w, b, 0, 0)),
      loss_backward = (\<lambda>(w, b, gw, gb) x y.
         (w, b,
          gw + torch_mean (map2 (map2 (\<lambda>v u. 2 * (w * v + b - u) * v)) x y),
          gb + torch_mean (map2 (map2 (\<lambda>v u. 2 * (w * v + b - u))) x y))),
      optimizer_step = (\<lambda>(w, b, gw, gb). (w - gw / 100, b - gb / 100, gw, gb)),
      random_shuffle = (\<lambda>g xs. (xs, g))\<rparr>"

subsection \<open>A small scikit-learn to split and fit with\<close>

text \<open>
  A generator is a number and the seed is its first state. Splitting rotates the rows by
  the state of the generator, puts the first row into the test set and moves the
  generator on; fitting returns as model the state of the generator, which moves on;
  the model predicts its own number for every row.
\<close>

definition toy_sklearn :: "(nat, nat) sklearn_api" where
  "toy_sklearn =
     \<lparr>RandomState = (\<lambda>seed. seed),
      split_with = (\<lambda>g X y test_size.
         ((drop 1 (rotate g X), take 1 (rotate g X), drop 1 (rotate g y), take 1 (rotate g y)),
          Suc g)),
      fit_with = (\<lambda>g X y. (g, Suc g)),
      forest_predict = (\<lambda>f X. map (\<lambda>row. int f) X),
      accuracy_score = (\<lambda>y_true y_pred.
         real (length (filter (\<lambda>(u, v). u = v) (zip y_true y_pred))) / real (length y_true)),
      balanced_accuracy_score = (\<lambda>y_true y_pred.
         real (length (filter (\<lambda>(u, v). u = v) (zip y_true y_pred))) / real (length y_true))\<rparr>"

subsection \<open>An autograd engine to run the computational-graph notebook on\<close>

text \<open>
  A reverse-mode engine on a tape, small enough to evaluate. A tensor is its position on
  the tape; a node holds its value, its parents, each with the partial derivative of the
  node with respect to that parent, and the gradient stored so far. \<open>tape_backward\<close> stores
  1 at the node it is called on and passes gradients from the last node to the first.
  Every node keeps its gradient, so \<open>retain_grad\<close> has nothing to do.
\<close>

type_synonym tape = "(real \<times> (nat \<times> real) list \<times> real option) list"

definition tape_value :: "tape \<Rightarrow> nat \<Rightarrow> real" where
  "tape_value s v = fst (s ! v)"

definition tape_new :: "real \<Rightarrow> (nat \<times> real) list \<Rightarrow> tape \<Rightarrow> nat \<times> tape" where
  "tape_new value parents s = (length s, s @ [(value, parents, None)])"

definition tape_add_grad :: "tape \<Rightarrow> nat \<times> real \<Rightarrow> tape" where
  "tape_add_grad s pg =
     (case s ! fst pg of
        (value, parents, grad) \<Rightarrow>
          s[fst pg := (value, parents,
                       Some ((case grad of None \<Rightarrow> 0 | Some g \<Rightarrow> g) + snd pg))])"

definition tape_propagate :: "tape \<Rightarrow> nat \<Rightarrow> tape" where
  "tape_propagate s i =
     (case s ! i of
        (value, parents, None) \<Rightarrow> s
      | (value, parents, Some g) \<Rightarrow>
          foldl tape_add_grad s (map (\<lambda>(p, partial). (p, g * partial)) parents))"

definition tape_backward :: "nat \<Rightarrow> tape \<Rightarrow> tape" where
  "tape_backward v s = foldl tape_propagate (tape_add_grad s (v, 1)) (rev [0..<Suc v])"

definition tape_api :: "(tape, nat) autograd_api" where
  "tape_api =
     \<lparr>torch_tensor = (\<lambda>data requires_grad. tape_new (hd data) []),
      tensor_add = (\<lambda>u v s. tape_new (tape_value s u + tape_value s v) [(u, 1), (v, 1)] s),
      tensor_add_scalar = (\<lambda>u k s. tape_new (tape_value s u + k) [(u, 1)] s),
      tensor_mul = (\<lambda>u v s. tape_new (tape_value s u * tape_value s v)
                                  [(u, tape_value s v), (v, tape_value s u)] s),
      retain_grad = (\<lambda>v s. s),
      tensor_backward = tape_backward,
      tensor_data = (\<lambda>v s. [tape_value s v]),
      tensor_grad = (\<lambda>v s. map_option (\<lambda>g. [g]) (snd (snd (s ! v))))\<rparr>"

text \<open>
  The tape after the notebook has built \<open>e = (a + b) * (b + 1)\<close> from \<open>a = 2\<close> and \<open>b = 1\<close>,
  and after \<open>e.backward()\<close>.
\<close>

definition tape_graph :: tape where
  "tape_graph = [(2, [], None), (1, [], None), (3, [(0, 1), (1, 1)], None),
                 (2, [(1, 1)], None), (6, [(2, 2), (3, 3)], None)]"

definition tape_after_backward :: tape where
  "tape_after_backward = [(2, [], Some 2), (1, [], Some 5), (3, [(0, 1), (1, 1)], Some 2),
                          (2, [(1, 1)], Some 3), (6, [(2, 2), (3, 3)], Some 1)]"

subsection \<open>Starting states\<close>

definition zero_network :: Neural_Network where
  \<comment> \<open>a network whose random draw came out as all zeros\<close>
  "zero_network = Neural_Network_init [[0, 0, 0], [0, 0, 0]] [[0], [0], [0]]"

definition zero_world :: nn_world where
  "zero_world = \<lparr>NN = zero_network, nn_calls = [], nn_stdout = []\<rparr>"

definition hello_world :: "(real, nat) world" where
  "hello_world = \<lparr>torch = 2, rng = 0, calls = [], stdout = []\<rparr>"

definition sgd_world :: "(real \<times> real \<times> real \<times> real, nat) world" where
  "sgd_world = \<lparr>torch = (0, 0, 0, 0), rng = 0, calls = [], stdout = []\<rparr>"


section \<open>Facts about the data pipeline\<close>

subsection \<open>Splitting a string\<close>

lemma read_data_loop_map:
  "read_data_loop f data = data @ map (\<lambda>line. str_split (str_strip (str_lower line)) '' ||| '') f"
  by (induction f arbitrary: data) auto

lemma split_from_nonempty: "split_from sep cur s \<noteq> []"
  by (induction sep cur s rule: split_from.induct) auto

lemma split_from_no_sep:
  "\<not> sublist sep s \<Longrightarrow> split_from sep cur s = [rev cur @ s]"
  by (induction sep cur s rule: split_from.induct) (auto simp: sublist_Cons_right)

lemma split_from_sep:
  "sep \<noteq> [] \<Longrightarrow> sublist sep s \<Longrightarrow> 2 \<le> length (split_from sep cur s)"
proof (induction sep cur s rule: split_from.induct)
  case (1 sep cur)
  then show ?case by simp
next
  case (2 sep cur c cs)
  show ?case
  proof (cases "prefix sep (c # cs)")
    case True
    have "split_from sep [] (drop (length sep) (c # cs)) \<noteq> []"
      by (rule split_from_nonempty)
    then have "1 \<le> length (split_from sep [] (drop (length sep) (c # cs)))"
      by (cases "split_from sep [] (drop (length sep) (c # cs))") auto
    with True "2.prems" show ?thesis by simp
  next
    case False
    with "2.prems" have "sublist sep cs" by (simp add: sublist_Cons_right)
    with False "2.IH"(2) "2.prems" show ?thesis by simp
  qed
qed

lemma str_split_length:
  assumes "sep \<noteq> []"
  shows "(1 < length (str_split s sep)) = sublist sep s"
proof (cases "sublist sep s")
  case True
  then show ?thesis using assms split_from_sep[of sep s "[]"] by (simp add: str_split_def)
next
  case False
  then show ?thesis using split_from_no_sep[of sep s "[]"] by (simp add: str_split_def)
qed

lemma list_get_1_split:
  "sep \<noteq> [] \<Longrightarrow> (\<exists>t. list_get (str_split s sep) 1 = Inr t) = sublist sep s"
  using str_split_length[of sep s] by (auto simp: list_get_def)

lemma list_get_1_no_sep:
  "\<not> sublist sep s \<Longrightarrow> str_split s sep = [s] \<and> list_get (str_split s sep) 1 = Inl IndexError"
  using split_from_no_sep[of sep s "[]"] by (simp add: str_split_def list_get_def)

subsection \<open>Dictionaries\<close>

lemma dict_contains_set: "dict_contains (dict_set d k v) k' = (k' = k \<or> dict_contains d k')"
  by (auto simp: dict_contains_def dict_set_def update_conv')

lemma dict_get_contains: "(\<exists>v. dict_get d k = Inr v) = dict_contains d k"
  by (auto simp: dict_get_def dict_contains_def split: option.splits)

lemma create_dict_words_ok:
  "dict_contains w2i ''<unk>'' \<Longrightarrow>
   \<exists>w2i'. create_dict_words cu ws w2i = Inr w2i'
      \<and> (\<forall>k. dict_contains w2i' k = (dict_contains w2i k \<or> k \<in> set ws))"
proof (induction ws arbitrary: w2i)
  case Nil
  then show ?case by simp
next
  case (Cons w ws)
  show ?case
  proof (cases "dict_contains w2i w")
    case True
    with Cons.IH[OF Cons.prems] show ?thesis by auto
  next
    case False
    from Cons.prems obtain u where u: "dict_get w2i ''<unk>'' = Inr u"
      using dict_get_contains[of w2i "''<unk>''"] by auto
    have c: "dict_contains (dict_set w2i w n) ''<unk>''" for n
      using Cons.prems by (simp add: dict_contains_set)
    show ?thesis
    proof (cases cu)
      case True
      with False u Cons.IH[OF c[of u]] show ?thesis
        by (auto simp: dict_contains_set)
    next
      case cuF: False
      with False Cons.IH[OF c[of "dict_len w2i"]] show ?thesis
        by (auto simp: dict_contains_set)
    qed
  qed
qed


subsection \<open>When \<open>create_dict\<close> and \<open>create_tensor\<close> return\<close>

lemma list_get_ok: "i < length xs \<Longrightarrow> list_get xs i = Inr (xs ! i)"
  by (simp add: list_get_def)

lemma list_get_01:
  "1 < length xs \<Longrightarrow> list_get xs 0 = Inr (xs ! 0) \<and> list_get xs 1 = Inr (xs ! 1)"
  by (cases xs) (simp_all add: list_get_def)

lemma create_dict_ok:
  "dict_contains (word_to_index v) ''<unk>'' \<Longrightarrow> \<forall>line \<in> set data. 1 < length line \<Longrightarrow>
   \<exists>v'. create_dict data cu v = Inr v'
      \<and> (\<forall>k. dict_contains (word_to_index v') k
                = (dict_contains (word_to_index v) k \<or> k \<in> words_of data))
      \<and> (\<forall>k. dict_contains (tag_to_index v') k
                = (dict_contains (tag_to_index v) k \<or> k \<in> tags_of data))"
proof (induction data arbitrary: v)
  case Nil
  then show ?case by (simp add: words_of_def tags_of_def)
next
  case (Cons line data)
  from Cons.prems(2) have len: "1 < length line" and rest: "\<forall>l \<in> set data. 1 < length l"
    by auto
  from create_dict_words_ok[OF Cons.prems(1), of cu "str_split (line ! 1) '' ''"]
  obtain w2i where w: "create_dict_words cu (str_split (line ! 1) '' '') (word_to_index v) = Inr w2i"
    and wk: "\<forall>k. dict_contains w2i k
               = (dict_contains (word_to_index v) k \<or> k \<in> set (str_split (line ! 1) '' ''))"
    by blast
  define t2i where "t2i = (if \<not> dict_contains (tag_to_index v) (line ! 0)
                       then dict_set (tag_to_index v) (line ! 0) (dict_len (tag_to_index v))
                       else tag_to_index v)"
  have tk: "\<forall>k. dict_contains t2i k = (dict_contains (tag_to_index v) k \<or> k = line ! 0)"
    by (auto simp: t2i_def dict_contains_set)
  define v1 where "v1 = \<lparr>word_to_index = w2i, tag_to_index = t2i\<rparr>"
  have u1: "dict_contains (word_to_index v1) ''<unk>''"
    using wk Cons.prems(1) by (simp add: v1_def)
  from Cons.IH[OF u1 rest] obtain v' where
    r: "create_dict data cu v1 = Inr v'"
    and rw: "\<forall>k. dict_contains (word_to_index v') k
               = (dict_contains (word_to_index v1) k \<or> k \<in> words_of data)"
    and rt: "\<forall>k. dict_contains (tag_to_index v') k
               = (dict_contains (tag_to_index v1) k \<or> k \<in> tags_of data)"
    by blast
  have step: "create_dict (line # data) cu v = create_dict data cu v1"
    using list_get_01[OF len] w by (simp add: v1_def t2i_def)
  have "\<forall>k. dict_contains (word_to_index v') k
               = (dict_contains (word_to_index v) k \<or> k \<in> words_of (line # data))"
    using rw wk by (auto simp: v1_def words_of_def)
  moreover have "\<forall>k. dict_contains (tag_to_index v') k
               = (dict_contains (tag_to_index v) k \<or> k \<in> tags_of (line # data))"
    using rt tk by (auto simp: v1_def tags_of_def)
  ultimately show ?case using step r by simp
qed

lemma create_dict_fail:
  "dict_contains (word_to_index v) ''<unk>'' \<Longrightarrow> \<exists>line \<in> set data. \<not> 1 < length line \<Longrightarrow>
   create_dict data cu v = Inl IndexError"
proof (induction data arbitrary: v)
  case Nil
  then show ?case by simp
next
  case (Cons line data)
  show ?case
  proof (cases "1 < length line")
    case False
    then show ?thesis by (simp add: list_get_def)
  next
    case True
    with Cons.prems(2) have rest: "\<exists>l \<in> set data. \<not> 1 < length l" by auto
    from create_dict_words_ok[OF Cons.prems(1), of cu "str_split (line ! 1) '' ''"]
    obtain w2i where w: "create_dict_words cu (str_split (line ! 1) '' '') (word_to_index v) = Inr w2i"
      and wk: "\<forall>k. dict_contains w2i k
               = (dict_contains (word_to_index v) k \<or> k \<in> set (str_split (line ! 1) '' ''))"
      by blast
    have u1: "dict_contains (word_to_index \<lparr>word_to_index = w2i, tag_to_index = t\<rparr>) ''<unk>''" for t
      using wk Cons.prems(1) by simp
    show ?thesis
      using list_get_01[OF True] w Cons.IH[OF u1 rest] by simp
  qed
qed

lemma lookup_words_ok:
  "\<forall>w \<in> set ws. dict_contains w2i w \<Longrightarrow> \<exists>is. lookup_words w2i ws = Inr is"
proof (induction ws)
  case Nil
  then show ?case by simp
next
  case (Cons w ws)
  then obtain i where "dict_get w2i w = Inr i"
    using dict_get_contains[of w2i w] by auto
  with Cons show ?case by auto
qed

lemma create_tensor_ok:
  "\<forall>line \<in> set data. 1 < length line \<Longrightarrow>
   \<forall>w \<in> words_of data. dict_contains (word_to_index v) w \<Longrightarrow>
   \<forall>t \<in> tags_of data. dict_contains (tag_to_index v) t \<Longrightarrow>
   \<exists>ts. create_tensor v data = Inr ts"
proof (induction data)
  case Nil
  then show ?case by simp
next
  case (Cons line data)
  have "\<forall>w \<in> set (str_split (line ! 1) '' ''). dict_contains (word_to_index v) w"
    using Cons.prems(2) by (simp add: words_of_def)
  then obtain s where s: "lookup_words (word_to_index v) (str_split (line ! 1) '' '') = Inr s"
    using lookup_words_ok by blast
  have "dict_contains (tag_to_index v) (line ! 0)"
    using Cons.prems(3) by (simp add: tags_of_def)
  then obtain t where t: "dict_get (tag_to_index v) (line ! 0) = Inr t"
    using dict_get_contains[of "tag_to_index v" "line ! 0"] by auto
  have "\<exists>ts. create_tensor v data = Inr ts"
    using Cons by (simp add: words_of_def tags_of_def)
  then obtain ts where "create_tensor v data = Inr ts" ..
  moreover have "1 < length line" using Cons.prems(1) by simp
  ultimately show ?case using s t list_get_01[of line] by simp
qed


lemma read_data_map:
  "read_data f = map (\<lambda>line. str_split (str_strip (str_lower line)) '' ||| '') f"
  by (simp add: read_data_def read_data_loop_map)

lemma read_data_lengths:
  "(\<forall>line \<in> set (read_data f). 1 < length line)
     = (\<forall>raw \<in> set f. sublist '' ||| '' (str_strip (str_lower raw)))"
  using str_split_length[of "'' ||| ''"] by (auto simp: read_data_map)

lemma init_vocab_unk: "dict_contains (word_to_index init_vocab) ''<unk>''"
  by (simp add: init_vocab_def dict_contains_def dict_set_def)

lemma load_dataset_ok:
  assumes "\<forall>raw \<in> set train_txt \<union> set test_txt. sublist '' ||| '' (str_strip (str_lower raw))"
  shows "\<exists>d. load_dataset train_txt test_txt = Inr d"
proof -
  let ?train = "read_data train_txt" and ?test = "read_data test_txt"
  have ltr: "\<forall>line \<in> set ?train. 1 < length line" and lte: "\<forall>line \<in> set ?test. 1 < length line"
    using assms read_data_lengths[of train_txt] read_data_lengths[of test_txt] by blast+
  from create_dict_ok[OF init_vocab_unk ltr, of False] obtain v1 where
    v1: "create_dict ?train False init_vocab = Inr v1"
    and w1: "\<forall>k. dict_contains (word_to_index v1) k
                = (dict_contains (word_to_index init_vocab) k \<or> k \<in> words_of ?train)"
    and t1: "\<forall>k. dict_contains (tag_to_index v1) k
                = (dict_contains (tag_to_index init_vocab) k \<or> k \<in> tags_of ?train)"
    by blast
  have u1: "dict_contains (word_to_index v1) ''<unk>''"
    using w1 init_vocab_unk by simp
  from create_dict_ok[OF u1 lte, of True] obtain v2 where
    v2: "create_dict ?test True v1 = Inr v2"
    and w2: "\<forall>k. dict_contains (word_to_index v2) k
                = (dict_contains (word_to_index v1) k \<or> k \<in> words_of ?test)"
    and t2: "\<forall>k. dict_contains (tag_to_index v2) k
                = (dict_contains (tag_to_index v1) k \<or> k \<in> tags_of ?test)"
    by blast
  have "\<exists>ts. create_tensor v2 ?train = Inr ts"
    by (rule create_tensor_ok[OF ltr]) (simp_all add: w1 w2 t1 t2)
  then obtain tr where tr: "create_tensor v2 ?train = Inr tr" ..
  have "\<exists>ts. create_tensor v2 ?test = Inr ts"
    by (rule create_tensor_ok[OF lte]) (simp_all add: w1 w2 t1 t2)
  then obtain te where te: "create_tensor v2 ?test = Inr te" ..
  show ?thesis using v1 v2 tr te by (simp add: load_dataset_def)
qed

lemma load_dataset_fail:
  assumes "\<exists>raw \<in> set train_txt \<union> set test_txt. \<not> sublist '' ||| '' (str_strip (str_lower raw))"
  shows "load_dataset train_txt test_txt = Inl IndexError"
proof (cases "\<forall>line \<in> set (read_data train_txt). 1 < length line")
  case False
  then have "create_dict (read_data train_txt) False init_vocab = Inl IndexError"
    using create_dict_fail[OF init_vocab_unk] by blast
  then show ?thesis by (simp add: load_dataset_def)
next
  case True
  with assms have bad: "\<exists>line \<in> set (read_data test_txt). \<not> 1 < length line"
    using read_data_lengths[of train_txt] read_data_lengths[of test_txt] by blast
  from create_dict_ok[OF init_vocab_unk True, of False] obtain v1 where
    v1: "create_dict (read_data train_txt) False init_vocab = Inr v1"
    and w1: "\<forall>k. dict_contains (word_to_index v1) k
                = (dict_contains (word_to_index init_vocab) k \<or> k \<in> words_of (read_data train_txt))"
    by blast
  have u1: "dict_contains (word_to_index v1) ''<unk>''"
    using w1 init_vocab_unk by simp
  have "create_dict (read_data test_txt) True v1 = Inl IndexError"
    by (rule create_dict_fail[OF u1 bad])
  with v1 show ?thesis by (simp add: load_dataset_def)
qed

subsection \<open>Lowercasing and stripping cannot create a separator\<close>

lemma sublist_strip: "sublist (str_strip s) s"
proof -
  have "suffix (dropWhile isspace (rev (dropWhile isspace s))) (rev (dropWhile isspace s))"
    by (rule suffix_dropWhile)
  then have "prefix (str_strip s) (dropWhile isspace s)"
    by (simp add: str_strip_def suffix_to_prefix)
  moreover have "suffix (dropWhile isspace s) s" by (rule suffix_dropWhile)
  ultimately show ?thesis
    by (meson prefix_imp_sublist suffix_imp_sublist sublist_order.order_trans)
qed

lemma lower_char_sep:
  assumes "lower_char c \<in> set '' ||| ''"
  shows "lower_char c = c"
proof (rule ccontr)
  assume neq: "lower_char c \<noteq> c"
  define n where "n = (of_char c :: nat)"
  from neq have cond: "(65 \<le> n \<and> n \<le> 90) \<or> (192 \<le> n \<and> n \<le> 222 \<and> n \<noteq> 215)"
    and val: "lower_char c = char_of (n + 32)"
    by (auto simp: lower_char_def Let_def n_def split: if_splits)
  have "(of_char (lower_char c) :: nat) = (n + 32) mod 256"
    by (simp add: val)
  with cond have code: "(of_char (lower_char c) :: nat) = n + 32" by auto
  from assms have "lower_char c = CHR '' '' \<or> lower_char c = CHR ''|''" by auto
  then have "(of_char (lower_char c) :: nat) = 32 \<or> (of_char (lower_char c) :: nat) = 124"
    by auto
  with code cond show False by auto
qed

lemma sublist_map_preimage:
  assumes "sublist sep (map f s)"
  shows "\<exists>ps m ss. s = ps @ m @ ss \<and> map f m = sep"
proof -
  from assms obtain ps ss where "map f s = ps @ sep @ ss"
    by (auto simp: sublist_def)
  then have "\<exists>us vs. s = us @ vs \<and> ps = map f us \<and> sep @ ss = map f vs"
    by (simp add: map_eq_append_conv)
  then obtain us vs where 1: "s = us @ vs" and 2: "sep @ ss = map f vs"
    by blast
  from 2 have "\<exists>m ws. vs = m @ ws \<and> sep = map f m \<and> ss = map f ws"
    by (simp add: append_eq_map_conv)
  then obtain m ws where "vs = m @ ws" and "map f m = sep"
    by auto
  with 1 show ?thesis by blast
qed

lemma sublist_map_fixed:
  assumes "sublist sep (map f s)" and fixed: "\<And>c. f c \<in> set sep \<Longrightarrow> f c = c"
  shows "sublist sep s"
proof -
  from sublist_map_preimage[OF assms(1)]
  obtain ps m ss where s: "s = ps @ m @ ss" and m: "map f m = sep"
    by blast
  have "f c = c" if "c \<in> set m" for c
  proof -
    from that have "f c \<in> set (map f m)" by simp
    then show ?thesis unfolding m by (rule fixed)
  qed
  then have "map f m = m" by (simp add: map_idI)
  with m have "m = sep" by simp
  with s show ?thesis unfolding sublist_def by blast
qed

lemma str_lower_sep:
  assumes "sublist '' ||| '' (str_lower s)"
  shows "sublist '' ||| '' s"
proof (rule sublist_map_fixed[of _ lower_char])
  show "sublist '' ||| '' (map lower_char s)"
    using assms unfolding str_lower_def .
  show "\<And>c. lower_char c \<in> set '' ||| '' \<Longrightarrow> lower_char c = c"
    by (rule lower_char_sep)
qed

lemma processed_sep_imp_raw_sep:
  "sublist '' ||| '' (str_strip (str_lower s)) \<Longrightarrow> sublist '' ||| '' s"
proof -
  assume a: "sublist '' ||| '' (str_strip (str_lower s))"
  have "sublist (str_strip (str_lower s)) (str_lower s)" by (rule sublist_strip)
  with a have "sublist '' ||| '' (str_lower s)"
    by (rule sublist_order.order_trans)
  then show ?thesis by (rule str_lower_sep)
qed

subsection \<open>The indices stored in the vocabulary\<close>

text \<open>First phase: the training words are numbered in the order they are first seen.\<close>

lemma dict_contains_keys: "dict_contains d k = (k \<in> fst ` set d)"
  by (simp add: dict_contains_def map_of_eq_None_iff)

lemma dict_set_new: "\<not> dict_contains d k \<Longrightarrow> dict_set d k v = d @ [(k, v)]"
  unfolding dict_contains_keys dict_set_def
  by (induction d) auto

lemma counted_step: "counted d \<Longrightarrow> \<not> dict_contains d k \<Longrightarrow> counted (dict_set d k (dict_len d))"
  by (simp add: dict_set_new counted_def dict_len_def dict_contains_keys)

lemma create_dict_words_train:
  "counted d \<Longrightarrow> create_dict_words False ws d = Inr d' \<Longrightarrow> counted d' \<and> prefix d d'"
proof (induction ws arbitrary: d)
  case Nil
  then show ?case by simp
next
  case (Cons w ws)
  show ?case
  proof (cases "dict_contains d w")
    case True
    with Cons show ?thesis by simp
  next
    case False
    from Cons.prems(2) False
    have r: "create_dict_words False ws (dict_set d w (dict_len d)) = Inr d'" by simp
    from Cons.IH[OF counted_step[OF Cons.prems(1) False] r]
    have "counted d'" and "prefix (dict_set d w (dict_len d)) d'" by auto
    moreover have "prefix d (dict_set d w (dict_len d))"
      using False by (simp add: dict_set_new)
    ultimately show ?thesis by (meson prefix_order.order_trans)
  qed
qed

lemma create_dict_train:
  "counted (word_to_index v) \<Longrightarrow> create_dict data False v = Inr v' \<Longrightarrow>
   counted (word_to_index v') \<and> prefix (word_to_index v) (word_to_index v')"
proof (induction data arbitrary: v)
  case Nil
  then show ?case by simp
next
  case (Cons line data)
  from Cons.prems(2) obtain body w2i t2i where
    w: "create_dict_words False (str_split body '' '') (word_to_index v) = Inr w2i"
    and r: "create_dict data False \<lparr>word_to_index = w2i, tag_to_index = t2i\<rparr> = Inr v'"
    by (auto split: sum.splits)
  from create_dict_words_train[OF Cons.prems(1) w]
  have c: "counted w2i" and p: "prefix (word_to_index v) w2i" by auto
  from Cons.IH[of "\<lparr>word_to_index = w2i, tag_to_index = t2i\<rparr>"] c r
  have "counted (word_to_index v')" and "prefix w2i (word_to_index v')" by auto
  with p show ?case by (meson prefix_order.order_trans)
qed

text \<open>Second phase: every appended entry carries the index of the unknown word.\<close>

lemma create_dict_words_test:
  "distinct (map fst d) \<Longrightarrow> dict_get d ''<unk>'' = Inr u \<Longrightarrow>
   create_dict_words True ws d = Inr d' \<Longrightarrow>
   \<exists>ext. d' = d @ ext \<and> distinct (map fst d') \<and> (\<forall>e \<in> set ext. snd e = u)"
proof (induction ws arbitrary: d)
  case Nil
  then show ?case by simp
next
  case (Cons w ws)
  show ?case
  proof (cases "dict_contains d w")
    case True
    with Cons show ?thesis by simp
  next
    case False
    let ?d1 = "dict_set d w u"
    have d1: "?d1 = d @ [(w, u)]" using False by (rule dict_set_new)
    from Cons.prems False have r: "create_dict_words True ws ?d1 = Inr d'" by simp
    have dist: "distinct (map fst ?d1)"
      using Cons.prems(1) False by (simp add: d1 dict_contains_keys)
    have "w \<noteq> ''<unk>''"
      using False Cons.prems(2) dict_get_contains[of d "''<unk>''"] by auto
    then have unk: "dict_get ?d1 ''<unk>'' = Inr u"
      using Cons.prems(2) by (simp add: dict_get_def dict_set_def update_conv')
    from Cons.IH[OF dist unk r] obtain ext where
      "d' = ?d1 @ ext" "distinct (map fst d')" "\<forall>e \<in> set ext. snd e = u" by blast
    then have "d' = d @ ((w, u) # ext) \<and> distinct (map fst d') \<and> (\<forall>e \<in> set ((w, u) # ext). snd e = u)"
      by (simp add: d1)
    then show ?thesis by blast
  qed
qed

lemma create_dict_test:
  "distinct (map fst (word_to_index v)) \<Longrightarrow> dict_get (word_to_index v) ''<unk>'' = Inr u \<Longrightarrow>
   create_dict data True v = Inr v' \<Longrightarrow>
   \<exists>ext. word_to_index v' = word_to_index v @ ext \<and> distinct (map fst (word_to_index v'))
       \<and> (\<forall>e \<in> set ext. snd e = u)"
proof (induction data arbitrary: v)
  case Nil
  then show ?case by simp
next
  case (Cons line data)
  from Cons.prems(3) obtain body w2i t2i where
    w: "create_dict_words True (str_split body '' '') (word_to_index v) = Inr w2i"
    and r: "create_dict data True \<lparr>word_to_index = w2i, tag_to_index = t2i\<rparr> = Inr v'"
    by (auto split: sum.splits)
  from create_dict_words_test[OF Cons.prems(1,2) w] obtain ext1 where
    e1: "w2i = word_to_index v @ ext1" and d1: "distinct (map fst w2i)"
    and u1: "\<forall>e \<in> set ext1. snd e = u" by blast
  have unk: "dict_get w2i ''<unk>'' = Inr u"
    using Cons.prems(2) by (auto simp: e1 dict_get_def split: option.splits)
  from Cons.IH[of "\<lparr>word_to_index = w2i, tag_to_index = t2i\<rparr>" ] d1 unk r
  obtain ext2 where "word_to_index v' = w2i @ ext2" "distinct (map fst (word_to_index v'))"
    "\<forall>e \<in> set ext2. snd e = u" by auto
  with e1 u1 have "word_to_index v' = word_to_index v @ (ext1 @ ext2)
      \<and> distinct (map fst (word_to_index v')) \<and> (\<forall>e \<in> set (ext1 @ ext2). snd e = u)"
    by auto
  then show ?case by blast
qed

lemma counted_init: "counted (word_to_index init_vocab)"
  by (simp add: init_vocab_def dict_set_def dict_len_def counted_def)

lemma init_vocab_unk_get: "dict_get (word_to_index init_vocab) ''<unk>'' = Inr 0"
  by (simp add: init_vocab_def dict_set_def dict_len_def dict_get_def)

lemma dict_get_Inr: "(dict_get d k = Inr v) = (map_of d k = Some v)"
  by (simp add: dict_get_def split: option.splits)

lemma dict_get_prefix: "prefix d d' \<Longrightarrow> dict_get d k = Inr v \<Longrightarrow> dict_get d' k = Inr v"
  by (auto simp: prefix_def dict_get_Inr)

lemma dict_get_in_set: "dict_get d k = Inr v \<Longrightarrow> (k, v) \<in> set d"
  by (simp add: dict_get_Inr map_of_SomeD)

lemma counted_bound: "counted d \<Longrightarrow> dict_get d k = Inr i \<Longrightarrow> i < dict_len d"
proof -
  assume c: "counted d" and g: "dict_get d k = Inr i"
  from g have "(k, i) \<in> set d" by (rule dict_get_in_set)
  then have "i \<in> set (map snd d)" by force
  with c show ?thesis by (simp add: counted_def dict_len_def)
qed

lemma counted_inj:
  assumes c: "counted d" and 1: "dict_get d k = Inr i" and 2: "dict_get d k' = Inr i"
  shows "k = k'"
proof -
  from c have "distinct (map snd d)" by (simp add: counted_def)
  then have "inj_on snd (set d)" by (simp add: distinct_map)
  moreover have "(k, i) \<in> set d" "(k', i) \<in> set d"
    using 1 2 by (auto dest: dict_get_in_set)
  ultimately have "(k, i) = (k', i)"
    using inj_onD[of snd "set d" "(k, i)" "(k', i)"] by simp
  then show ?thesis by simp
qed

lemma extended_bound:
  assumes c: "counted d" and ne: "d \<noteq> []" and z: "\<forall>e \<in> set ext. snd e = 0"
    and g: "dict_get (d @ ext) k = Inr i"
  shows "i < dict_len (d @ ext)"
proof -
  from g have "(k, i) \<in> set d \<or> (k, i) \<in> set ext"
    using dict_get_in_set[of "d @ ext" k i] by simp
  then show ?thesis
  proof
    assume "(k, i) \<in> set d"
    then have "i \<in> set (map snd d)" by force
    with c show ?thesis by (simp add: counted_def dict_len_def)
  next
    assume "(k, i) \<in> set ext"
    with z have "i = 0" by auto
    with ne show ?thesis by (simp add: dict_len_def)
  qed
qed

lemma extended_new:
  assumes z: "\<forall>e \<in> set ext. snd e = u" and n: "\<not> dict_contains d k"
    and g: "dict_contains (d @ ext) k"
  shows "dict_get (d @ ext) k = Inr u"
proof -
  from g obtain i where i: "dict_get (d @ ext) k = Inr i"
    using dict_get_contains[of "d @ ext" k] by blast
  then have "(k, i) \<in> set d \<or> (k, i) \<in> set ext"
    using dict_get_in_set[of "d @ ext" k i] by simp
  moreover have "(k, i) \<notin> set d" using n by (force simp: dict_contains_keys)
  ultimately have "(k, i) \<in> set ext" by simp
  with z have "i = u" by auto
  with i show ?thesis by simp
qed

lemma lookup_words_values:
  "lookup_words d ws = Inr is \<Longrightarrow> \<forall>i \<in> set is. \<exists>w. dict_get d w = Inr i"
proof (induction ws arbitrary: "is")
  case Nil
  then show ?case by simp
next
  case (Cons w ws)
  then show ?case by (auto split: sum.splits)
qed

lemma create_tensor_values:
  "create_tensor v data = Inr ts \<Longrightarrow>
   \<forall>(s, t) \<in> set ts. \<forall>i \<in> set s. \<exists>w. dict_get (word_to_index v) w = Inr i"
proof (induction data arbitrary: ts)
  case Nil
  then show ?case by simp
next
  case (Cons line data)
  from Cons.prems obtain body s rest t where
    s: "lookup_words (word_to_index v) (str_split body '' '') = Inr s"
    and r: "create_tensor v data = Inr rest" and ts: "ts = (s, t) # rest"
    by (auto split: sum.splits)
  from lookup_words_values[OF s] Cons.IH[OF r] ts show ?case by auto
qed

subsection \<open>Embedding lookups\<close>

lemma embedding_call_in_range:
  "\<forall>i \<in> set x. i < num_embeddings E \<Longrightarrow> embedding_call E x = Inr (map (\<lambda>i. weight E ! i) x)"
  by (simp add: embedding_call_def list_all_iff)

lemma embedding_call_out_of_range:
  "\<exists>i \<in> set x. \<not> i < num_embeddings E \<Longrightarrow> embedding_call E x = Inl IndexError"
  by (auto simp: embedding_call_def list_all_iff)

lemma forward_in_range:
  assumes "\<forall>i \<in> set x. i < n"
  shows "num_embeddings (bow_embedding bow) = n \<Longrightarrow> \<exists>out. BoW_forward bow x = Inr out"
    and "num_embeddings (cbow_embedding cbow) = n \<Longrightarrow> \<exists>out. CBoW_forward cbow x = Inr out"
  using assms by (simp_all add: BoW_forward_def CBoW_forward_def embedding_call_in_range Let_def)


section \<open>The calls and the output of the training loops\<close>

lemma module_acceptsD:
  "module_accepts api data \<Longrightarrow> (x, y) \<in> set data \<Longrightarrow> \<exists>output. module_call api t x = Inr output"
  unfolding module_accepts_def by blast

lemma module_accepts_Cons:
  "module_accepts api (a # data) \<Longrightarrow> module_accepts api data"
  by (auto simp: module_accepts_def)

lemma module_accepts_mset:
  "mset data' = mset data \<Longrightarrow> module_accepts api data' = module_accepts api data"
proof -
  assume "mset data' = mset data"
  then have "set data' = set data" by (rule mset_eq_setD)
  then show ?thesis by (simp add: module_accepts_def)
qed

lemma train_sentences_trace:
  "train_sentences api data (w, l, c) = Inr (w', l', c') \<Longrightarrow>
   calls w' = calls w @ concat (replicate (length data) sample_calls)
   \<and> stdout w' = stdout w \<and> rng w' = rng w"
proof (induction data arbitrary: w l c)
  case Nil
  then show ?case by simp
next
  case (Cons a data)
  obtain sentence tag where a: "a = (sentence, tag)" by (cases a)
  from Cons.prems obtain scores where out: "module_call api (torch w) sentence = Inr scores"
    unfolding a by (auto split: sum.splits)
  define w1 where "w1 = w\<lparr>torch := optimizer_step api
        (loss_backward api (zero_grad api (torch w)) sentence tag),
      calls := calls w @ sample_calls\<rparr>"
  from Cons.prems out obtain l1 c1 where
    r: "train_sentences api data (w1, l1, c1) = Inr (w', l', c')"
    unfolding a by (simp add: Let_def w1_def sample_calls_def)
  from Cons.IH[OF r] show ?case
    by (simp add: w1_def replicate_append_same)
qed

lemma train_sentences_ok:
  "module_accepts api data \<Longrightarrow> \<exists>r. train_sentences api data (w, l, c) = Inr r"
proof (induction data arbitrary: w l c)
  case Nil
  then show ?case by simp
next
  case (Cons a data)
  obtain sentence tag where a: "a = (sentence, tag)" by (cases a)
  from module_acceptsD[OF Cons.prems, of sentence tag "torch w"]
  obtain scores where out: "module_call api (torch w) sentence = Inr scores"
    by (auto simp: a)
  from Cons.IH[OF module_accepts_Cons[OF Cons.prems]] out show ?case
    by (simp add: a Let_def)
qed

lemma test_sentences_trace:
  "test_sentences api data (w, c) = Inr (w', c') \<Longrightarrow>
   calls w' = calls w @ replicate (length data) Module_call
   \<and> stdout w' = stdout w \<and> rng w' = rng w \<and> torch w' = torch w"
proof (induction data arbitrary: w c)
  case Nil
  then show ?case by simp
next
  case (Cons a data)
  obtain sentence tag where a: "a = (sentence, tag)" by (cases a)
  from Cons.prems obtain scores where out: "module_call api (torch w) sentence = Inr scores"
    unfolding a by (auto split: sum.splits)
  from Cons.prems out obtain c1 where
    r: "test_sentences api data (w\<lparr>calls := calls w @ [Module_call]\<rparr>, c1) = Inr (w', c')"
    unfolding a by (simp add: Let_def)
  from Cons.IH[OF r] show ?case
    by (simp add: replicate_append_same)
qed

lemma test_sentences_ok:
  "module_accepts api data \<Longrightarrow> \<exists>r. test_sentences api data (w, c) = Inr r"
proof (induction data arbitrary: w c)
  case Nil
  then show ?case by simp
next
  case (Cons a data)
  obtain sentence tag where a: "a = (sentence, tag)" by (cases a)
  from module_acceptsD[OF Cons.prems, of sentence tag "torch w"]
  obtain scores where out: "module_call api (torch w) sentence = Inr scores"
    by (auto simp: a)
  from Cons.IH[OF module_accepts_Cons[OF Cons.prems]] out show ?case
    by (simp add: a Let_def)
qed

lemma epoch_ok:
  assumes acc: "module_accepts api train_data" "module_accepts api test_data"
    and sh: "shuffle_permutes api"
    and ne: "train_data \<noteq> []" "test_data \<noteq> []"
  shows "\<exists>w' td' a b c. epoch label api test_data ITER (w, train_data) = Inr (w', td')
           \<and> mset td' = mset train_data
           \<and> calls w' = calls w @ epoch_calls (length train_data) (length test_data)
           \<and> stdout w' = stdout w @ [Log_line label (ITER + 1) a b c]"
proof -
  obtain td g where s: "random_shuffle api (rng w) train_data = (td, g)"
    by (cases "random_shuffle api (rng w) train_data")
  from sh have "mset (fst (random_shuffle api (rng w) train_data)) = mset train_data"
    unfolding shuffle_permutes_def by blast
  with s have m: "mset td = mset train_data" by simp
  then have len: "length td = length train_data" by (rule mset_eq_length)
  have acc': "module_accepts api td"
    using module_accepts_mset[OF m, of api] acc(1) by blast
  define w1 where "w1 = w\<lparr>torch := module_train api (torch w),
      calls := calls w @ [Module_train], rng := g,
      calls := (calls w @ [Module_train]) @ [Random_shuffle]\<rparr>"
  from train_sentences_ok[OF acc', of w1 0 0] obtain w2 l2 c2 where
    t: "train_sentences api td (w1, 0, 0) = Inr (w2, l2, c2)"
    by (elim exE) (rename_tac r, case_tac r, auto)
  note tt = train_sentences_trace[OF t]
  define w3 where "w3 = w2\<lparr>torch := module_eval api (torch w2), calls := calls w2 @ [Module_eval]\<rparr>"
  from test_sentences_ok[OF acc(2), of w3 0] obtain w4 c4 where
    e: "test_sentences api test_data (w3, 0) = Inr (w4, c4)"
    by (elim exE) (rename_tac r, case_tac r, auto)
  note et = test_sentences_trace[OF e]
  have n1: "length td \<noteq> 0" and n2: "length test_data \<noteq> 0" using ne len by auto
  have "epoch label api test_data ITER (w, train_data)
        = Inr (w4\<lparr>stdout := stdout w4 @ [Log_line label (ITER + 1) (l2 / real (length td))
                      (real c2 / real (length td)) (real c4 / real (length test_data))]\<rparr>, td)"
    using s t e n1 n2
    by (simp add: epoch_def Let_def w1_def w3_def py_truediv_def)
  moreover have "calls w4 = calls w @ epoch_calls (length train_data) (length test_data)"
    using tt et by (simp add: w1_def w3_def epoch_calls_def len)
  moreover have "stdout w4 = stdout w"
    using tt et by (simp add: w1_def w3_def)
  ultimately show ?thesis using m by auto
qed

lemma epochs_ok:
  assumes acc: "module_accepts api train_data" "module_accepts api test_data"
    and sh: "shuffle_permutes api"
    and ne: "train_data \<noteq> []" "test_data \<noteq> []"
  shows "\<exists>w' td' ls. epochs label api test_data iters (w, train_data) = Inr (w', td')
           \<and> mset td' = mset train_data
           \<and> calls w' = calls w
                @ concat (replicate (length iters)
                            (epoch_calls (length train_data) (length test_data)))
           \<and> stdout w' = stdout w @ ls
           \<and> length ls = length iters
           \<and> (\<forall>k < length iters. \<exists>a b c. ls ! k = Log_line label (iters ! k + 1) a b c)"
  using acc(1) ne(1)
proof (induction iters arbitrary: w train_data)
  case Nil
  then show ?case by simp
next
  case (Cons ITER iters)
  from epoch_ok[OF Cons.prems(1) acc(2) sh Cons.prems(2) ne(2), of label ITER w]
  obtain w1 td1 a b c where
    e: "epoch label api test_data ITER (w, train_data) = Inr (w1, td1)"
    and m1: "mset td1 = mset train_data"
    and c1: "calls w1 = calls w @ epoch_calls (length train_data) (length test_data)"
    and s1: "stdout w1 = stdout w @ [Log_line label (ITER + 1) a b c]"
    by blast
  from m1 have len1: "length td1 = length train_data" by (rule mset_eq_length)
  have acc1: "module_accepts api td1"
    using module_accepts_mset[OF m1, of api] Cons.prems(1) by blast
  have ne1: "td1 \<noteq> []"
    using len1 Cons.prems(2) by auto
  from Cons.IH[OF acc1 ne1, of w1] obtain w' td' ls where
    r: "epochs label api test_data iters (w1, td1) = Inr (w', td')"
    and m: "mset td' = mset td1"
    and c: "calls w' = calls w1
                @ concat (replicate (length iters) (epoch_calls (length td1) (length test_data)))"
    and s: "stdout w' = stdout w1 @ ls"
    and l: "length ls = length iters"
    and k: "\<forall>k < length iters. \<exists>a b c. ls ! k = Log_line label (iters ! k + 1) a b c"
    by blast
  let ?ls = "Log_line label (ITER + 1) a b c # ls"
  have "epochs label api test_data (ITER # iters) (w, train_data) = Inr (w', td')"
    using e r by simp
  moreover have "mset td' = mset train_data" using m m1 by (rule trans)
  moreover have "calls w' = calls w
                @ concat (replicate (length (ITER # iters))
                            (epoch_calls (length train_data) (length test_data)))"
    using c c1 len1 by simp
  moreover have "stdout w' = stdout w @ ?ls" using s s1 by simp
  moreover have "length ?ls = length (ITER # iters)" using l by simp
  moreover have "\<forall>k < length (ITER # iters).
      \<exists>a b c. ?ls ! k = Log_line label ((ITER # iters) ! k + 1) a b c"
    using k by (auto simp: nth_Cons split: nat.splits)
  ultimately show ?case by blast
qed

lemma hello_body_ok:
  assumes "module_accepts api [(hello_x, hello_y)]"
  shows "\<exists>w' loss. hello_body api ITER w = Inr w'
           \<and> calls w' = calls w @ hello_calls
           \<and> stdout w' = stdout w @ [Hello_line ITER loss]"
proof -
  from module_acceptsD[OF assms, of hello_x hello_y "module_train api (torch w)"]
  obtain scores where "module_call api (module_train api (torch w)) hello_x = Inr scores"
    by auto
  then show ?thesis
    by (simp add: hello_body_def Let_def hello_calls_def)
qed

lemma hello_loop_ok:
  assumes "module_accepts api [(hello_x, hello_y)]"
  shows "\<exists>w' ls. hello_loop api iters w = Inr w'
           \<and> calls w' = calls w @ concat (replicate (length iters) hello_calls)
           \<and> stdout w' = stdout w @ ls
           \<and> length ls = length iters
           \<and> (\<forall>k < length iters. \<exists>loss. ls ! k = Hello_line (iters ! k) loss)"
proof (induction iters arbitrary: w)
  case Nil
  then show ?case by simp
next
  case (Cons ITER iters)
  from hello_body_ok[OF assms, of ITER w] obtain w1 loss where
    b: "hello_body api ITER w = Inr w1"
    and c1: "calls w1 = calls w @ hello_calls"
    and s1: "stdout w1 = stdout w @ [Hello_line ITER loss]"
    by blast
  from Cons.IH[of w1] obtain w' ls where
    r: "hello_loop api iters w1 = Inr w'"
    and c: "calls w' = calls w1 @ concat (replicate (length iters) hello_calls)"
    and s: "stdout w' = stdout w1 @ ls"
    and l: "length ls = length iters"
    and k: "\<forall>k < length iters. \<exists>loss. ls ! k = Hello_line (iters ! k) loss"
    by blast
  let ?ls = "Hello_line ITER loss # ls"
  have "hello_loop api (ITER # iters) w = Inr w'" using b r by simp
  moreover have "calls w' = calls w @ concat (replicate (length (ITER # iters)) hello_calls)"
    using c c1 by simp
  moreover have "stdout w' = stdout w @ ?ls" using s s1 by simp
  moreover have "length ?ls = length (ITER # iters)" using l by simp
  moreover have "\<forall>k < length (ITER # iters). \<exists>loss. ?ls ! k = Hello_line ((ITER # iters) ! k) loss"
    using k by (auto simp: nth_Cons split: nat.splits)
  ultimately show ?case by blast
qed

subsection \<open>The from-scratch loop\<close>

lemma forward_keeps_weights:
  "W1 (snd (forward self X)) = W1 self \<and> W2 (snd (forward self X)) = W2 self"
  by (simp add: forward_def Let_def)

lemma forward_output_depends_on_weights:
  "W1 a = W1 b \<Longrightarrow> W2 a = W2 b \<Longrightarrow> fst (forward a X) = fst (forward b X)"
  by (simp add: forward_def Let_def)

lemma train_depends_on_weights:
  "W1 a = W1 b \<Longrightarrow> W2 a = W2 b \<Longrightarrow> train a X y = train b X y"
  by (cases a; cases b) (simp add: train_def forward_def backward_def Let_def)

lemma nn_loop_body_eq:
  "nn_loop_body w i =
     w\<lparr>NN := nn_step (NN w),
       nn_stdout := nn_stdout w @ (if i mod 100 = 0 then [Loss_line i (nn_loss (NN w))] else [])\<rparr>"
proof -
  have "train (snd (forward (NN w) X_scaled)) X_scaled y_scaled = train (NN w) X_scaled y_scaled"
    by (rule train_depends_on_weights) (simp_all add: forward_keeps_weights)
  then show ?thesis
    by (cases "forward (NN w) X_scaled")
       (simp add: nn_loop_body_def nn_step_def nn_loss_def Let_def)
qed

lemma nn_loop_upto:
  "foldl nn_loop_body w [0..<n] =
     w\<lparr>NN := (nn_step ^^ n) (NN w),
       nn_stdout := nn_stdout w
         @ concat (map (\<lambda>i. if i mod 100 = 0 then [Loss_line i (nn_loss ((nn_step ^^ i) (NN w)))]
                              else []) [0..<n])\<rparr>"
proof (induction n)
  case 0
  then show ?case by simp
next
  case (Suc n)
  then show ?case by (simp add: nn_loop_body_eq)
qed

lemma concat_map_if:
  "concat (map (\<lambda>i. if P i then [f i] else []) xs) = map f (filter P xs)"
  by (induction xs) auto

lemma filter_multiples_block:
  assumes "0 < m"
  shows "filter (\<lambda>i. i mod m = 0) [m * k..<m * k + m] = [m * k]"
proof -
  have "[m * k..<m * k + m] = m * k # [Suc (m * k)..<m * k + m]"
    using assms by (simp add: upt_conv_Cons)
  moreover have "filter (\<lambda>i. i mod m = 0) [Suc (m * k)..<m * k + m] = []"
  proof -
    have "i mod m \<noteq> 0" if "Suc (m * k) \<le> i" and "i < m * k + m" for i
    proof -
      from that obtain r where i: "i = m * k + r" and r: "0 < r" "r < m"
        by (metis Suc_le_lessD add.commute le_add_diff_inverse2 less_imp_le_nat
            nat_add_left_cancel_less zero_less_diff)
      then show ?thesis by simp
    qed
    then show ?thesis by (auto simp: filter_empty_conv)
  qed
  ultimately show ?thesis by simp
qed

lemma filter_multiples:
  assumes "0 < m"
  shows "filter (\<lambda>i. i mod m = 0) [0..<m * k] = map (\<lambda>j. m * j) [0..<k]"
proof (induction k)
  case 0
  then show ?case by simp
next
  case (Suc k)
  have e: "m * Suc k = m * k + m" by simp
  have "[0..<m * k + m] = [0..<m * k] @ [m * k..<m * k + m]"
    by (rule upt_add_eq_append) simp
  then have "filter (\<lambda>i. i mod m = 0) [0..<m * Suc k]
             = filter (\<lambda>i. i mod m = 0) [0..<m * k] @ [m * k]"
    unfolding e using filter_multiples_block[OF assms, of k] by simp
  with Suc show ?case by simp
qed

lemma hundreds: "filter (\<lambda>i. i mod 100 = 0) [0..<1000]
                 = [0, 100, 200, 300, 400, 500, 600, 700, 800, 900]"
proof -
  have "filter (\<lambda>i. i mod 100 = 0) [0..<100 * 10] = map (\<lambda>j. 100 * j) [0..<10]"
    by (rule filter_multiples) simp
  moreover have "map (\<lambda>j. 100 * j) [0..<10] = [0, 100, 200, 300, 400, 500, 600, 700, 800, 900 :: nat]"
    by code_simp
  moreover have "(100::nat) * 10 = 1000" by simp
  ultimately show ?thesis by (simp only:)
qed

lemma nn_training_loop_eq:
  "nn_training_loop w =
     w\<lparr>NN := (nn_step ^^ 1000) (NN w),
       nn_stdout := nn_stdout w
         @ map (\<lambda>i. Loss_line i (nn_loss ((nn_step ^^ i) (NN w))))
               [0, 100, 200, 300, 400, 500, 600, 700, 800, 900]\<rparr>"
  unfolding nn_training_loop_def nn_loop_upto concat_map_if hundreds ..

subsection \<open>Counting calls in a run\<close>

lemma filter_concat_replicate:
  "filter P (concat (replicate k xs)) = concat (replicate k (filter P xs))"
  by (induction k) auto

lemma concat_replicate_concat_replicate:
  "concat (replicate k (concat (replicate n xs))) = concat (replicate (k * n) xs)"
  by (induction k) (auto simp: replicate_add)

lemma filter_replicate_other: "\<not> P x \<Longrightarrow> filter P (replicate m x) = []"
  by (induction m) auto

lemma epoch_calls_updates:
  "filter (\<lambda>c. c = Criterion \<or> c = Optimizer_step) (epoch_calls n m)
     = concat (replicate n [Criterion, Optimizer_step])"
  by (simp add: epoch_calls_def filter_concat_replicate sample_calls_def filter_replicate_other)

lemma epoch_calls_backward:
  "filter (\<lambda>c. c = Loss_backward) (epoch_calls n m) = replicate n Loss_backward"
proof -
  have "concat (replicate n [Loss_backward]) = replicate n Loss_backward"
    by (induction n) auto
  then show ?thesis
    by (simp add: epoch_calls_def filter_concat_replicate sample_calls_def filter_replicate_other)
qed

lemma run_calls_updates:
  "filter (\<lambda>c. c = Criterion \<or> c = Optimizer_step) (concat (replicate k (epoch_calls n m)))
     = concat (replicate (k * n) [Criterion, Optimizer_step])"
  by (simp add: filter_concat_replicate epoch_calls_updates concat_replicate_concat_replicate)

lemma run_calls_backward:
  "filter (\<lambda>c. c = Loss_backward) (concat (replicate k (epoch_calls n m)))
     = replicate (k * n) Loss_backward"
proof -
  have "concat (replicate k (replicate n Loss_backward)) = replicate (k * n) Loss_backward"
    by (induction k) (auto simp: replicate_add)
  then show ?thesis
    by (simp add: filter_concat_replicate epoch_calls_backward)
qed

lemma hello_calls_updates:
  "filter (\<lambda>c. c = Criterion \<or> c = Optimizer_step) (concat (replicate k hello_calls))
     = concat (replicate k [Criterion, Optimizer_step])"
  by (simp add: filter_concat_replicate hello_calls_def)

lemma hello_calls_backward:
  "filter (\<lambda>c. c = Loss_backward) (concat (replicate k hello_calls)) = replicate k Loss_backward"
proof -
  have "concat (replicate k [Loss_backward]) = replicate k Loss_backward"
    by (induction k) auto
  then show ?thesis
    by (simp add: filter_concat_replicate hello_calls_def)
qed

lemma epochs_ten:
  assumes "module_accepts api train_data" "module_accepts api test_data"
    and "shuffle_permutes api" and "train_data \<noteq> []" "test_data \<noteq> []"
  shows "\<exists>w' td' ls. epochs label api test_data [0..<10] (w, train_data) = Inr (w', td')
           \<and> mset td' = mset train_data
           \<and> calls w' = calls w
                @ concat (replicate 10 (epoch_calls (length train_data) (length test_data)))
           \<and> stdout w' = stdout w @ ls
           \<and> length ls = 10
           \<and> (\<forall>k < 10. \<exists>a b c. ls ! k = Log_line label (k + 1) a b c)"
proof -
  from epochs_ok[OF assms, of label "[0..<10]" w] obtain w' td' ls where
    r: "epochs label api test_data [0..<10] (w, train_data) = Inr (w', td')"
    and m: "mset td' = mset train_data"
    and c: "calls w' = calls w
                @ concat (replicate (length [0..<10])
                            (epoch_calls (length train_data) (length test_data)))"
    and s: "stdout w' = stdout w @ ls"
    and l: "length ls = length [0..<10]"
    and k: "\<forall>k < length [0..<10]. \<exists>a b c. ls ! k = Log_line label ([0..<10] ! k + 1) a b c"
    by blast
  have len: "length [0..<10] = 10" by (simp only: length_upt)
  have nth: "[0..<10] ! k = k" if "k < 10" for k
    using that nth_upt[of 0 k 10] by simp
  from k have "\<forall>k < 10. \<exists>a b c. ls ! k = Log_line label (k + 1) a b c"
    unfolding len using nth by metis
  with r m c s l show ?thesis unfolding len by blast
qed

lemma hello_hundred_fifty:
  assumes "module_accepts api [(hello_x, hello_y)]"
  shows "\<exists>w' ls. hello_training api w = Inr w'
           \<and> calls w' = calls w @ concat (replicate 150 hello_calls)
           \<and> stdout w' = stdout w @ ls
           \<and> length ls = 150
           \<and> (\<forall>k < 150. \<exists>loss. ls ! k = Hello_line k loss)"
proof -
  from hello_loop_ok[OF assms, of "[0..<150]" w] obtain w' ls where
    r: "hello_loop api [0..<150] w = Inr w'"
    and c: "calls w' = calls w @ concat (replicate (length [0..<150]) hello_calls)"
    and s: "stdout w' = stdout w @ ls"
    and l: "length ls = length [0..<150]"
    and k: "\<forall>k < length [0..<150]. \<exists>loss. ls ! k = Hello_line ([0..<150] ! k) loss"
    by blast
  have len: "length [0..<150] = 150" by (simp only: length_upt)
  have nth: "[0..<150] ! k = k" if "k < 150" for k
    using that nth_upt[of 0 k 150] by simp
  from k have "\<forall>k < 150. \<exists>loss. ls ! k = Hello_line k loss"
    unfolding len using nth by metis
  with r c s l show ?thesis unfolding len hello_training_def by blast
qed


subsection \<open>One step of the from-scratch network on zero weights\<close>

lemma X_scaled_value: "X_scaled = [[2 / 3, 1], [1 / 3, 5 / 9], [1, 2 / 3]]"
  by (simp add: X_scaled_def X_raw_def torch_div_def torch_max_dim0_def)

lemma y_scaled_value: "y_scaled = [[23 / 25], [1], [89 / 100]]"
  by (simp add: y_scaled_def y_raw_def)

lemma sigmoid_r_0: "sigmoid_r 0 = 1 / 2"
  by (simp add: sigmoid_r_def)

lemma forward_zero_network:
  "forward zero_network X_scaled
     = ([[1 / 2], [1 / 2], [1 / 2]],
        zero_network\<lparr>z := [[0, 0, 0], [0, 0, 0], [0, 0, 0]],
                      z2 := [[1 / 2, 1 / 2, 1 / 2], [1 / 2, 1 / 2, 1 / 2], [1 / 2, 1 / 2, 1 / 2]],
                      z3 := [[0], [0], [0]]\<rparr>)"
  by (simp add: forward_def zero_network_def Neural_Network_init_def X_scaled_value Let_def
      matmul_def dot_def sigmoid_def sigmoid_r_0)

lemma backward_zero_network:
  "W2 (backward (zero_network\<lparr>z2 := [[1 / 2, 1 / 2, 1 / 2], [1 / 2, 1 / 2, 1 / 2], [1 / 2, 1 / 2, 1 / 2]]\<rparr>)
         X_scaled y_scaled [[1 / 2], [1 / 2], [1 / 2]])
   = [[131 / 800], [131 / 800], [131 / 800]]"
  by (simp add: backward_def zero_network_def Neural_Network_init_def X_scaled_value y_scaled_value
      Let_def matmul_def dot_def sigmoidPrime_def sigmoidPrime_r_def mat_sub_def mat_mul_def
      mat_add_def torch_t_def)

lemma train_zero_network:
  "W2 (train zero_network X_scaled y_scaled) = [[131 / 800], [131 / 800], [131 / 800]]
   \<and> W1 (train zero_network X_scaled y_scaled) = [[0, 0, 0], [0, 0, 0]]"
  unfolding train_def forward_zero_network
  by (simp add: backward_def zero_network_def Neural_Network_init_def
      X_scaled_value y_scaled_value
      Let_def matmul_def dot_def sigmoidPrime_def sigmoidPrime_r_def mat_sub_def mat_mul_def
      mat_add_def torch_t_def)

lemma hidden_zero_network:
  "sigmoid (matmul X_scaled (W1 zero_network))
   = [[1 / 2, 1 / 2, 1 / 2], [1 / 2, 1 / 2, 1 / 2], [1 / 2, 1 / 2, 1 / 2]]"
  by (simp add: zero_network_def Neural_Network_init_def X_scaled_value
      matmul_def dot_def sigmoid_def sigmoid_r_0)


section \<open>The loops as compositions of library calls\<close>

text \<open>
  What a pass over the training data leaves behind: the state is the fold of
  \<open>library_step\<close> over the samples, the running loss is the sum of the criterion's values
  and the counter counts the samples whose largest score is at their tag.
\<close>

lemma train_sentences_run:
  "train_sentences api data (w, l, c) = Inr (w', l', c') \<Longrightarrow>
   torch w' = foldl (library_step api) (torch w) data
   \<and> l' = l + sum_list (map (\<lambda>(scores, tag). criterion api scores tag)
                          (library_scores api (torch w) data))
   \<and> c' = c + length (filter (\<lambda>(scores, tag). torch_argmax scores = tag)
                        (library_scores api (torch w) data))"
proof (induction data arbitrary: w l c)
  case Nil
  then show ?case by simp
next
  case (Cons a data)
  obtain sentence tag where a: "a = (sentence, tag)" by (cases a)
  from Cons.prems obtain scores where out: "module_call api (torch w) sentence = Inr scores"
    unfolding a by (auto split: sum.splits)
  define w1 where "w1 = w\<lparr>torch := library_step api (torch w) a,
      calls := calls w @ sample_calls\<rparr>"
  define l1 where "l1 = l + criterion api scores tag"
  define c1 where "c1 = (if torch_argmax scores = tag then c + 1 else c)"
  from Cons.prems out have
    r: "train_sentences api data (w1, l1, c1) = Inr (w', l', c')"
    unfolding a by (simp add: Let_def w1_def l1_def c1_def sample_calls_def library_step_def a)
  from Cons.IH[OF r] show ?case
    by (simp add: w1_def l1_def c1_def a out)
qed

lemma test_sentences_run:
  "test_sentences api data (w, c) = Inr (w', c') \<Longrightarrow>
   c' = c + length (filter (\<lambda>(x, tag). torch_argmax (projr (module_call api (torch w) x)) = tag)
                        data)"
proof (induction data arbitrary: w c)
  case Nil
  then show ?case by simp
next
  case (Cons a data)
  obtain sentence tag where a: "a = (sentence, tag)" by (cases a)
  from Cons.prems obtain scores where out: "module_call api (torch w) sentence = Inr scores"
    unfolding a by (auto split: sum.splits)
  define c1 where "c1 = (if torch_argmax scores = tag then c + 1 else c)"
  from Cons.prems out have
    r: "test_sentences api data (w\<lparr>calls := calls w @ [Module_call]\<rparr>, c1) = Inr (w', c')"
    unfolding a by (simp add: Let_def c1_def)
  from Cons.IH[OF r] show ?case
    by (simp add: c1_def a out)
qed

lemma epoch_run:
  assumes e: "epoch label api test_data ITER (w, train_data) = Inr (w', td')"
  shows "(torch w', rng w', td') = library_epoch api (torch w, rng w, train_data)
     \<and> stdout w' = stdout w @
         [Log_line label (ITER + 1)
            (sum_list (map (\<lambda>(scores, tag). criterion api scores tag)
                         (library_scores api (module_train api (torch w)) td'))
               / real (length td'))
            (real (length (filter (\<lambda>(scores, tag). torch_argmax scores = tag)
                             (library_scores api (module_train api (torch w)) td')))
               / real (length td'))
            (real (length (filter (\<lambda>(x, tag). torch_argmax (projr (module_call api (torch w') x)) = tag)
                             test_data))
               / real (length test_data))]"
proof -
  obtain td g where s: "random_shuffle api (rng w) train_data = (td, g)"
    by (cases "random_shuffle api (rng w) train_data")
  define w1 where "w1 = w\<lparr>torch := module_train api (torch w),
      calls := calls w @ [Module_train], rng := g,
      calls := (calls w @ [Module_train]) @ [Random_shuffle]\<rparr>"
  from e s obtain w2 l2 c2 where
    t: "train_sentences api td (w1, 0, 0) = Inr (w2, l2, c2)"
    by (auto simp: epoch_def Let_def w1_def split: sum.splits)
  note tr = train_sentences_run[OF t] train_sentences_trace[OF t]
  define w3 where "w3 = w2\<lparr>torch := module_eval api (torch w2), calls := calls w2 @ [Module_eval]\<rparr>"
  from e s t obtain w4 c4 where
    te: "test_sentences api test_data (w3, 0) = Inr (w4, c4)"
    by (auto simp: epoch_def Let_def w1_def w3_def split: sum.splits)
  note ter = test_sentences_run[OF te] test_sentences_trace[OF te]
  from e s t te have n: "length td \<noteq> 0" "length test_data \<noteq> 0"
    by (auto simp: epoch_def Let_def w1_def w3_def py_truediv_def split: sum.splits if_splits)
  from e s t te n have r: "w' = w4\<lparr>stdout := stdout w4 @ [Log_line label (ITER + 1) (l2 / real (length td))
                      (real c2 / real (length td)) (real c4 / real (length test_data))]\<rparr>"
    and td: "td' = td"
    by (auto simp: epoch_def Let_def w1_def w3_def py_truediv_def)
  have t4: "torch w4 = module_eval api (foldl (library_step api) (module_train api (torch w)) td)"
    using tr ter by (simp add: w1_def w3_def)
  have g4: "rng w4 = g" using tr ter by (simp add: w1_def w3_def)
  have s4: "stdout w4 = stdout w" using tr ter by (simp add: w1_def w3_def)
  have l2: "l2 = sum_list (map (\<lambda>(scores, tag). criterion api scores tag)
                         (library_scores api (module_train api (torch w)) td))"
    and c2: "c2 = length (filter (\<lambda>(scores, tag). torch_argmax scores = tag)
                             (library_scores api (module_train api (torch w)) td))"
    using tr by (simp_all add: w1_def)
  have c4: "c4 = length (filter (\<lambda>(x, tag). torch_argmax (projr (module_call api (torch w4) x)) = tag)
                             test_data)"
    using ter by (simp add: w3_def t4)
  have "(torch w', rng w', td') = library_epoch api (torch w, rng w, train_data)"
    by (simp add: r td t4 g4 library_epoch_def s)
  moreover have "torch w' = torch w4" by (simp add: r)
  ultimately show ?thesis
    by (simp add: r td s4 l2 c2 c4)
qed

lemma epochs_run:
  "epochs label api test_data iters (w, train_data) = Inr (w', td') \<Longrightarrow>
   (torch w', rng w', td') = (library_epoch api ^^ length iters) (torch w, rng w, train_data)"
proof (induction iters arbitrary: w train_data)
  case Nil
  then show ?case by simp
next
  case (Cons ITER iters)
  from Cons.prems obtain w1 td1 where
    e: "epoch label api test_data ITER (w, train_data) = Inr (w1, td1)"
    and r: "epochs label api test_data iters (w1, td1) = Inr (w', td')"
    by (auto split: sum.splits)
  from epoch_run[OF e] have "(torch w1, rng w1, td1) = library_epoch api (torch w, rng w, train_data)"
    by blast
  with Cons.IH[OF r] show ?case
    by (simp add: funpow_swap1)
qed

lemma hello_body_step:
  assumes "module_call api (module_train api (torch w)) hello_x = Inr scores"
  shows "hello_body api ITER w
         = Inr (w\<lparr>torch := library_hello_step api (torch w),
                  calls := calls w @ hello_calls,
                  stdout := stdout w @ [Hello_line ITER (criterion api scores hello_y)]\<rparr>)"
  using assms
  by (simp add: hello_body_def Let_def hello_calls_def library_hello_step_def library_step_def)

lemma hello_loop_run:
  "hello_loop api [k..<k + n] w = Inr w' \<Longrightarrow>
   torch w' = (library_hello_step api ^^ n) (torch w)
   \<and> stdout w' = stdout w @
       map (\<lambda>i. Hello_line (k + i) (library_hello_loss api ((library_hello_step api ^^ i) (torch w))))
           [0..<n]"
proof (induction n arbitrary: k w)
  case 0
  then show ?case by simp
next
  case (Suc n)
  have u: "[k..<k + Suc n] = k # [Suc k..<Suc k + n]"
    by (simp add: upt_conv_Cons)
  from Suc.prems obtain w1 where
    b: "hello_body api k w = Inr w1"
    and r: "hello_loop api [Suc k..<Suc k + n] w1 = Inr w'"
    unfolding u by (auto split: sum.splits)
  from b obtain scores where out: "module_call api (module_train api (torch w)) hello_x = Inr scores"
    by (auto simp: hello_body_def Let_def split: sum.splits)
  from b hello_body_step[OF out, of k] have w1: "w1 = w\<lparr>torch := library_hello_step api (torch w),
                  calls := calls w @ hello_calls,
                  stdout := stdout w @ [Hello_line k (criterion api scores hello_y)]\<rparr>"
    by simp
  have loss: "criterion api scores hello_y = library_hello_loss api (torch w)"
    by (simp add: library_hello_loss_def out)
  have m: "[0..<Suc n] = 0 # map Suc [0..<n]"
    by (simp add: upt_conv_Cons map_Suc_upt del: upt_Suc)
  from Suc.IH[OF r] show ?case
    unfolding m by (simp add: w1 loss funpow_swap1 comp_def del: upt_Suc)
qed

lemma hello_run:
  assumes "hello_training api w = Inr w'"
  shows "torch w' = (library_hello_step api ^^ 150) (torch w)
     \<and> stdout w' = stdout w @
         map (\<lambda>i. Hello_line i (library_hello_loss api ((library_hello_step api ^^ i) (torch w))))
             [0..<150]"
  using hello_loop_run[of api 0 150 w w'] assms
  by (simp only: hello_training_def add_0 simp_thms)

lemma sgd_hello_api_accepts: "module_accepts sgd_hello_api data"
  by (auto simp: module_accepts_def sgd_hello_api_def split: prod.splits)

subsection \<open>The computational-graph notebook and the counterfactual notebook\<close>

lemma cg_notebook_eq:
  assumes "cg_inputs ag s0 = (a, b, s1)" and "cg_operations ag a b s1 = (c, d, e, s2)"
  shows "cg_notebook ag s0 =
           (tensor_backward ag e s2,
            [Tensor_line (tensor_data ag e s2),
             Grad_line [tensor_grad ag a (tensor_backward ag e s2)],
             Grad_line [tensor_grad ag b (tensor_backward ag e s2)],
             Grad_line [tensor_grad ag a (tensor_backward ag e s2),
                        tensor_grad ag b (tensor_backward ag e s2),
                        tensor_grad ag c (tensor_backward ag e s2),
                        tensor_grad ag d (tensor_backward ag e s2),
                        tensor_grad ag e (tensor_backward ag e s2)]])"
  using assms by (simp add: cg_notebook_def Let_def)

lemma cg_operations_eq:
  assumes "tensor_add ag a b s1 = (c, t1)" and "tensor_add_scalar ag b 1 t1 = (d, t2)"
    and "tensor_mul ag c d t2 = (e, t3)"
  shows "cg_operations ag a b s1 = (c, d, e, retain_grad ag e (retain_grad ag d (retain_grad ag c t3)))"
  using assms by (simp add: cg_operations_def Let_def)

lemma tape_inputs: "cg_inputs tape_api [] = (0, 1, [(2, [], None), (1, [], None)])"
  by code_simp

lemma tape_operations:
  "cg_operations tape_api 0 1 [(2, [], None), (1, [], None)]
   = (2, 3, 4, [(2, [], None), (1, [], None), (3, [(0, 1), (1, 1)], None), (2, [(1, 1)], None),
                (6, [(2, 2), (3, 3)], None)])"
  by code_simp

lemma tape_notebook:
  "snd (cg_notebook tape_api [])
   = [Tensor_line [6], Grad_line [Some [2]], Grad_line [Some [5]],
      Grad_line [Some [2], Some [5], Some [2], Some [3], Some [1]]]"
  by code_simp

lemma sgd_first_call:
  "module_call sgd_hello_api (module_train sgd_hello_api (torch sgd_world)) hello_x
   = Inr [[0], [0], [0], [0], [0], [0]]"
  by code_simp

lemma sgd_first_iteration:
  "hello_body sgd_hello_api 0 sgd_world
   = Inr \<lparr>torch = (53 / 300, 1 / 25, - (53 / 3), - 4), rng = 0, calls = hello_calls,
          stdout = [Hello_line 0 (47 / 3)]\<rparr>"
  by code_simp

lemma toy_first_epoch:
  "epoch ''ITER'' toy_api toy_test 0 (toy_world 1, toy_train)
   = Inr (\<lparr>torch = (0, 0), rng = 2, calls = epoch_calls 2 1,
           stdout = [Log_line ''ITER'' 1 1 0 1]\<rparr>, [([3], 1), ([1, 2], 0)])"
  by code_simp

lemma toy_library_epoch:
  "library_epoch toy_api (torch (toy_world 1), rng (toy_world 1), toy_train)
   = ((0, 0), 2, [([3], 1), ([1, 2], 0)])"
  by code_simp

lemma cf_training_model:
  "cf_bbm (cf_training sk g0 X y)
   = fst (fit_with sk (RandomState sk SEED)
            (cf_X_train (cf_training sk g0 X y)) (cf_y_train (cf_training sk g0 X y)))"
  by (simp add: cf_training_def np_random_seed_def train_test_split_def forest_fit_def
      split_beta Let_def)

lemma show_explanation_values:
  assumes "show_explanation np_round bbm_predict desired feature_names x elite = Inr cell"
  shows "cf_example cell = elite \<and> np_sub elite x = Inr (cf_explanation cell)"
  using assms by (auto simp: show_explanation_def split: sum.splits if_splits)

section \<open>The vocabulary-index invariant\<close>

lemma vocabulary_steps:
  assumes v1: "create_dict train_lines False init_vocab = Inr v1"
    and v2: "create_dict test_lines True v1 = Inr v2"
    and tr: "create_tensor v2 train_lines = Inr train_ts"
    and te: "create_tensor v2 test_lines = Inr test_ts"
    and nb: "num_embeddings (bow_embedding bow) = dict_len (word_to_index v2)"
    and nc: "num_embeddings (cbow_embedding cbow) = dict_len (word_to_index v2)"
  shows "dict_get (word_to_index init_vocab) ''<unk>'' = Inr 0
       \<and> dict_get (word_to_index v1) ''<unk>'' = Inr 0
       \<and> dict_get (word_to_index v2) ''<unk>'' = Inr 0
       \<and> (\<forall>w i. dict_get (word_to_index v1) w = Inr i \<longrightarrow> i < dict_len (word_to_index v1))
       \<and> (\<forall>w w' i. dict_get (word_to_index v1) w = Inr i \<and> dict_get (word_to_index v1) w' = Inr i
             \<longrightarrow> w = w')
       \<and> (\<forall>w \<in> words_of test_lines. \<not> dict_contains (word_to_index v1) w
             \<longrightarrow> dict_get (word_to_index v2) w = Inr 0)
       \<and> (\<forall>(sentence, tag) \<in> set train_ts \<union> set test_ts.
             (\<forall>i \<in> set sentence. i < dict_len (word_to_index v2))
             \<and> (\<exists>out. BoW_forward bow sentence = Inr out)
             \<and> (\<exists>out. CBoW_forward cbow sentence = Inr out))"
proof -
  let ?d0 = "word_to_index init_vocab" and ?d1 = "word_to_index v1" and ?d2 = "word_to_index v2"
  from create_dict_train[OF counted_init v1]
  have c1: "counted ?d1" and p1: "prefix ?d0 ?d1" by auto
  have u1: "dict_get ?d1 ''<unk>'' = Inr 0"
    by (rule dict_get_prefix[OF p1 init_vocab_unk_get])
  from c1 have dist1: "distinct (map fst ?d1)" by (simp add: counted_def)
  from create_dict_test[OF dist1 u1 v2] obtain ext where
    e: "?d2 = ?d1 @ ext" and z: "\<forall>e \<in> set ext. snd e = 0" by blast
  have u2: "dict_get ?d2 ''<unk>'' = Inr 0"
    unfolding e by (rule dict_get_prefix[OF _ u1]) simp
  have ne: "?d1 \<noteq> []" using u1 by (auto simp: dict_get_def)
  have bound2: "i < dict_len ?d2" if "dict_get ?d2 w = Inr i" for w i
    using extended_bound[OF c1 ne z] that by (simp add: e)
  have lines: "\<forall>line \<in> set test_lines. 1 < length line"
  proof (rule ccontr)
    assume "\<not> ?thesis"
    then have "\<exists>line \<in> set test_lines. \<not> 1 < length line" by blast
    moreover have "dict_contains ?d1 ''<unk>''"
      using u1 dict_get_contains[of ?d1 "''<unk>''"] by blast
    ultimately have "create_dict test_lines True v1 = Inl IndexError"
      by (rule create_dict_fail[rotated])
    with v2 show False by simp
  qed
  have "dict_contains ?d1 ''<unk>''"
    using u1 dict_get_contains[of ?d1 "''<unk>''"] by blast
  from create_dict_ok[OF this lines, of True] v2
  have keys2: "\<forall>k. dict_contains ?d2 k = (dict_contains ?d1 k \<or> k \<in> words_of test_lines)"
    by auto
  have unseen: "\<forall>w \<in> words_of test_lines. \<not> dict_contains ?d1 w \<longrightarrow> dict_get ?d2 w = Inr 0"
  proof (intro ballI impI)
    fix w assume w: "w \<in> words_of test_lines" and n: "\<not> dict_contains ?d1 w"
    from w keys2 have "dict_contains (?d1 @ ext) w" by (simp add: e)
    from extended_new[OF z n this] show "dict_get ?d2 w = Inr 0" by (simp add: e)
  qed
  have tens: "(\<forall>i \<in> set s. i < dict_len ?d2)
             \<and> (\<exists>out. BoW_forward bow s = Inr out)
             \<and> (\<exists>out. CBoW_forward cbow s = Inr out)"
    if "(s, t) \<in> set train_ts \<union> set test_ts" for s t
  proof -
    from that create_tensor_values[OF tr] create_tensor_values[OF te]
    have "\<forall>i \<in> set s. \<exists>w. dict_get ?d2 w = Inr i" by auto
    then have b: "\<forall>i \<in> set s. i < dict_len ?d2" using bound2 by blast
    from forward_in_range[OF b] nb nc show ?thesis using b by blast
  qed
  show ?thesis
    using init_vocab_unk_get u1 u2 counted_bound[OF c1] counted_inj[OF c1] unseen tens
    by (intro conjI) (blast+)
qed

lemma load_dataset_steps:
  assumes "load_dataset train_txt test_txt = Inr d"
  shows "\<exists>v1 v2. create_dict (read_data train_txt) False init_vocab = Inr v1
           \<and> create_dict (read_data test_txt) True v1 = Inr v2
           \<and> create_tensor v2 (read_data train_txt) = Inr (train_tensors d)
           \<and> create_tensor v2 (read_data test_txt) = Inr (test_tensors d)
           \<and> number_of_words d = dict_len (word_to_index v2)"
  using assms by (auto simp: load_dataset_def Let_def split: sum.splits)

text \<open>
  C8. \<open>"<unk>"\<close> maps to index 0 initially, after \<open>create_dict\<close> on the training data and
  after \<open>create_dict\<close> on the test data. After the training pass every stored index is
  below \<open>len(word_to_index)\<close> and distinct words have distinct indices. After the test pass
  with \<open>check_unk=True\<close> the test words not seen in training map to 0. Hence every token
  index that \<open>create_tensor\<close> produces is below \<open>number_of_words\<close>, and the embedding lookup
  of \<open>BoW.forward\<close> and \<open>CBoW.forward\<close> on a table of \<open>number_of_words\<close> rows is in range
  for every encoded sentence; the same holds for the result of the cells run in sequence.
\<close>

theorem vocabulary_index_invariant:
  assumes "create_dict train_lines False init_vocab = Inr v1"
    and "create_dict test_lines True v1 = Inr v2"
    and "create_tensor v2 train_lines = Inr train_ts"
    and "create_tensor v2 test_lines = Inr test_ts"
    and "num_embeddings (bow_embedding bow) = dict_len (word_to_index v2)"
    and "num_embeddings (cbow_embedding cbow) = dict_len (word_to_index v2)"
  shows "dict_get (word_to_index init_vocab) ''<unk>'' = Inr 0
       \<and> dict_get (word_to_index v1) ''<unk>'' = Inr 0
       \<and> dict_get (word_to_index v2) ''<unk>'' = Inr 0
       \<and> (\<forall>w i. dict_get (word_to_index v1) w = Inr i \<longrightarrow> i < dict_len (word_to_index v1))
       \<and> (\<forall>w w' i. dict_get (word_to_index v1) w = Inr i \<and> dict_get (word_to_index v1) w' = Inr i
             \<longrightarrow> w = w')
       \<and> (\<forall>w \<in> words_of test_lines. \<not> dict_contains (word_to_index v1) w
             \<longrightarrow> dict_get (word_to_index v2) w = Inr 0)
       \<and> (\<forall>(sentence, tag) \<in> set train_ts \<union> set test_ts.
             (\<forall>i \<in> set sentence. i < dict_len (word_to_index v2))
             \<and> (\<exists>out. BoW_forward bow sentence = Inr out)
             \<and> (\<exists>out. CBoW_forward cbow sentence = Inr out))
       \<and> (\<forall>d bow' cbow'. load_dataset train_txt test_txt = Inr d
             \<and> num_embeddings (bow_embedding bow') = number_of_words d
             \<and> num_embeddings (cbow_embedding cbow') = number_of_words d
             \<longrightarrow> (\<forall>(sentence, tag) \<in> set (train_tensors d) \<union> set (test_tensors d).
                   (\<forall>i \<in> set sentence. i < number_of_words d)
                   \<and> (\<exists>out. BoW_forward bow' sentence = Inr out)
                   \<and> (\<exists>out. CBoW_forward cbow' sentence = Inr out)))"
proof -
  have "\<forall>(sentence, tag) \<in> set (train_tensors d) \<union> set (test_tensors d).
          (\<forall>i \<in> set sentence. i < number_of_words d)
          \<and> (\<exists>out. BoW_forward bow' sentence = Inr out)
          \<and> (\<exists>out. CBoW_forward cbow' sentence = Inr out)"
    if l: "load_dataset train_txt test_txt = Inr d"
      and nb: "num_embeddings (bow_embedding bow') = number_of_words d"
      and nc: "num_embeddings (cbow_embedding cbow') = number_of_words d"
    for d bow' cbow'
  proof -
    from load_dataset_steps[OF l] obtain u1 u2 where
      s: "create_dict (read_data train_txt) False init_vocab = Inr u1"
         "create_dict (read_data test_txt) True u1 = Inr u2"
         "create_tensor u2 (read_data train_txt) = Inr (train_tensors d)"
         "create_tensor u2 (read_data test_txt) = Inr (test_tensors d)"
      and n: "number_of_words d = dict_len (word_to_index u2)"
      by blast
    from vocabulary_steps[OF s nb[unfolded n] nc[unfolded n]] show ?thesis
      unfolding n by blast
  qed
  with vocabulary_steps[OF assms] show ?thesis by blast
qed

lemma example_create_dict_train:
  "create_dict (read_data example_train) False init_vocab = Inr example_v1"
  by code_simp

lemma example_create_dict_test:
  "create_dict (read_data example_test) True example_v1 = Inr example_v2"
  by code_simp

lemma example_create_tensor_train:
  "create_tensor example_v2 (read_data example_train) = Inr example_train_tensors"
  by code_simp

lemma example_create_tensor_test:
  "create_tensor example_v2 (read_data example_test) = Inr example_test_tensors"
  by code_simp

lemma example_load_dataset: "load_dataset example_train example_test = Inr example_dataset"
  by code_simp

lemma example_cats_unseen:
  "''cats'' \<in> words_of (read_data example_test)
   \<and> \<not> dict_contains (word_to_index example_v1) ''cats''"
  by code_simp

theorem vocabulary_index_invariant_witness:
  "create_dict (read_data example_train) False init_vocab = Inr example_v1
   \<and> create_dict (read_data example_test) True example_v1 = Inr example_v2
   \<and> create_tensor example_v2 (read_data example_train) = Inr example_train_tensors
   \<and> create_tensor example_v2 (read_data example_test) = Inr example_test_tensors
   \<and> num_embeddings (bow_embedding example_bow) = dict_len (word_to_index example_v2)
   \<and> num_embeddings (cbow_embedding example_cbow) = dict_len (word_to_index example_v2)
   \<and> dict_get (word_to_index example_v2) ''<unk>'' = Inr 0
   \<and> ''cats'' \<in> words_of (read_data example_test)
   \<and> \<not> dict_contains (word_to_index example_v1) ''cats''
   \<and> dict_get (word_to_index example_v2) ''cats'' = Inr 0
   \<and> ([3, 4, 0], 1) \<in> set example_test_tensors
   \<and> list_all (\<lambda>i. i < dict_len (word_to_index example_v2)) [3, 4, 0]
   \<and> (\<exists>out. BoW_forward example_bow [3, 4, 0] = Inr out)
   \<and> (\<exists>out. CBoW_forward example_cbow [3, 4, 0] = Inr out)
   \<and> load_dataset example_train example_test = Inr example_dataset
   \<and> num_embeddings (bow_embedding example_bow) = number_of_words example_dataset
   \<and> num_embeddings (cbow_embedding example_cbow) = number_of_words example_dataset
   \<and> ([0, 5], 2) \<in> set (test_tensors example_dataset)
   \<and> list_all (\<lambda>i. i < number_of_words example_dataset) [0, 5]
   \<and> (\<exists>out. BoW_forward example_bow [0, 5] = Inr out)"
proof -
  have nb': "num_embeddings (bow_embedding example_bow) = number_of_words example_dataset"
    and nc': "num_embeddings (cbow_embedding example_cbow) = number_of_words example_dataset"
    and mem2: "([0, 5], 2) \<in> set (test_tensors example_dataset)"
    by (simp_all add: example_bow_def example_cbow_def example_dataset_def
        example_test_tensors_def)
  have nb: "num_embeddings (bow_embedding example_bow) = dict_len (word_to_index example_v2)"
    by (simp add: example_bow_def example_v2_def dict_len_def)
  have nc: "num_embeddings (cbow_embedding example_cbow) = dict_len (word_to_index example_v2)"
    by (simp add: example_cbow_def example_v2_def dict_len_def)
  have mem: "([3, 4, 0], 1) \<in> set example_train_tensors \<union> set example_test_tensors"
    by (simp add: example_test_tensors_def)
  note inst = vocabulary_index_invariant[OF example_create_dict_train example_create_dict_test
      example_create_tensor_train example_create_tensor_test nb nc,
      where train_txt = example_train and test_txt = example_test]
  from inst have unk: "dict_get (word_to_index example_v2) ''<unk>'' = Inr 0"
    by blast
  from inst example_cats_unseen
  have cats: "dict_get (word_to_index example_v2) ''cats'' = Inr 0"
    by blast
  from inst mem
  have sent: "(\<forall>i \<in> set [3, 4, 0]. i < dict_len (word_to_index example_v2))
      \<and> (\<exists>out. BoW_forward example_bow [3, 4, 0] = Inr out)
      \<and> (\<exists>out. CBoW_forward example_cbow [3, 4, 0] = Inr out)"
    by blast
  then have all: "list_all (\<lambda>i. i < dict_len (word_to_index example_v2)) [3, 4, 0]"
    by (simp add: list_all_iff)
  have mem': "([3, 4, 0], 1) \<in> set example_test_tensors"
    by (simp add: example_test_tensors_def)
  from inst example_load_dataset nb' nc'
  have "\<forall>(sentence, tag) \<in> set (train_tensors example_dataset) \<union> set (test_tensors example_dataset).
          (\<forall>i \<in> set sentence. i < number_of_words example_dataset)
          \<and> (\<exists>out. BoW_forward example_bow sentence = Inr out)
          \<and> (\<exists>out. CBoW_forward example_cbow sentence = Inr out)"
    by blast
  with mem2 have sent2: "(\<forall>i \<in> set [0, 5]. i < number_of_words example_dataset)
      \<and> (\<exists>out. BoW_forward example_bow [0, 5] = Inr out)"
    by blast
  then have all2: "list_all (\<lambda>i. i < number_of_words example_dataset) [0, 5]"
    by (simp add: list_all_iff)
  show ?thesis
    using example_create_dict_train example_create_dict_test
      example_create_tensor_train example_create_tensor_test nb nc unk cats
      example_cats_unseen sent all mem' example_load_dataset nb' nc' mem2 sent2 all2
    by (intro conjI) (elim conjE, assumption)+
qed


section \<open>When the data pipeline raises\<close>

text \<open>
  C9 (as amended). \<open>read_data\<close> returns, for each input line, the lowercased, stripped line
  split on the separator \<open>'' ||| ''\<close>. Building the vocabulary and the tensors from two files
  succeeds exactly when every line, once lowercased and stripped, still contains the
  separator; otherwise \<open>line[1]\<close> is out of range and the pipeline ends in \<open>IndexError\<close>.
  A line without the separator yields a singleton list, whose element 1 is out of range.
\<close>

theorem load_dataset_succeeds_iff:
  "read_data f = map (\<lambda>line. str_split (str_strip (str_lower line)) '' ||| '') f
   \<and> ((\<exists>d. load_dataset train_txt test_txt = Inr d)
        = (\<forall>raw \<in> set train_txt \<union> set test_txt. sublist '' ||| '' (str_strip (str_lower raw))))
   \<and> ((\<exists>raw \<in> set train_txt \<union> set test_txt. \<not> sublist '' ||| '' (str_strip (str_lower raw)))
        \<longrightarrow> load_dataset train_txt test_txt = Inl IndexError)
   \<and> (\<not> sublist '' ||| '' raw
        \<longrightarrow> read_data [raw] = [[str_strip (str_lower raw)]]
            \<and> list_get (str_split (str_strip (str_lower raw)) '' ||| '') 1 = Inl IndexError)"
proof (intro conjI impI)
  show "read_data f = map (\<lambda>line. str_split (str_strip (str_lower line)) '' ||| '') f"
    by (rule read_data_map)
next
  show "(\<exists>d. load_dataset train_txt test_txt = Inr d)
        = (\<forall>raw \<in> set train_txt \<union> set test_txt. sublist '' ||| '' (str_strip (str_lower raw)))"
  proof
    assume ok: "\<exists>d. load_dataset train_txt test_txt = Inr d"
    show "\<forall>raw \<in> set train_txt \<union> set test_txt. sublist '' ||| '' (str_strip (str_lower raw))"
    proof (rule ccontr)
      assume "\<not> ?thesis"
      then have "load_dataset train_txt test_txt = Inl IndexError"
        by (intro load_dataset_fail) blast
      with ok show False by simp
    qed
  next
    assume "\<forall>raw \<in> set train_txt \<union> set test_txt. sublist '' ||| '' (str_strip (str_lower raw))"
    then show "\<exists>d. load_dataset train_txt test_txt = Inr d"
      by (rule load_dataset_ok)
  qed
next
  assume "\<exists>raw \<in> set train_txt \<union> set test_txt. \<not> sublist '' ||| '' (str_strip (str_lower raw))"
  then show "load_dataset train_txt test_txt = Inl IndexError"
    by (rule load_dataset_fail)
next
  assume raw: "\<not> sublist '' ||| '' raw"
  then have none: "\<not> sublist '' ||| '' (str_strip (str_lower raw))"
    using processed_sep_imp_raw_sep by blast
  from list_get_1_no_sep[OF none]
  show "read_data [raw] = [[str_strip (str_lower raw)]]"
    by (simp add: read_data_map)
  from list_get_1_no_sep[OF none]
  show "list_get (str_split (str_strip (str_lower raw)) '' ||| '') 1 = Inl IndexError"
    by (rule conjunct2)
qed

lemma example_lines_have_separator:
  "\<forall>raw \<in> set example_train \<union> set example_test. sublist '' ||| '' (str_strip (str_lower raw))"
  by code_simp

lemma example_line_without_separator: "\<not> sublist '' ||| '' ''3 I love dogs\<newline>''"
  by code_simp

theorem load_dataset_succeeds_iff_witness:
  "list_all (\<lambda>raw. sublist '' ||| '' (str_strip (str_lower raw))) (example_train @ example_test)
   \<and> (\<exists>d. load_dataset example_train example_test = Inr d)
   \<and> \<not> sublist '' ||| '' ''3 I love dogs\<newline>''
   \<and> read_data [''3 I love dogs\<newline>''] = [[str_strip (str_lower ''3 I love dogs\<newline>'')]]
   \<and> list_get (str_split (str_strip (str_lower ''3 I love dogs\<newline>'')) '' ||| '') 1
       = Inl IndexError
   \<and> \<not> sublist '' ||| '' (str_strip (str_lower ''3 ||| \<newline>''))
   \<and> load_dataset example_train [''3 ||| \<newline>''] = Inl IndexError"
proof -
  note a = load_dataset_succeeds_iff[of "[]" example_train example_test "''3 I love dogs\<newline>''"]
  note b = load_dataset_succeeds_iff[of "[]" example_train "[''3 ||| \<newline>'']" "[]"]
  have s: "\<not> sublist '' ||| '' (str_strip (str_lower ''3 ||| \<newline>''))"
    by code_simp
  then have "\<exists>raw \<in> set example_train \<union> set [''3 ||| \<newline>''].
               \<not> sublist '' ||| '' (str_strip (str_lower raw))"
    by simp
  with b have f: "load_dataset example_train [''3 ||| \<newline>''] = Inl IndexError"
    by blast
  from a example_lines_have_separator example_line_without_separator s f
  show ?thesis
    unfolding list_all_iff set_append by blast
qed

text \<open>
  The claim as stated fails: the line \<open>''3 ||| ''\<close> followed by a newline contains the
  separator, but stripping removes the separator's trailing blank, the split yields one
  field and \<open>line[1]\<close> raises.
\<close>

theorem separator_in_line_yet_index_error:
  "sublist '' ||| '' ''3 ||| \<newline>''
   \<and> read_data [''3 ||| \<newline>''] = [[''3 |||'']]
   \<and> load_dataset [''3 ||| \<newline>''] [] = Inl IndexError"
  by code_simp


section \<open>BoW and CBoW scores are sums of token embeddings\<close>

lemma vec_add_nth:
  "length a = n \<Longrightarrow> length b = n \<Longrightarrow> vec_add a b = map (\<lambda>j. a ! j + b ! j) [0..<n]"
  by (auto simp: vec_add_def intro!: nth_equalityI)

lemma foldl_vec_add:
  "length acc = n \<Longrightarrow> \<forall>r \<in> set rows. length r = n \<Longrightarrow>
   foldl vec_add acc rows = map (\<lambda>j. acc ! j + (\<Sum>r\<leftarrow>rows. r ! j)) [0..<n]"
proof (induction rows arbitrary: acc)
  case Nil
  then show ?case by (auto intro!: nth_equalityI)
next
  case (Cons r rows)
  have l: "length (vec_add acc r) = n"
    using Cons.prems by (simp add: vec_add_def)
  have "foldl vec_add (vec_add acc r) rows
        = map (\<lambda>j. vec_add acc r ! j + (\<Sum>r\<leftarrow>rows. r ! j)) [0..<n]"
    using Cons.IH[OF l] Cons.prems(2) by simp
  also have "\<dots> = map (\<lambda>j. acc ! j + (\<Sum>r\<leftarrow>r # rows. r ! j)) [0..<n]"
    using Cons.prems by (auto simp: vec_add_def)
  finally show ?case by simp
qed

lemma torch_sum_dim0_sums:
  "\<forall>r \<in> set rows. length r = n \<Longrightarrow>
   torch_sum_dim0 n rows = map (\<lambda>j. \<Sum>r\<leftarrow>rows. r ! j) [0..<n]"
  using foldl_vec_add[of "replicate n 0" n rows] by (simp add: torch_sum_dim0_def)

lemma embedding_rows:
  assumes "embedding_ok E" and "\<forall>i \<in> set x. i < num_embeddings E"
  shows "embedding_call E x = Inr (map (\<lambda>i. weight E ! i) x)"
    and "\<forall>r \<in> set (map (\<lambda>i. weight E ! i) x). length r = embedding_dim E"
  using assms by (auto simp: embedding_call_in_range embedding_ok_def list_all_iff)

lemma sum_embedding_rows:
  assumes "embedding_ok E" and "\<forall>i \<in> set x. i < num_embeddings E"
  shows "torch_sum_dim0 (embedding_dim E) (map (\<lambda>i. weight E ! i) x)
         = map (\<lambda>j. \<Sum>i\<leftarrow>x. weight E ! i ! j) [0..<embedding_dim E]"
  using torch_sum_dim0_sums[OF embedding_rows(2)[OF assms]]
  by (simp add: comp_def)

text \<open>
  C5. For every token-index sequence \<open>x\<close> whose indices are rows of the embedding table
  (in particular every non-empty one), \<open>BoW.forward(x)\<close> is the one-row matrix whose entry
  \<open>j\<close> is the sum over the tokens of entry \<open>j\<close> of their embedding rows plus entry \<open>j\<close>
  of the bias, of shape (1, ntags); \<open>CBoW.forward(x)\<close> is the linear layer applied to
  the one-row matrix of shape (1, emb_size) holding the sum over the tokens of their
  embedding rows.
\<close>

theorem forward_sums_token_embeddings:
  assumes "\<forall>i \<in> set x. i < num_embeddings (bow_embedding bow)"
    and "embedding_ok (bow_embedding bow)"
    and "length (bow_bias bow) = embedding_dim (bow_embedding bow)"
    and "\<forall>i \<in> set x. i < num_embeddings (cbow_embedding cbow)"
    and "embedding_ok (cbow_embedding cbow)"
  shows "BoW_forward bow x
           = Inr [map (\<lambda>j. (\<Sum>i\<leftarrow>x. weight (bow_embedding bow) ! i ! j) + bow_bias bow ! j)
                      [0..<embedding_dim (bow_embedding bow)]]
       \<and> CBoW_forward cbow x
           = Inr (linear_call (cbow_linear cbow)
                    [map (\<lambda>j. \<Sum>i\<leftarrow>x. weight (cbow_embedding cbow) ! i ! j)
                         [0..<embedding_dim (cbow_embedding cbow)]])"
proof
  let ?E = "bow_embedding bow"
  have "vec_add (torch_sum_dim0 (embedding_dim ?E) (map (\<lambda>i. weight ?E ! i) x)) (bow_bias bow)
        = map (\<lambda>j. (\<Sum>i\<leftarrow>x. weight ?E ! i ! j) + bow_bias bow ! j) [0..<embedding_dim ?E]"
    unfolding sum_embedding_rows[OF assms(2,1)]
    using assms(3) by (auto simp: vec_add_def intro!: nth_equalityI)
  then show "BoW_forward bow x
           = Inr [map (\<lambda>j. (\<Sum>i\<leftarrow>x. weight ?E ! i ! j) + bow_bias bow ! j) [0..<embedding_dim ?E]]"
    using embedding_rows(1)[OF assms(2,1)]
    by (simp add: BoW_forward_def Let_def view_1_def)
next
  let ?E = "cbow_embedding cbow"
  show "CBoW_forward cbow x
           = Inr (linear_call (cbow_linear cbow)
                    [map (\<lambda>j. \<Sum>i\<leftarrow>x. weight ?E ! i ! j) [0..<embedding_dim ?E]])"
    using embedding_rows(1)[OF assms(5,4)] sum_embedding_rows[OF assms(5,4)]
    by (simp add: CBoW_forward_def Let_def view_1_def)
qed

lemma example_embeddings_ok:
  "embedding_ok (bow_embedding example_bow) \<and> embedding_ok (cbow_embedding example_cbow)
   \<and> length (bow_bias example_bow) = embedding_dim (bow_embedding example_bow)"
  by code_simp

lemma example_sentence_in_range:
  "(\<forall>i \<in> set [3, 4, 0]. i < num_embeddings (bow_embedding example_bow))
   \<and> (\<forall>i \<in> set [3, 4, 0]. i < num_embeddings (cbow_embedding example_cbow))"
  by (simp add: example_bow_def example_cbow_def)

theorem forward_sums_token_embeddings_witness:
  "[3, 4, 0] \<noteq> ([] :: nat list)
   \<and> list_all (\<lambda>i. i < num_embeddings (bow_embedding example_bow)) [3, 4, 0]
   \<and> list_all (\<lambda>i. i < num_embeddings (cbow_embedding example_cbow)) [3, 4, 0]
   \<and> embedding_ok (bow_embedding example_bow)
   \<and> embedding_ok (cbow_embedding example_cbow)
   \<and> length (bow_bias example_bow) = embedding_dim (bow_embedding example_bow)
   \<and> BoW_forward example_bow [3, 4, 0] = Inr [[3 + 4 + 0 + 0, 4 + 5 + 1 + 0]]
   \<and> CBoW_forward example_cbow [3, 4, 0]
       = Inr (linear_call (cbow_linear example_cbow) [[3 + 4 + 0, 4 + 5 + 1]])"
proof -
  have r1: "\<forall>i \<in> set [3, 4, 0]. i < num_embeddings (bow_embedding example_bow)"
    and r2: "\<forall>i \<in> set [3, 4, 0]. i < num_embeddings (cbow_embedding example_cbow)"
    using example_sentence_in_range by blast+
  have e1: "embedding_ok (bow_embedding example_bow)"
    and e2: "embedding_ok (cbow_embedding example_cbow)"
    and b: "length (bow_bias example_bow) = embedding_dim (bow_embedding example_bow)"
    using example_embeddings_ok by blast+
  note inst = forward_sums_token_embeddings[OF r1 e1 b r2 e2]
  have v1: "[map (\<lambda>j. (\<Sum>i\<leftarrow>[3, 4, 0]. weight (bow_embedding example_bow) ! i ! j)
                        + bow_bias example_bow ! j)
                 [0..<embedding_dim (bow_embedding example_bow)]]
            = [[3 + 4 + 0 + 0, 4 + 5 + 1 + 0]]"
    by code_simp
  have v2: "[map (\<lambda>j. \<Sum>i\<leftarrow>[3, 4, 0]. weight (cbow_embedding example_cbow) ! i ! j)
                 [0..<embedding_dim (cbow_embedding example_cbow)]]
            = [[3 + 4 + 0, 4 + 5 + 1]]"
    by code_simp
  have l1: "list_all (\<lambda>i. i < num_embeddings (bow_embedding example_bow)) [3, 4, 0]"
    and l2: "list_all (\<lambda>i. i < num_embeddings (cbow_embedding example_cbow)) [3, 4, 0]"
    using r1 r2 by (simp_all add: list_all_iff)
  from inst have f1: "BoW_forward example_bow [3, 4, 0] = Inr [[3 + 4 + 0 + 0, 4 + 5 + 1 + 0]]"
    unfolding v1 by (rule conjunct1)
  from inst have f2: "CBoW_forward example_cbow [3, 4, 0]
       = Inr (linear_call (cbow_linear example_cbow) [[3 + 4 + 0, 4 + 5 + 1]])"
    unfolding v2 by (rule conjunct2)
  have ne: "[3, 4, 0] \<noteq> ([] :: nat list)" by simp
  show ?thesis
    using ne l1 l2 e1 e2 b f1 f2 by (intro conjI)
qed


section \<open>Reporting a counterfactual explanation\<close>

text \<open>The lines printed are those of the features whose change is nonzero, in order.\<close>

lemma explanation_lines_filter:
  "\<forall>(i, feat) \<in> set ifs. i < length d \<and> i < length x \<and> i < length c \<Longrightarrow>
   explanation_lines np_round ifs d x c
     = Inr (map (\<lambda>(i, feat). Feature_line feat (np_round (x ! i) 3) (np_round (c ! i) 3))
              (filter (\<lambda>(i, feat). d ! i \<noteq> 0) ifs))"
proof (induction ifs)
  case Nil
  then show ?case by simp
next
  case (Cons a ifs)
  obtain i feat where a: "a = (i, feat)" by (cases a)
  from Cons.prems a have "i < length d" "i < length x" "i < length c" by auto
  moreover have "explanation_lines np_round ifs d x c
     = Inr (map (\<lambda>(i, feat). Feature_line feat (np_round (x ! i) 3) (np_round (c ! i) 3))
              (filter (\<lambda>(i, feat). d ! i \<noteq> 0) ifs))"
    using Cons by simp
  ultimately show ?case
    by (simp add: a list_get_def)
qed

lemma enumerate_as_map:
  "enumerate 0 xs = map (\<lambda>i. (i, xs ! i)) [0..<length xs]"
  by (auto intro!: nth_equalityI simp: nth_enumerate_eq)

lemma map_filter_enumerate:
  "map (\<lambda>(i, feat). F feat i) (filter (\<lambda>(i, feat). P i) (enumerate 0 xs))
   = map (\<lambda>i. F (xs ! i) i) (filter P [0..<length xs])"
  by (simp add: enumerate_as_map filter_map comp_def)

lemma np_sub_same_length:
  "length a = length b \<Longrightarrow> np_sub a b = Inr (map2 (-) a b)"
  by (simp add: np_sub_def)

lemma show_explanation_failure:
  assumes len: "length elite = length x" and p: "bbm_predict elite \<noteq> desired"
  shows "show_explanation np_round bbm_predict desired feature_names x elite
           = Inr \<lparr>cf_example = elite, cf_explanation = map2 (-) elite x,
                  cell_stdout = [Failure_message]\<rparr>"
  using p by (simp add: show_explanation_def np_sub_same_length[OF len])

lemma show_explanation_success:
  assumes len: "length elite = length x" and names: "length feature_names \<le> length x"
    and p: "bbm_predict elite = desired"
  shows "show_explanation np_round bbm_predict desired feature_names x elite
           = Inr \<lparr>cf_example = elite, cf_explanation = map2 (-) elite x,
                  cell_stdout = Success_header #
                    map (\<lambda>i. Feature_line (feature_names ! i) (np_round (x ! i) 3)
                                           (np_round (elite ! i) 3))
                        (filter (\<lambda>i. map2 (-) elite x ! i \<noteq> 0) [0..<length feature_names])\<rparr>"
proof -
  let ?d = "map2 (-) elite x"
  have inr: "\<forall>(i, feat) \<in> set (enumerate 0 feature_names).
               i < length ?d \<and> i < length x \<and> i < length elite"
    using len names by (auto simp: in_set_enumerate_eq)
  note map_filter_enumerate[of
      "\<lambda>feat i. Feature_line feat (np_round (x ! i) 3) (np_round (elite ! i) 3)"
      "\<lambda>i. ?d ! i \<noteq> 0" feature_names]
  then show ?thesis
    using p explanation_lines_filter[OF inr]
    by (simp add: show_explanation_def np_sub_same_length[OF len])
qed

text \<open>
  C4. When the classifier does not give the desired class for the best-found example, the
  cell prints the failure message and nothing else: it returns normally and the two
  variables it assigned before the test are what they are in the other branch too. When
  the prediction is the desired class, it prints the success message followed by one line
  for exactly the features \<open>i\<close> with \<open>cf_explanation[i] \<noteq> 0\<close>, in order.
\<close>

theorem show_explanation_branches:
  assumes "length elite = length x" and "length feature_names \<le> length x"
  shows "\<exists>cell. show_explanation np_round bbm_predict desired feature_names x elite = Inr cell
           \<and> cf_example cell = elite
           \<and> cf_explanation cell = map2 (-) elite x
           \<and> (bbm_predict elite \<noteq> desired \<longrightarrow> cell_stdout cell = [Failure_message])
           \<and> (bbm_predict elite = desired \<longrightarrow>
                cell_stdout cell = Success_header #
                  map (\<lambda>i. Feature_line (feature_names ! i) (np_round (x ! i) 3)
                                         (np_round (elite ! i) 3))
                      (filter (\<lambda>i. cf_explanation cell ! i \<noteq> 0) [0..<length feature_names]))"
proof (cases "bbm_predict elite = desired")
  case True
  from show_explanation_success[where elite = elite and x = x and feature_names = feature_names
      and bbm_predict = bbm_predict and desired = desired and np_round = np_round, OF assms True] True
  show ?thesis by simp
next
  case False
  from show_explanation_failure[where elite = elite and x = x and bbm_predict = bbm_predict
      and desired = desired and np_round = np_round and feature_names = feature_names,
      OF assms(1) False]
    False
  show ?thesis by simp
qed

lemma example_explanation_success:
  "show_explanation example_round example_predict desired_class example_features [0, 1000, 30] [5, 1000, 65 / 2]
     = Inr \<lparr>cf_example = [5, 1000, 65 / 2], cf_explanation = [5, 0, 5 / 2],
            cell_stdout = [Success_header, Feature_line ''duration'' 0 5,
                           Feature_line ''age'' 30 (65 / 2)]\<rparr>"
  by code_simp

lemma example_explanation_failure:
  "show_explanation example_round example_predict desired_class example_features [0, 1000, 30] [1 / 2, 1000, 30]
     = Inr \<lparr>cf_example = [1 / 2, 1000, 30], cf_explanation = [1 / 2, 0, 0],
            cell_stdout = [Failure_message]\<rparr>"
  by code_simp

theorem show_explanation_branches_witness:
  "length [5, 1000, 65 / 2 :: real] = length [0, 1000, 30 :: real]
   \<and> length example_features \<le> length [0, 1000, 30 :: real]
   \<and> example_predict [5, 1000, 65 / 2] = desired_class
   \<and> (\<exists>cell. show_explanation example_round example_predict desired_class example_features
                [0, 1000, 30] [5, 1000, 65 / 2] = Inr cell
          \<and> cell_stdout cell = Success_header #
               map (\<lambda>i. Feature_line (example_features ! i) (example_round ([0, 1000, 30] ! i) 3)
                                      (example_round ([5, 1000, 65 / 2] ! i) 3))
                   (filter (\<lambda>i. cf_explanation cell ! i \<noteq> 0) [0..<length example_features]))
   \<and> cell_stdout (projr (show_explanation example_round example_predict desired_class example_features
                            [0, 1000, 30] [5, 1000, 65 / 2]))
       = [Success_header, Feature_line ''duration'' 0 5, Feature_line ''age'' 30 (65 / 2)]
   \<and> length [1 / 2, 1000, 30 :: real] = length [0, 1000, 30 :: real]
   \<and> example_predict [1 / 2, 1000, 30] \<noteq> desired_class
   \<and> (\<exists>cell. show_explanation example_round example_predict desired_class example_features
                [0, 1000, 30] [1 / 2, 1000, 30] = Inr cell
          \<and> cf_example cell = [1 / 2, 1000, 30]
          \<and> cell_stdout cell = [Failure_message])"
proof -
  have l: "length [5, 1000, 65 / 2 :: real] = length [0, 1000, 30 :: real]" by simp
  have n: "length example_features \<le> length [0, 1000, 30 :: real]"
    by (simp add: example_features_def)
  have p: "example_predict [5, 1000, 65 / 2] = desired_class"
    by (simp add: example_predict_def desired_class_def)
  from show_explanation_branches[OF l n, of example_round example_predict desired_class] p
  have "\<exists>cell. show_explanation example_round example_predict desired_class example_features
                [0, 1000, 30] [5, 1000, 65 / 2] = Inr cell
          \<and> cell_stdout cell = Success_header #
               map (\<lambda>i. Feature_line (example_features ! i) (example_round ([0, 1000, 30] ! i) 3)
                                      (example_round ([5, 1000, 65 / 2] ! i) 3))
                   (filter (\<lambda>i. cf_explanation cell ! i \<noteq> 0) [0..<length example_features])"
    by blast
  moreover have "cell_stdout (projr (show_explanation example_round example_predict desired_class
                    example_features [0, 1000, 30] [5, 1000, 65 / 2]))
       = [Success_header, Feature_line ''duration'' 0 5, Feature_line ''age'' 30 (65 / 2)]"
    by (simp add: example_explanation_success)
  moreover have l': "length [1 / 2, 1000, 30 :: real] = length [0, 1000, 30 :: real]" by simp
  moreover have p': "example_predict [1 / 2, 1000, 30] \<noteq> desired_class"
    by (simp add: example_predict_def desired_class_def)
  moreover from show_explanation_branches[OF l' n, of example_round example_predict desired_class] p'
  have "\<exists>cell. show_explanation example_round example_predict desired_class example_features
                [0, 1000, 30] [1 / 2, 1000, 30] = Inr cell
          \<and> cf_example cell = [1 / 2, 1000, 30]
          \<and> cell_stdout cell = [Failure_message]"
    by blast
  ultimately show ?thesis using l n p by (intro conjI)
qed

section \<open>What a reported explanation guarantees\<close>

lemma pick_user_undesired:
  assumes "pick_user bbm_predict desired X_test = Inr x"
  shows "x \<in> set X_test \<and> bbm_predict x \<noteq> desired"
proof -
  define hits where "hits = filter (\<lambda>i. map bbm_predict X_test ! i \<noteq> desired) [0..<length X_test]"
  from assms have big: "\<not> length hits \<le> 1" and x: "x = X_test ! last hits"
    by (auto simp: pick_user_def hits_def Let_def split: if_splits)
  from big have "hits \<noteq> []" by auto
  then have "last hits \<in> set hits" by (rule last_in_set)
  then have "last hits < length X_test" and "map bbm_predict X_test ! last hits \<noteq> desired"
    by (auto simp: hits_def)
  with x show ?thesis by auto
qed

lemma explanation_lines_only_features:
  "explanation_lines np_round ifs d x c = Inr lines \<Longrightarrow>
   \<forall>l \<in> set lines. \<exists>feat a b. l = Feature_line feat a b"
proof (induction ifs arbitrary: lines)
  case Nil
  then show ?case by simp
next
  case (Cons a ifs)
  obtain i feat where a: "a = (i, feat)" by (cases a)
  from Cons.prems obtain rest where
    r: "explanation_lines np_round ifs d x c = Inr rest"
    and ls: "lines = rest \<or> (\<exists>u v. lines = Feature_line feat u v # rest)"
    unfolding a by (auto split: sum.splits if_splits)
  from Cons.IH[OF r] ls show ?case by auto
qed

text \<open>
  C3 (as amended). An explanation is printed only in the success branch, and then the
  best-found example \<open>cogs.elite\<close> is classified as the desired class, while the chosen
  user \<open>x\<close> is not: the printed perturbation \<open>cogs.elite - x\<close> flips the predicted label to
  the desired class. Nothing in the notebook makes the perturbation a smallest one.
\<close>

theorem printed_explanation_flips_label:
  assumes "pick_user bbm_predict desired X_test = Inr x"
    and "show_explanation np_round bbm_predict desired feature_names x elite = Inr cell"
    and "Success_header \<in> set (cell_stdout cell)"
  shows "bbm_predict x \<noteq> desired
       \<and> bbm_predict (cf_example cell) = desired
       \<and> cf_example cell = elite
       \<and> np_sub elite x = Inr (cf_explanation cell)
       \<and> Failure_message \<notin> set (cell_stdout cell)"
proof -
  from assms(2) obtain diff where d: "np_sub elite x = Inr diff"
    by (auto simp: show_explanation_def split: sum.splits)
  have p: "bbm_predict elite = desired"
  proof (rule ccontr)
    assume "bbm_predict elite \<noteq> desired"
    with assms(2) d have "cell_stdout cell = [Failure_message]"
      by (auto simp: show_explanation_def)
    with assms(3) show False by simp
  qed
  from assms(2) d p obtain lines where
    l: "explanation_lines np_round (enumerate 0 feature_names) diff x elite = Inr lines"
    and c: "cell = \<lparr>cf_example = elite, cf_explanation = diff, cell_stdout = Success_header # lines\<rparr>"
    by (auto simp: show_explanation_def split: sum.splits)
  have "Failure_message \<notin> set lines"
    using explanation_lines_only_features[OF l] by auto
  with pick_user_undesired[OF assms(1)] p c d show ?thesis by simp
qed

lemma example_pick_user:
  "pick_user example_predict desired_class example_X_test = Inr [0, 2000, 40]"
  by code_simp

lemma example_cell_shown:
  "show_explanation example_round example_predict desired_class example_features [0, 2000, 40] [5, 2000, 40]
     = Inr example_cell"
  by code_simp

theorem printed_explanation_flips_label_witness:
  "pick_user example_predict desired_class example_X_test = Inr [0, 2000, 40]
   \<and> show_explanation example_round example_predict desired_class example_features [0, 2000, 40] [5, 2000, 40]
       = Inr example_cell
   \<and> Success_header \<in> set (cell_stdout example_cell)
   \<and> example_predict [0, 2000, 40] \<noteq> desired_class
   \<and> example_predict (cf_example example_cell) = desired_class
   \<and> cf_example example_cell = [5, 2000, 40]"
proof -
  have s: "Success_header \<in> set (cell_stdout example_cell)"
    by (simp add: example_cell_def)
  from printed_explanation_flips_label[OF example_pick_user example_cell_shown s]
  show ?thesis using example_pick_user example_cell_shown s by (intro conjI) blast+
qed

text \<open>
  The claim as stated fails on minimality. The classifier below asks for a duration of at
  least 1; the search result raises the duration from 0 to 5 and is reported as the
  explanation, although raising it to 1, a change no larger in any feature and smaller in
  one, reaches the desired class as well.
\<close>

theorem reported_explanation_not_minimal:
  "pick_user example_predict desired_class example_X_test = Inr [0, 2000, 40]
   \<and> show_explanation example_round example_predict desired_class example_features [0, 2000, 40] [5, 2000, 40]
       = Inr \<lparr>cf_example = [5, 2000, 40], cf_explanation = [5, 0, 0],
              cell_stdout = [Success_header, Feature_line ''duration'' 0 5]\<rparr>
   \<and> example_predict [0, 2000, 40] = 0
   \<and> example_predict [1, 2000, 40] = desired_class
   \<and> np_sub [1, 2000, 40] [0, 2000, 40] = Inr [1, 0, 0]
   \<and> list_all2 (\<lambda>a b. \<bar>a\<bar> \<le> \<bar>b\<bar>) [1, 0, 0 :: real] [5, 0, 0]
   \<and> \<bar>1 :: real\<bar> < \<bar>5\<bar>"
  by code_simp


section \<open>The sigmoid and its derivative\<close>

lemma sigmoid_r_denominator: "1 + exp (- t) \<noteq> (0::real)"
proof -
  have "0 < exp (- t)" by simp
  then show ?thesis by linarith
qed

lemma sigmoid_r_has_derivative:
  "(sigmoid_r has_real_derivative sigmoid_r t * (1 - sigmoid_r t)) (at t)"
proof -
  have nz: "1 + exp (- t) \<noteq> (0::real)" by (rule sigmoid_r_denominator)
  have d: "((\<lambda>s. 1 / (1 + exp (- s))) has_real_derivative
             (- (0 + exp (- t) * (- 1)) / ((1 + exp (- t)) * (1 + exp (- t))))) (at t)"
    using nz by (auto intro!: derivative_eq_intros simp: power2_eq_square)
  have e: "- (0 + exp (- t) * (- 1)) / ((1 + exp (- t)) * (1 + exp (- t)))
           = (1 / (1 + exp (- t))) * (1 - 1 / (1 + exp (- t)))"
    using nz by (simp add: field_simps)
  have "sigmoid_r = (\<lambda>s. 1 / (1 + exp (- s)))"
    by (rule ext) (simp add: sigmoid_r_def)
  with d e show ?thesis
    by (simp add: sigmoid_r_def)
qed

text \<open>
  C10. Over the reals, \<open>sigmoidPrime\<close> applied to the output of \<open>sigmoid\<close> at \<open>t\<close> is
  \<open>sigmoid t * (1 - sigmoid t)\<close>, and this number is the derivative of \<open>sigmoid\<close> at \<open>t\<close>,
  where \<open>sigmoid t = 1 / (1 + exp (- t))\<close>.
\<close>

theorem sigmoidPrime_is_derivative:
  "sigmoid_r t = 1 / (1 + exp (- t))
   \<and> sigmoidPrime_r (sigmoid_r t) = sigmoid_r t * (1 - sigmoid_r t)
   \<and> (sigmoid_r has_real_derivative sigmoidPrime_r (sigmoid_r t)) (at t)"
  using sigmoid_r_has_derivative[of t]
  by (simp add: sigmoidPrime_r_def sigmoid_r_def)


section \<open>How long the training loops run and what they print\<close>

lemma toy_api_accepts: "module_accepts toy_api data"
  by (auto simp: module_accepts_def toy_api_def)

lemma toy_api_shuffle: "shuffle_permutes toy_api"
  by (simp add: shuffle_permutes_def toy_api_def)

lemma toy_hello_api_accepts: "module_accepts toy_hello_api data"
  by (auto simp: module_accepts_def toy_hello_api_def)

lemma toy_data_nonempty: "toy_train \<noteq> [] \<and> toy_test \<noteq> []"
  by (simp add: toy_train_def toy_test_def)

lemma nn_notebook_stdout:
  "nn_stdout (nn_notebook randn1 randn2)
     = nn_stdout (nn_training_loop \<lparr>NN = Neural_Network_init randn1 randn2,
                                      nn_calls = [], nn_stdout = []\<rparr>)
       @ [Predicted_header, Input_line xPredicted,
          Output_line (forward_1d (NN (nn_training_loop
             \<lparr>NN = Neural_Network_init randn1 randn2, nn_calls = [], nn_stdout = []\<rparr>)) xPredicted),
          Finished_training]"
  by (simp add: nn_notebook_def Let_def predict_def saveWeights_def)

text \<open>
  C6 (as amended). Every training loop runs a fixed number of iterations and then ends.
  Given non-empty training and test sets on which the model can be called, and a shuffle
  that only reorders, the BoW and CBOW loops run exactly 10 epochs; each epoch prints its
  loss and accuracy line, numbered 1 to 10, from inside the loop. The hello-world loop
  runs exactly 150 iterations and prints one loss line in each, numbered 0 to 149. The
  from-scratch loop applies \<open>train\<close> exactly 1000 times and prints the loss in iterations
  0, 100, ..., 900. After its loop the from-scratch notebook prints a prediction and a
  closing line, not an accuracy or a loss.
\<close>

theorem training_loops_run_fixed_iterations:
  "(module_accepts api train_data \<and> module_accepts api test_data \<and> shuffle_permutes api
      \<and> train_data \<noteq> [] \<and> test_data \<noteq> [] \<longrightarrow>
      (\<exists>w' td' ls. train_bow api train_data test_data w = Inr (w', td')
          \<and> calls w' = calls w
               @ concat (replicate 10 (epoch_calls (length train_data) (length test_data)))
          \<and> stdout w' = stdout w @ ls \<and> length ls = 10
          \<and> (\<forall>k < 10. \<exists>a b c. ls ! k = Log_line ''ITER'' (k + 1) a b c))
      \<and> (\<exists>w' td' ls. cbow_training api train_data test_data w = Inr (w', td')
          \<and> calls w' = calls w
               @ concat (replicate 10 (epoch_calls (length train_data) (length test_data)))
          \<and> stdout w' = stdout w @ ls \<and> length ls = 10
          \<and> (\<forall>k < 10. \<exists>a b c. ls ! k = Log_line ''epoch'' (k + 1) a b c)))
   \<and> (module_accepts hello_api [(hello_x, hello_y)] \<longrightarrow>
      (\<exists>w' ls. hello_training hello_api hw = Inr w'
          \<and> calls w' = calls hw @ concat (replicate 150 hello_calls)
          \<and> stdout w' = stdout hw @ ls \<and> length ls = 150
          \<and> (\<forall>k < 150. \<exists>loss. ls ! k = Hello_line k loss)))
   \<and> nn_training_loop nw
       = nw\<lparr>NN := (nn_step ^^ 1000) (NN nw),
            nn_stdout := nn_stdout nw
              @ map (\<lambda>i. Loss_line i (nn_loss ((nn_step ^^ i) (NN nw))))
                    [0, 100, 200, 300, 400, 500, 600, 700, 800, 900]\<rparr>
   \<and> nn_stdout (nn_notebook randn1 randn2)
       = map (\<lambda>i. Loss_line i (nn_loss ((nn_step ^^ i) (Neural_Network_init randn1 randn2))))
             [0, 100, 200, 300, 400, 500, 600, 700, 800, 900]
         @ [Predicted_header, Input_line xPredicted,
            Output_line (forward_1d ((nn_step ^^ 1000) (Neural_Network_init randn1 randn2))
                           xPredicted),
            Finished_training]"
proof (intro conjI impI)
  assume h: "module_accepts api train_data \<and> module_accepts api test_data \<and> shuffle_permutes api
      \<and> train_data \<noteq> [] \<and> test_data \<noteq> []"
  then have a: "module_accepts api train_data" "module_accepts api test_data"
    "shuffle_permutes api" "train_data \<noteq> []" "test_data \<noteq> []"
    by blast+
  from epochs_ten[OF a, of "''ITER''" w]
  show "\<exists>w' td' ls. train_bow api train_data test_data w = Inr (w', td')
          \<and> calls w' = calls w
               @ concat (replicate 10 (epoch_calls (length train_data) (length test_data)))
          \<and> stdout w' = stdout w @ ls \<and> length ls = 10
          \<and> (\<forall>k < 10. \<exists>a b c. ls ! k = Log_line ''ITER'' (k + 1) a b c)"
    unfolding train_bow_def by blast
  from epochs_ten[OF a, of "''epoch''" w]
  show "\<exists>w' td' ls. cbow_training api train_data test_data w = Inr (w', td')
          \<and> calls w' = calls w
               @ concat (replicate 10 (epoch_calls (length train_data) (length test_data)))
          \<and> stdout w' = stdout w @ ls \<and> length ls = 10
          \<and> (\<forall>k < 10. \<exists>a b c. ls ! k = Log_line ''epoch'' (k + 1) a b c)"
    unfolding cbow_training_def by blast
next
  assume "module_accepts hello_api [(hello_x, hello_y)]"
  then show "\<exists>w' ls. hello_training hello_api hw = Inr w'
          \<and> calls w' = calls hw @ concat (replicate 150 hello_calls)
          \<and> stdout w' = stdout hw @ ls \<and> length ls = 150
          \<and> (\<forall>k < 150. \<exists>loss. ls ! k = Hello_line k loss)"
    by (rule hello_hundred_fifty)
next
  show "nn_training_loop nw
       = nw\<lparr>NN := (nn_step ^^ 1000) (NN nw),
            nn_stdout := nn_stdout nw
              @ map (\<lambda>i. Loss_line i (nn_loss ((nn_step ^^ i) (NN nw))))
                    [0, 100, 200, 300, 400, 500, 600, 700, 800, 900]\<rparr>"
    by (rule nn_training_loop_eq)
next
  show "nn_stdout (nn_notebook randn1 randn2)
       = map (\<lambda>i. Loss_line i (nn_loss ((nn_step ^^ i) (Neural_Network_init randn1 randn2))))
             [0, 100, 200, 300, 400, 500, 600, 700, 800, 900]
         @ [Predicted_header, Input_line xPredicted,
            Output_line (forward_1d ((nn_step ^^ 1000) (Neural_Network_init randn1 randn2))
                           xPredicted),
            Finished_training]"
    unfolding nn_notebook_stdout nn_training_loop_eq by simp
qed

theorem training_loops_run_fixed_iterations_witness:
  "module_accepts toy_api toy_train \<and> module_accepts toy_api toy_test \<and> shuffle_permutes toy_api
   \<and> toy_train \<noteq> [] \<and> toy_test \<noteq> []
   \<and> module_accepts toy_hello_api [(hello_x, hello_y)]
   \<and> (\<exists>w' td' ls. train_bow toy_api toy_train toy_test (toy_world 1) = Inr (w', td')
          \<and> calls w' = calls (toy_world 1)
               @ concat (replicate 10 (epoch_calls (length toy_train) (length toy_test)))
          \<and> stdout w' = stdout (toy_world 1) @ ls \<and> length ls = 10
          \<and> (\<forall>k < 10. \<exists>a b c. ls ! k = Log_line ''ITER'' (k + 1) a b c))
   \<and> (\<exists>w' ls. hello_training toy_hello_api hello_world = Inr w'
          \<and> calls w' = calls hello_world @ concat (replicate 150 hello_calls)
          \<and> stdout w' = stdout hello_world @ ls \<and> length ls = 150
          \<and> (\<forall>k < 150. \<exists>loss. ls ! k = Hello_line k loss))"
proof -
  note h = toy_api_accepts[of toy_train] toy_api_accepts[of toy_test] toy_api_shuffle
    toy_data_nonempty toy_hello_api_accepts[of "[(hello_x, hello_y)]"]
  note inst = training_loops_run_fixed_iterations[of toy_api toy_train toy_test "toy_world 1"
      toy_hello_api hello_world]
  from inst h
  have 1: "\<exists>w' td' ls. train_bow toy_api toy_train toy_test (toy_world 1) = Inr (w', td')
          \<and> calls w' = calls (toy_world 1)
               @ concat (replicate 10 (epoch_calls (length toy_train) (length toy_test)))
          \<and> stdout w' = stdout (toy_world 1) @ ls \<and> length ls = 10
          \<and> (\<forall>k < 10. \<exists>a b c. ls ! k = Log_line ''ITER'' (k + 1) a b c)"
    by blast
  from inst h
  have 2: "\<exists>w' ls. hello_training toy_hello_api hello_world = Inr w'
          \<and> calls w' = calls hello_world @ concat (replicate 150 hello_calls)
          \<and> stdout w' = stdout hello_world @ ls \<and> length ls = 150
          \<and> (\<forall>k < 150. \<exists>loss. ls ! k = Hello_line k loss)"
    by blast
  from h 1 2 show ?thesis by blast
qed

text \<open>
  The claim as stated fails in its last clause, and needs data to hold at all. What the
  from-scratch notebook prints after its loop is a prediction and a closing line; its ten
  loss lines come from inside the loop. With an empty training set the first epoch of
  \<open>train_bow\<close> ends in a division by zero before any line is printed.
\<close>

theorem after_the_loop_no_loss_is_printed:
  "length (nn_stdout (nn_training_loop zero_world)) = 10
   \<and> drop 10 (nn_stdout (nn_notebook [[0, 0, 0], [0, 0, 0]] [[0], [0], [0]]))
       = [Predicted_header, Input_line [1 / 2, 1],
          Output_line (forward_1d (NN (nn_training_loop zero_world)) [1 / 2, 1]),
          Finished_training]
   \<and> train_bow toy_api [] toy_test (toy_world 0) = Inl ZeroDivisionError"
proof -
  have l: "length (nn_stdout (nn_training_loop zero_world)) = 10"
    unfolding nn_training_loop_eq by (simp add: zero_world_def)
  have x: "xPredicted = [1 / 2, 1]"
    by (simp add: xPredicted_def xPredicted_raw_def)
  have "nn_stdout (nn_notebook [[0, 0, 0], [0, 0, 0]] [[0], [0], [0]])
        = nn_stdout (nn_training_loop zero_world)
          @ [Predicted_header, Input_line [1 / 2, 1],
             Output_line (forward_1d (NN (nn_training_loop zero_world)) [1 / 2, 1]),
             Finished_training]"
    unfolding nn_notebook_stdout zero_world_def zero_network_def x ..
  with l have d: "drop 10 (nn_stdout (nn_notebook [[0, 0, 0], [0, 0, 0]] [[0], [0], [0]]))
       = [Predicted_header, Input_line [1 / 2, 1],
          Output_line (forward_1d (NN (nn_training_loop zero_world)) [1 / 2, 1]),
          Finished_training]"
    by simp
  have z: "train_bow toy_api [] toy_test (toy_world 0) = Inl ZeroDivisionError"
    by code_simp
  from l d z show ?thesis by (intro conjI)
qed


section \<open>Who computes the loss and updates the parameters\<close>

lemma train_sentences_step:
  assumes "module_call api (torch w) sentence = Inr scores"
  shows "train_sentences api ((sentence, tag) # rest) (w, total_loss, train_correct)
         = train_sentences api rest
             (w\<lparr>torch := optimizer_step api
                             (loss_backward api (zero_grad api (torch w)) sentence tag),
                 calls := calls w @ sample_calls\<rparr>,
              total_loss + criterion api scores tag,
              if torch_argmax scores = tag then train_correct + 1 else train_correct)"
  using assms by (simp add: Let_def sample_calls_def)

lemma nn_training_loop_calls: "nn_calls (nn_training_loop nw) = nn_calls nw"
  unfolding nn_training_loop_eq by simp

text \<open>
  C2 (as amended). In the loops over a torch module (BoW, CBOW, Deep CBOW, hello world)
  every iteration computes the loss by a call of the library criterion and updates the
  parameters by a call of the library optimizer. For BoW and CBOW: the criterion and
  optimizer calls of a run alternate, once per training sample and epoch; after a sample
  the state of the module is what \<open>optimizer.step\<close> returns on what \<open>loss.backward\<close>
  returns, and the running loss has grown by the criterion's value; the state after the
  ten epochs is ten times \<open>library_epoch\<close>. For hello world: an iteration leaves the state
  that \<open>model.train\<close>, \<open>zero_grad\<close>, \<open>loss.backward\<close>, \<open>optimizer.step\<close> and \<open>model.eval\<close> produce
  in this order and prints the criterion's value; the run is 150 such iterations, and the
  150 losses it prints are the criterion's values along them. The from-scratch loop is
  different by design: each iteration updates the weights by the notebook's own \<open>train\<close>
  method, makes no criterion or optimizer call, and computes a loss only in every
  hundredth iteration, to print it.
\<close>

theorem loss_and_update_by_library_calls:
  "(module_accepts api train_data \<and> module_accepts api test_data \<and> shuffle_permutes api
      \<and> train_data \<noteq> [] \<and> test_data \<noteq> [] \<longrightarrow>
      (\<exists>w' td' cs. train_bow api train_data test_data w = Inr (w', td')
          \<and> calls w' = calls w @ cs
          \<and> filter (\<lambda>c. c = Criterion \<or> c = Optimizer_step) cs
              = concat (replicate (10 * length train_data) [Criterion, Optimizer_step])
          \<and> (torch w', rng w', td') = (library_epoch api ^^ 10) (torch w, rng w, train_data))
      \<and> (\<exists>w' td' cs. cbow_training api train_data test_data w = Inr (w', td')
          \<and> calls w' = calls w @ cs
          \<and> filter (\<lambda>c. c = Criterion \<or> c = Optimizer_step) cs
              = concat (replicate (10 * length train_data) [Criterion, Optimizer_step])
          \<and> (torch w', rng w', td') = (library_epoch api ^^ 10) (torch w, rng w, train_data)))
   \<and> (module_accepts hello_api [(hello_x, hello_y)] \<longrightarrow>
      (\<exists>w' cs. hello_training hello_api hw = Inr w'
          \<and> calls w' = calls hw @ cs
          \<and> filter (\<lambda>c. c = Criterion \<or> c = Optimizer_step) cs
              = concat (replicate 150 [Criterion, Optimizer_step])
          \<and> torch w' = (library_hello_step hello_api ^^ 150) (torch hw)
          \<and> stdout w' = stdout hw @
              map (\<lambda>i. Hello_line i
                         (library_hello_loss hello_api ((library_hello_step hello_api ^^ i) (torch hw))))
                  [0..<150]))
   \<and> (module_call hello_api (module_train hello_api (torch hw)) hello_x = Inr hello_scores \<longrightarrow>
        hello_body hello_api ITER hw
         = Inr (hw\<lparr>torch := module_eval hello_api
                               (optimizer_step hello_api
                                  (loss_backward hello_api
                                     (zero_grad hello_api (module_train hello_api (torch hw)))
                                     hello_x hello_y)),
                   calls := calls hw @ hello_calls,
                   stdout := stdout hw @ [Hello_line ITER (criterion hello_api hello_scores hello_y)]\<rparr>))
   \<and> (module_call api (torch w) sentence = Inr scores \<longrightarrow>
        train_sentences api ((sentence, tag) # rest) (w, total_loss, train_correct)
         = train_sentences api rest
             (w\<lparr>torch := optimizer_step api
                             (loss_backward api (zero_grad api (torch w)) sentence tag),
                 calls := calls w @ sample_calls\<rparr>,
              total_loss + criterion api scores tag,
              if torch_argmax scores = tag then train_correct + 1 else train_correct))
   \<and> nn_loop_body nw i
       = nw\<lparr>NN := train (NN nw) X_scaled y_scaled,
            nn_stdout := nn_stdout nw
              @ (if i mod 100 = 0 then [Loss_line i (nn_loss (NN nw))] else [])\<rparr>
   \<and> nn_calls (nn_training_loop nw) = nn_calls nw"
proof (intro conjI impI)
  assume h: "module_accepts api train_data \<and> module_accepts api test_data \<and> shuffle_permutes api
      \<and> train_data \<noteq> [] \<and> test_data \<noteq> []"
  then have a: "module_accepts api train_data" "module_accepts api test_data"
    "shuffle_permutes api" "train_data \<noteq> []" "test_data \<noteq> []"
    by blast+
  let ?cs = "concat (replicate 10 (epoch_calls (length train_data) (length test_data)))"
  have f: "filter (\<lambda>c. c = Criterion \<or> c = Optimizer_step) ?cs
           = concat (replicate (10 * length train_data) [Criterion, Optimizer_step])"
    by (rule run_calls_updates)
  have ten: "length [0..<10] = 10" by (simp only: length_upt)
  have run: "\<exists>w' td' cs. epochs label api test_data [0..<10] (w, train_data) = Inr (w', td')
          \<and> calls w' = calls w @ cs
          \<and> filter (\<lambda>c. c = Criterion \<or> c = Optimizer_step) cs
              = concat (replicate (10 * length train_data) [Criterion, Optimizer_step])
          \<and> (torch w', rng w', td') = (library_epoch api ^^ 10) (torch w, rng w, train_data)"
    for label
  proof -
    from epochs_ten[OF a, of label w] obtain w' td' where
      r: "epochs label api test_data [0..<10] (w, train_data) = Inr (w', td')"
      and c: "calls w' = calls w @ ?cs"
      by blast
    from epochs_run[OF r] have "(torch w', rng w', td')
        = (library_epoch api ^^ 10) (torch w, rng w, train_data)"
      unfolding ten .
    with r c f show ?thesis by blast
  qed
  from run[of "''ITER''"]
  show "\<exists>w' td' cs. train_bow api train_data test_data w = Inr (w', td')
          \<and> calls w' = calls w @ cs
          \<and> filter (\<lambda>c. c = Criterion \<or> c = Optimizer_step) cs
              = concat (replicate (10 * length train_data) [Criterion, Optimizer_step])
          \<and> (torch w', rng w', td') = (library_epoch api ^^ 10) (torch w, rng w, train_data)"
    unfolding train_bow_def .
  from run[of "''epoch''"]
  show "\<exists>w' td' cs. cbow_training api train_data test_data w = Inr (w', td')
          \<and> calls w' = calls w @ cs
          \<and> filter (\<lambda>c. c = Criterion \<or> c = Optimizer_step) cs
              = concat (replicate (10 * length train_data) [Criterion, Optimizer_step])
          \<and> (torch w', rng w', td') = (library_epoch api ^^ 10) (torch w, rng w, train_data)"
    unfolding cbow_training_def .
next
  assume "module_accepts hello_api [(hello_x, hello_y)]"
  from hello_hundred_fifty[OF this, of hw] obtain w' where
    r: "hello_training hello_api hw = Inr w'"
    and c: "calls w' = calls hw @ concat (replicate 150 hello_calls)"
    by blast
  from hello_run[OF r] r c hello_calls_updates[of 150]
  show "\<exists>w' cs. hello_training hello_api hw = Inr w'
          \<and> calls w' = calls hw @ cs
          \<and> filter (\<lambda>c. c = Criterion \<or> c = Optimizer_step) cs
              = concat (replicate 150 [Criterion, Optimizer_step])
          \<and> torch w' = (library_hello_step hello_api ^^ 150) (torch hw)
          \<and> stdout w' = stdout hw @
              map (\<lambda>i. Hello_line i
                         (library_hello_loss hello_api ((library_hello_step hello_api ^^ i) (torch hw))))
                  [0..<150]"
    by blast
next
  assume "module_call hello_api (module_train hello_api (torch hw)) hello_x = Inr hello_scores"
  from hello_body_step[OF this, of ITER]
  show "hello_body hello_api ITER hw
         = Inr (hw\<lparr>torch := module_eval hello_api
                               (optimizer_step hello_api
                                  (loss_backward hello_api
                                     (zero_grad hello_api (module_train hello_api (torch hw)))
                                     hello_x hello_y)),
                   calls := calls hw @ hello_calls,
                   stdout := stdout hw @ [Hello_line ITER (criterion hello_api hello_scores hello_y)]\<rparr>)"
    by (simp add: library_hello_step_def library_step_def)
next
  assume "module_call api (torch w) sentence = Inr scores"
  then show "train_sentences api ((sentence, tag) # rest) (w, total_loss, train_correct)
         = train_sentences api rest
             (w\<lparr>torch := optimizer_step api
                             (loss_backward api (zero_grad api (torch w)) sentence tag),
                 calls := calls w @ sample_calls\<rparr>,
              total_loss + criterion api scores tag,
              if torch_argmax scores = tag then train_correct + 1 else train_correct)"
    by (rule train_sentences_step)
next
  show "nn_loop_body nw i
       = nw\<lparr>NN := train (NN nw) X_scaled y_scaled,
            nn_stdout := nn_stdout nw
              @ (if i mod 100 = 0 then [Loss_line i (nn_loss (NN nw))] else [])\<rparr>"
    using nn_loop_body_eq[of nw i] by (simp add: nn_step_def)
next
  show "nn_calls (nn_training_loop nw) = nn_calls nw"
    by (rule nn_training_loop_calls)
qed

lemma toy_first_call: "module_call toy_api (torch (toy_world 1)) [3] = Inr (toy_scores 0)"
  by (simp add: toy_api_def toy_world_def)

theorem loss_and_update_by_library_calls_witness:
  "module_accepts toy_api toy_train \<and> module_accepts toy_api toy_test \<and> shuffle_permutes toy_api
   \<and> toy_train \<noteq> [] \<and> toy_test \<noteq> []
   \<and> module_accepts sgd_hello_api [(hello_x, hello_y)]
   \<and> module_call sgd_hello_api (module_train sgd_hello_api (torch sgd_world)) hello_x
       = Inr [[0], [0], [0], [0], [0], [0]]
   \<and> module_call toy_api (torch (toy_world 1)) [3] = Inr (toy_scores 0)
   \<and> (\<exists>w' td' cs. train_bow toy_api toy_train toy_test (toy_world 1) = Inr (w', td')
          \<and> calls w' = calls (toy_world 1) @ cs
          \<and> filter (\<lambda>c. c = Criterion \<or> c = Optimizer_step) cs
              = concat (replicate (10 * length toy_train) [Criterion, Optimizer_step])
          \<and> (torch w', rng w', td')
              = (library_epoch toy_api ^^ 10) (torch (toy_world 1), rng (toy_world 1), toy_train))
   \<and> (\<exists>w' cs. hello_training sgd_hello_api sgd_world = Inr w'
          \<and> calls w' = calls sgd_world @ cs
          \<and> filter (\<lambda>c. c = Criterion \<or> c = Optimizer_step) cs
              = concat (replicate 150 [Criterion, Optimizer_step])
          \<and> torch w' = (library_hello_step sgd_hello_api ^^ 150) (torch sgd_world)
          \<and> stdout w' = stdout sgd_world @
              map (\<lambda>i. Hello_line i
                         (library_hello_loss sgd_hello_api
                            ((library_hello_step sgd_hello_api ^^ i) (torch sgd_world))))
                  [0..<150])
   \<and> hello_body sgd_hello_api 0 sgd_world
       = Inr (sgd_world\<lparr>torch := module_eval sgd_hello_api
                               (optimizer_step sgd_hello_api
                                  (loss_backward sgd_hello_api
                                     (zero_grad sgd_hello_api
                                        (module_train sgd_hello_api (torch sgd_world)))
                                     hello_x hello_y)),
                   calls := calls sgd_world @ hello_calls,
                   stdout := stdout sgd_world
                     @ [Hello_line 0 (criterion sgd_hello_api [[0], [0], [0], [0], [0], [0]] hello_y)]\<rparr>)
   \<and> hello_body sgd_hello_api 0 sgd_world
       = Inr \<lparr>torch = (53 / 300, 1 / 25, - (53 / 3), - 4), rng = 0, calls = hello_calls,
              stdout = [Hello_line 0 (47 / 3)]\<rparr>
   \<and> train_sentences toy_api [([3], 1)] (toy_world 1, 0, 0)
       = train_sentences toy_api []
           ((toy_world 1)\<lparr>torch := optimizer_step toy_api
                (loss_backward toy_api (zero_grad toy_api (torch (toy_world 1))) [3] 1),
              calls := calls (toy_world 1) @ sample_calls\<rparr>,
            0 + criterion toy_api (toy_scores 0) 1,
            if torch_argmax (toy_scores 0) = 1 then 0 + 1 else 0)"
proof -
  note h = toy_api_accepts[of toy_train] toy_api_accepts[of toy_test] toy_api_shuffle
    toy_data_nonempty sgd_hello_api_accepts[of "[(hello_x, hello_y)]"] sgd_first_call
    toy_first_call
  note inst = loss_and_update_by_library_calls[where api = toy_api and train_data = toy_train
      and test_data = toy_test and w = "toy_world 1" and hello_api = sgd_hello_api
      and hw = sgd_world and hello_scores = "[[0], [0], [0], [0], [0], [0]]" and ITER = 0
      and sentence = "[3]" and scores = "toy_scores 0" and tag = 1 and rest = "[]"
      and total_loss = 0 and train_correct = 0]
  from inst h
  have 1: "\<exists>w' td' cs. train_bow toy_api toy_train toy_test (toy_world 1) = Inr (w', td')
          \<and> calls w' = calls (toy_world 1) @ cs
          \<and> filter (\<lambda>c. c = Criterion \<or> c = Optimizer_step) cs
              = concat (replicate (10 * length toy_train) [Criterion, Optimizer_step])
          \<and> (torch w', rng w', td')
              = (library_epoch toy_api ^^ 10) (torch (toy_world 1), rng (toy_world 1), toy_train)"
    by blast
  from inst h
  have 2: "\<exists>w' cs. hello_training sgd_hello_api sgd_world = Inr w'
          \<and> calls w' = calls sgd_world @ cs
          \<and> filter (\<lambda>c. c = Criterion \<or> c = Optimizer_step) cs
              = concat (replicate 150 [Criterion, Optimizer_step])
          \<and> torch w' = (library_hello_step sgd_hello_api ^^ 150) (torch sgd_world)
          \<and> stdout w' = stdout sgd_world @
              map (\<lambda>i. Hello_line i
                         (library_hello_loss sgd_hello_api
                            ((library_hello_step sgd_hello_api ^^ i) (torch sgd_world))))
                  [0..<150]"
    by blast
  from inst h
  have 3: "hello_body sgd_hello_api 0 sgd_world
       = Inr (sgd_world\<lparr>torch := module_eval sgd_hello_api
                               (optimizer_step sgd_hello_api
                                  (loss_backward sgd_hello_api
                                     (zero_grad sgd_hello_api
                                        (module_train sgd_hello_api (torch sgd_world)))
                                     hello_x hello_y)),
                   calls := calls sgd_world @ hello_calls,
                   stdout := stdout sgd_world
                     @ [Hello_line 0 (criterion sgd_hello_api [[0], [0], [0], [0], [0], [0]] hello_y)]\<rparr>)"
    by blast
  from inst h
  have 4: "train_sentences toy_api [([3], 1)] (toy_world 1, 0, 0)
       = train_sentences toy_api []
           ((toy_world 1)\<lparr>torch := optimizer_step toy_api
                (loss_backward toy_api (zero_grad toy_api (torch (toy_world 1))) [3] 1),
              calls := calls (toy_world 1) @ sample_calls\<rparr>,
            0 + criterion toy_api (toy_scores 0) 1,
            if torch_argmax (toy_scores 0) = 1 then 0 + 1 else 0)"
    by blast
  from h 1 2 3 sgd_first_iteration 4 show ?thesis by (intro conjI) blast+
qed

text \<open>
  The claim as stated fails for the from-scratch network. Starting from zero weights, the
  second iteration of its loop (\<open>i = 1\<close>) computes no loss and makes no call of a library
  criterion or optimizer, yet it changes \<open>W2\<close>: the update is the arithmetic of the
  notebook's own \<open>backward\<close>.
\<close>

theorem from_scratch_iteration_updates_by_hand:
  "nn_calls (nn_loop_body zero_world 1) = []
   \<and> nn_stdout (nn_loop_body zero_world 1) = []
   \<and> W2 (NN zero_world) = [[0], [0], [0]]
   \<and> W2 (NN (nn_loop_body zero_world 1)) = [[131 / 800], [131 / 800], [131 / 800]]"
proof -
  have "nn_loop_body zero_world 1 = zero_world\<lparr>NN := train zero_network X_scaled y_scaled\<rparr>"
    by (simp add: nn_loop_body_def zero_world_def)
  then show ?thesis
    using train_zero_network
    by (simp add: zero_world_def zero_network_def Neural_Network_init_def)
qed


section \<open>Two runs under a fixed seed\<close>

lemma split_without_seed_reads_generator:
  "train_test_split sk X y test_size None g = split_with sk g X y test_size"
  by (simp add: train_test_split_def)

lemma fit_without_seed_reads_generator:
  "forest_fit sk None X y g = fit_with sk g X y"
  by (simp add: forest_fit_def)

text \<open>
  Without a seed the outcome depends on the generator: on the small scikit-learn of the
  examples, a split and a fit that are not given \<open>random_state\<close> differ between the
  generator states 0 and 1, and a split given the seed 42 does not.
\<close>

lemma unseeded_calls_depend_on_generator:
  "fst (train_test_split toy_sklearn [[1], [2], [3]] [0, 1, 0] (1 / 10) None 0)
     = ([[2], [3]], [[1]], [1, 0], [0])
   \<and> fst (train_test_split toy_sklearn [[1], [2], [3]] [0, 1, 0] (1 / 10) None 1)
     = ([[3], [1]], [[2]], [0, 0], [1])
   \<and> fst (forest_fit toy_sklearn None [[2], [3]] [1, 0] 0) = 0
   \<and> fst (forest_fit toy_sklearn None [[2], [3]] [1, 0] 1) = 1
   \<and> train_test_split toy_sklearn [[1], [2], [3]] [0, 1, 0] (1 / 10) (Some 42) 0
     = (([[2], [3]], [[1]], [1, 0], [0]), 0)
   \<and> train_test_split toy_sklearn [[1], [2], [3]] [0, 1, 0] (1 / 10) (Some 42) 1
     = (([[2], [3]], [[1]], [1, 0], [0]), 1)"
  by code_simp

text \<open>
  C7 (as amended). In the counterfactual notebook the seed 42 is set with
  \<open>np.random.seed\<close> and handed as \<open>random_state\<close> to \<open>train_test_split\<close> and to the random
  forest. Two runs on the same dataset, started with NumPy's global generator in any two
  states \<open>g0\<close> and \<open>g1\<close>, produce the same split, the same fitted model and the same two
  accuracies: the split and the model are what the library draws from a generator seeded
  with 42, the accuracies are those of that model on that split, and the global generator
  is left in the state of seed 42, so that no seeded call has drawn from it. This is a
  property of that notebook: the BoW, CBOW and Deep CBOW notebooks never seed the
  generator behind \<open>random.shuffle\<close>, and the outcome of their training depends on its
  state.
\<close>

theorem seeded_split_and_fit_are_reproducible:
  "cf_training sk g0 X y = cf_training sk g1 X y
   \<and> cf_np_rng (cf_training sk g0 X y) = RandomState sk 42
   \<and> (cf_X_train (cf_training sk g0 X y), cf_X_test (cf_training sk g0 X y),
       cf_y_train (cf_training sk g0 X y), cf_y_test (cf_training sk g0 X y))
      = fst (split_with sk (RandomState sk 42) X y (1 / 10))
   \<and> cf_bbm (cf_training sk g0 X y)
      = fst (fit_with sk (RandomState sk 42)
               (cf_X_train (cf_training sk g0 X y)) (cf_y_train (cf_training sk g0 X y)))
   \<and> cf_acc (cf_training sk g0 X y)
      = accuracy_score sk (cf_y_test (cf_training sk g0 X y))
          (forest_predict sk (cf_bbm (cf_training sk g0 X y)) (cf_X_test (cf_training sk g0 X y)))
   \<and> cf_bal_acc (cf_training sk g0 X y)
      = balanced_accuracy_score sk (cf_y_test (cf_training sk g0 X y))
          (forest_predict sk (cf_bbm (cf_training sk g0 X y)) (cf_X_test (cf_training sk g0 X y)))"
proof -
  obtain Xtr Xte ytr yte g where
    s: "split_with sk (RandomState sk 42) X y (1 / 10) = ((Xtr, Xte, ytr, yte), g)"
    by (cases "split_with sk (RandomState sk 42) X y (1 / 10)") auto
  have r: "cf_training sk g' X y =
      \<lparr>cf_np_rng = RandomState sk 42, cf_X_train = Xtr, cf_X_test = Xte, cf_y_train = ytr,
       cf_y_test = yte, cf_bbm = fst (fit_with sk (RandomState sk 42) Xtr ytr),
       cf_acc = accuracy_score sk yte
                  (forest_predict sk (fst (fit_with sk (RandomState sk 42) Xtr ytr)) Xte),
       cf_bal_acc = balanced_accuracy_score sk yte
                  (forest_predict sk (fst (fit_with sk (RandomState sk 42) Xtr ytr)) Xte)\<rparr>" for g'
    by (simp add: cf_training_def SEED_def np_random_seed_def train_test_split_def
        forest_fit_def s)
  show ?thesis
    unfolding r[of g0] r[of g1] by (simp add: s)
qed

text \<open>
  The claim as stated fails for \<open>train_bow\<close>: two runs on the same data that start from
  different generator states shuffle differently, end with different parameters and
  report different accuracies.
\<close>

theorem train_bow_depends_on_generator_state:
  "torch (fst (projr (train_bow toy_api toy_train toy_test (toy_world 0)))) = (1, 1)
   \<and> torch (fst (projr (train_bow toy_api toy_train toy_test (toy_world 1)))) = (0, 0)
   \<and> last (stdout (fst (projr (train_bow toy_api toy_train toy_test (toy_world 0)))))
       = Log_line ''ITER'' 10 1 0 0
   \<and> last (stdout (fst (projr (train_bow toy_api toy_train toy_test (toy_world 1)))))
       = Log_line ''ITER'' 10 1 0 1
   \<and> snd (projr (train_bow toy_api toy_train toy_test (toy_world 0))) = [([1, 2], 0), ([3], 1)]
   \<and> snd (projr (train_bow toy_api toy_train toy_test (toy_world 1))) = [([3], 1), ([1, 2], 0)]"
  by code_simp


section \<open>Who computes the gradients\<close>

lemma backward_W2:
  "W2 (backward self X y out)
   = mat_add (W2 self) (matmul (torch_t (z2 self)) (mat_mul (mat_sub y out) (sigmoidPrime out)))"
  by (simp add: backward_def Let_def)

lemma backward_W1:
  "W1 (backward self X y out)
   = mat_add (W1 self)
       (matmul (torch_t X)
          (mat_mul (matmul (mat_mul (mat_sub y out) (sigmoidPrime out)) (torch_t (W2 self)))
                   (sigmoidPrime (z2 self))))"
  by (simp add: backward_def Let_def)

lemma half_squared_error_derivative:
  "((\<lambda>w. (y - sigmoid_r (a * w))\<^sup>2 / 2) has_real_derivative
      - (a * ((y - sigmoid_r (a * w0)) * sigmoidPrime_r (sigmoid_r (a * w0))))) (at w0)"
proof -
  have s: "((\<lambda>w. sigmoid_r (a * w)) has_real_derivative
             sigmoid_r (a * w0) * (1 - sigmoid_r (a * w0)) * a) (at w0)"
    by (rule DERIV_chain'[where f = "\<lambda>w. a * w" and g = sigmoid_r, OF _ sigmoid_r_has_derivative])
       (auto intro!: derivative_eq_intros)
  show ?thesis
    by (rule derivative_eq_intros s | simp add: sigmoidPrime_r_def)+
qed

lemma foldr_max_length:
  "\<forall>r \<in> set A. length r = h \<Longrightarrow> A \<noteq> [] \<Longrightarrow> foldr (\<lambda>xs. max (length xs)) A 0 = h"
proof (induction A)
  case Nil
  then show ?case by simp
next
  case (Cons a A)
  then show ?case by (cases "A = []") auto
qed

lemma transpose_rectangular:
  assumes "\<forall>r \<in> set A. length r = h" and "A \<noteq> []"
  shows "length (transpose A) = h"
    and "j < h \<Longrightarrow> transpose A ! j = map (\<lambda>r. r ! j) A"
proof -
  show l: "length (transpose A) = h"
    by (simp add: length_transpose foldr_max_length[OF assms])
  assume j: "j < h"
  then have "transpose A ! j = map (\<lambda>xs. xs ! j) (filter (\<lambda>ys. j < length ys) A)"
    by (intro nth_transpose) (simp add: l)
  moreover have "filter (\<lambda>ys. j < length ys) A = A"
    using assms(1) j by (simp add: filter_id_conv)
  ultimately show "transpose A ! j = map (\<lambda>r. r ! j) A" by simp
qed

lemma transpose_column:
  assumes "ws \<noteq> []"
  shows "transpose (map (\<lambda>v. [v]) ws) = [ws]"
proof -
  have r: "\<forall>r \<in> set (map (\<lambda>v. [v]) ws). length r = 1" by auto
  have n: "map (\<lambda>v. [v]) ws \<noteq> []" using assms by simp
  have "length (transpose (map (\<lambda>v. [v]) ws)) = 1"
    by (rule transpose_rectangular(1)[OF r n])
  moreover have "transpose (map (\<lambda>v. [v]) ws) ! 0 = map (\<lambda>r. r ! 0) (map (\<lambda>v. [v]) ws)"
    by (rule transpose_rectangular(2)[OF r n]) simp
  then have "transpose (map (\<lambda>v. [v]) ws) ! 0 = ws" by (simp add: comp_def)
  ultimately show ?thesis
    by (cases "transpose (map (\<lambda>v. [v]) ws)") auto
qed

lemma matmul_column:
  "ws \<noteq> [] \<Longrightarrow> matmul A (map (\<lambda>v. [v]) ws) = map (\<lambda>row. [dot row ws]) A"
  by (simp add: matmul_def transpose_column)

lemma dot_sum: "length a = length b \<Longrightarrow> dot a b = (\<Sum>i = 0..<length b. a ! i * b ! i)"
  by (simp add: dot_def sum_list_sum_nth atLeast0LessThan)

lemma dot_update:
  assumes "length a = length ws" and "j < length ws"
  shows "dot a (ws[j := v]) = dot a ws + a ! j * (v - ws ! j)"
proof -
  have "dot a (ws[j := v]) = (\<Sum>i = 0..<length ws. a ! i * (ws[j := v]) ! i)"
    using assms by (simp add: dot_sum)
  also have "\<dots> = (\<Sum>i = 0..<length ws. a ! i * ws ! i + (if i = j then a ! j * (v - ws ! j) else 0))"
    by (rule sum.cong) (auto simp: nth_list_update algebra_simps)
  also have "\<dots> = (\<Sum>i = 0..<length ws. a ! i * ws ! i) + a ! j * (v - ws ! j)"
    using assms(2) by (simp add: sum.distrib)
  finally show ?thesis using assms by (simp add: dot_sum)
qed

lemma half_squared_error_gradient:
  assumes len: "\<forall>r \<in> set A. length r = length ws" and j: "j < length ws"
  shows "((\<lambda>v. (\<Sum>k = 0..<length A. (ys ! k - sigmoid_r (dot (A ! k) (ws[j := v])))\<^sup>2 / 2))
           has_real_derivative
         - (\<Sum>k = 0..<length A. A ! k ! j
               * ((ys ! k - sigmoid_r (dot (A ! k) ws)) * sigmoidPrime_r (sigmoid_r (dot (A ! k) ws)))))
         (at (ws ! j))"
proof -
  have each: "((\<lambda>v. (ys ! k - sigmoid_r (dot (A ! k) (ws[j := v])))\<^sup>2 / 2) has_real_derivative
         - (A ! k ! j * ((ys ! k - sigmoid_r (dot (A ! k) ws))
                          * sigmoidPrime_r (sigmoid_r (dot (A ! k) ws))))) (at (ws ! j))"
    if k: "k \<in> {0..<length A}" for k
  proof -
    from k len have l: "length (A ! k) = length ws" by simp
    define c where "c = dot (A ! k) ws - A ! k ! j * ws ! j"
    have d: "dot (A ! k) (ws[j := v]) = c + A ! k ! j * v" for v
      using dot_update[OF l j, of v] by (simp add: c_def algebra_simps)
    have d0: "dot (A ! k) ws = c + A ! k ! j * ws ! j" by (simp add: c_def)
    have s: "((\<lambda>v. sigmoid_r (c + A ! k ! j * v)) has_real_derivative
               sigmoid_r (c + A ! k ! j * ws ! j) * (1 - sigmoid_r (c + A ! k ! j * ws ! j))
                 * (A ! k ! j)) (at (ws ! j))"
      by (rule DERIV_chain'[where f = "\<lambda>v. c + A ! k ! j * v" and g = sigmoid_r,
            OF _ sigmoid_r_has_derivative])
         (auto intro!: derivative_eq_intros)
    show ?thesis
      unfolding d d0
      by (rule derivative_eq_intros s | simp add: sigmoidPrime_r_def)+
  qed
  have "((\<lambda>v. (\<Sum>k = 0..<length A. (ys ! k - sigmoid_r (dot (A ! k) (ws[j := v])))\<^sup>2 / 2))
           has_real_derivative
         (\<Sum>k = 0..<length A. - (A ! k ! j
               * ((ys ! k - sigmoid_r (dot (A ! k) ws)) * sigmoidPrime_r (sigmoid_r (dot (A ! k) ws))))))
         (at (ws ! j))"
    by (rule DERIV_sum) (rule each)
  then show ?thesis by (simp add: sum_negf)
qed


lemma column_map2:
  "map2 (map2 f) (map (\<lambda>k. [a k]) ks) (map (\<lambda>k. [b k]) ks) = map (\<lambda>k. [f (a k) (b k)]) ks"
  by (induction ks) auto

lemma column_of_list: "map (\<lambda>v. [v]) vs = map (\<lambda>k. [vs ! k]) [0..<length vs]"
  by (auto intro!: nth_equalityI)

lemma rows_of_list: "map f A = map (\<lambda>k. f (A ! k)) [0..<length A]"
  by (auto intro!: nth_equalityI)

lemma backward_W2_entry:
  assumes rect: "\<forall>r \<in> set A. length r = length ws" and ne: "A \<noteq> []"
    and ly: "length ys = length A" and j: "j < length ws"
    and self: "z2 self = A" "W2 self = map (\<lambda>v. [v]) ws"
    and y: "y = map (\<lambda>v. [v]) ys"
    and out: "out = sigmoid (matmul A (map (\<lambda>v. [v]) ws))"
  shows "W2 (backward self X y out) ! j
         = [ws ! j + (\<Sum>k = 0..<length A. A ! k ! j
               * ((ys ! k - sigmoid_r (dot (A ! k) ws))
                  * sigmoidPrime_r (sigmoid_r (dot (A ! k) ws))))]"
proof -
  let ?n = "length A"
  define pred where "pred k = sigmoid_r (dot (A ! k) ws)" for k
  define delta where "delta k = (ys ! k - pred k) * sigmoidPrime_r (pred k)" for k
  from j have wne: "ws \<noteq> []" by auto
  have o: "out = map (\<lambda>k. [pred k]) [0..<?n]"
    unfolding out matmul_column[OF wne] sigmoid_def pred_def
    by (subst rows_of_list) (simp add: comp_def)
  have yk: "y = map (\<lambda>k. [ys ! k]) [0..<?n]"
    unfolding y using column_of_list[of ys] ly by simp
  have od: "mat_mul (mat_sub y out) (sigmoidPrime out) = map (\<lambda>v. [v]) (map delta [0..<?n])"
    unfolding o yk mat_sub_def mat_mul_def sigmoidPrime_def
    by (simp add: column_map2 comp_def delta_def)
  have dne: "map delta [0..<?n] \<noteq> []" using ne by simp
  have upd: "matmul (torch_t A) (mat_mul (mat_sub y out) (sigmoidPrime out))
             = map (\<lambda>col. [dot col (map delta [0..<?n])]) (transpose A)"
    unfolding od torch_t_def by (rule matmul_column[OF dne])
  have lt: "length (transpose A) = length ws"
    by (rule transpose_rectangular(1)[OF rect ne])
  have col: "transpose A ! j = map (\<lambda>r. r ! j) A"
    by (rule transpose_rectangular(2)[OF rect ne j])
  have "dot (map (\<lambda>r. r ! j) A) (map delta [0..<?n]) = (\<Sum>k = 0..<?n. A ! k ! j * delta k)"
    by (subst dot_sum) simp_all
  with col have dj: "dot (transpose A ! j) (map delta [0..<?n]) = (\<Sum>k = 0..<?n. A ! k ! j * delta k)"
    by simp
  have "W2 (backward self X y out)
        = mat_add (map (\<lambda>v. [v]) ws) (map (\<lambda>col. [dot col (map delta [0..<?n])]) (transpose A))"
    by (simp add: backward_W2 self upd[symmetric])
  then have "W2 (backward self X y out) ! j = [ws ! j + dot (transpose A ! j) (map delta [0..<?n])]"
    using j lt by (simp add: mat_add_def)
  then show ?thesis
    unfolding dj by (simp add: delta_def pred_def)
qed

lemma train_W2_is_gradient_step:
  assumes rect: "\<forall>r \<in> set (sigmoid (matmul X (W1 self))). length r = length ws"
    and ne: "sigmoid (matmul X (W1 self)) \<noteq> []"
    and ly: "length ys = length (sigmoid (matmul X (W1 self)))"
    and j: "j < length ws"
    and w: "W2 self = map (\<lambda>v. [v]) ws"
  shows "\<exists>g. W2 (train self X (map (\<lambda>v. [v]) ys)) ! j = [ws ! j + g]
           \<and> ((\<lambda>v. (\<Sum>k = 0..<length (sigmoid (matmul X (W1 self))).
                       (ys ! k - sigmoid_r (dot (sigmoid (matmul X (W1 self)) ! k) (ws[j := v])))\<^sup>2 / 2))
                has_real_derivative - g) (at (ws ! j))"
proof -
  let ?A = "sigmoid (matmul X (W1 self))"
  let ?s = "snd (forward self X)"
  have s: "z2 ?s = ?A" "W2 ?s = map (\<lambda>v. [v]) ws"
    and o: "fst (forward self X) = sigmoid (matmul ?A (map (\<lambda>v. [v]) ws))"
    by (simp_all add: forward_def Let_def w)
  have t: "train self X (map (\<lambda>v. [v]) ys)
           = backward ?s X (map (\<lambda>v. [v]) ys) (fst (forward self X))"
    by (simp add: train_def split_beta)
  note e = backward_W2_entry[OF rect ne ly j s refl o, of X]
  note d = half_squared_error_gradient[OF rect j, of ys]
  from e d show ?thesis unfolding t by blast
qed

lemma tape_run:
  "torch_tensor tape_api [2] True [] = (0, take 1 tape_graph)
   \<and> torch_tensor tape_api [1] True (take 1 tape_graph) = (1, take 2 tape_graph)
   \<and> tensor_add tape_api 0 1 (take 2 tape_graph) = (2, take 3 tape_graph)
   \<and> tensor_add_scalar tape_api 1 1 (take 3 tape_graph) = (3, take 4 tape_graph)
   \<and> tensor_mul tape_api 2 3 (take 4 tape_graph) = (4, tape_graph)
   \<and> tape_graph = retain_grad tape_api 4 (retain_grad tape_api 3 (retain_grad tape_api 2 tape_graph))
   \<and> tape_after_backward = tensor_backward tape_api 4 tape_graph"
  by code_simp

lemma tape_reads:
  "tensor_data tape_api 4 tape_graph = [6]
   \<and> tensor_grad tape_api 0 tape_after_backward = Some [2]
   \<and> tensor_grad tape_api 1 tape_after_backward = Some [5]
   \<and> tensor_grad tape_api 2 tape_after_backward = Some [2]
   \<and> tensor_grad tape_api 3 tape_after_backward = Some [3]
   \<and> tensor_grad tape_api 4 tape_after_backward = Some [1]"
  by code_simp

lemma cg_notebook_calls:
  assumes "torch_tensor ag [2] True s0 = (a, s1)" and "torch_tensor ag [1] True s1 = (b, s2)"
    and "tensor_add ag a b s2 = (c, s3)" and "tensor_add_scalar ag b 1 s3 = (d, s4)"
    and "tensor_mul ag c d s4 = (e, s5)"
    and "s6 = retain_grad ag e (retain_grad ag d (retain_grad ag c s5))"
    and "s7 = tensor_backward ag e s6"
  shows "cg_notebook ag s0 =
           (s7, [Tensor_line (tensor_data ag e s6),
                 Grad_line [tensor_grad ag a s7],
                 Grad_line [tensor_grad ag b s7],
                 Grad_line [tensor_grad ag a s7, tensor_grad ag b s7, tensor_grad ag c s7,
                            tensor_grad ag d s7, tensor_grad ag e s7]])"
proof -
  have i: "cg_inputs ag s0 = (a, b, s2)"
    using assms(1,2) by (simp add: cg_inputs_def)
  have ops: "cg_operations ag a b s2 = (c, d, e, s6)"
    using cg_operations_eq[OF assms(3,4,5)] assms(6) by simp
  show ?thesis
    using cg_notebook_eq[OF i ops] assms(7) by simp
qed

text \<open>
  C1 (as amended). Outside the from-scratch notebook no code of the repository computes a
  derivative or a weight update; what the notebooks add is glue.

  \<^item> BoW, CBOW and Deep CBOW: a run makes one call of \<open>loss.backward()\<close> per training sample
    and epoch, and the state of the module and the optimizer after the ten epochs is ten
    times \<open>library_epoch\<close>, a composition of library calls. What an epoch computes itself
    is bookkeeping: the sum of the criterion's values and two counts of correct
    predictions, divided by the sizes of the data for the log line.
  \<^item> Hello world: 150 calls of \<open>loss.backward()\<close>; the state after the run is 150 times
    \<open>library_hello_step\<close>, and the losses printed are the criterion's values.
  \<^item> Computational graphs: the tensors are made by the engine's operations, and every
    gradient the notebook prints is read from the engine after the engine's \<open>backward\<close>
    on \<open>e\<close>.
  \<^item> Counterfactual explanations: the model is the library's fit on the library's split,
    the user is a row of the test set, the example is the search's result and the
    explanation its difference from the user.
  \<^item> The from-scratch network is the exception, by design: its \<open>sigmoidPrime\<close> returns the
    derivative of its \<open>sigmoid\<close> in terms of the sigmoid's output, and its \<open>backward\<close> adds
    to \<open>W1\<close> and \<open>W2\<close> the products of the back-propagated deltas that it computes itself.
    For the output layer this is a gradient step: one call of \<open>train\<close> adds to each entry
    of \<open>W2\<close> minus the partial derivative, in that entry, of half the summed squared error.
\<close>

theorem gradients_by_library_except_from_scratch:
  "(module_accepts api train_data \<and> module_accepts api test_data \<and> shuffle_permutes api
      \<and> train_data \<noteq> [] \<and> test_data \<noteq> [] \<longrightarrow>
      (\<exists>w' td' cs. train_bow api train_data test_data w = Inr (w', td')
          \<and> calls w' = calls w @ cs
          \<and> filter (\<lambda>k. k = Loss_backward) cs
              = replicate (10 * length train_data) Loss_backward
          \<and> (torch w', rng w', td') = (library_epoch api ^^ 10) (torch w, rng w, train_data))
      \<and> (\<exists>w' td' cs. cbow_training api train_data test_data w = Inr (w', td')
          \<and> calls w' = calls w @ cs
          \<and> filter (\<lambda>k. k = Loss_backward) cs
              = replicate (10 * length train_data) Loss_backward
          \<and> (torch w', rng w', td') = (library_epoch api ^^ 10) (torch w, rng w, train_data))
      \<and> (\<exists>w' td'. epoch label api test_data ITER (w, train_data) = Inr (w', td')
          \<and> (torch w', rng w', td') = library_epoch api (torch w, rng w, train_data)
          \<and> stdout w' = stdout w @
              [Log_line label (ITER + 1)
                 (sum_list (map (\<lambda>(scores, tag). criterion api scores tag)
                              (library_scores api (module_train api (torch w)) td'))
                    / real (length td'))
                 (real (length (filter (\<lambda>(scores, tag). torch_argmax scores = tag)
                                  (library_scores api (module_train api (torch w)) td')))
                    / real (length td'))
                 (real (length (filter (\<lambda>(x, tag). torch_argmax (projr (module_call api (torch w') x))
                                                    = tag)
                                  test_data))
                    / real (length test_data))]))
   \<and> (module_accepts hello_api [(hello_x, hello_y)] \<longrightarrow>
      (\<exists>w' cs. hello_training hello_api hw = Inr w'
          \<and> calls w' = calls hw @ cs
          \<and> filter (\<lambda>k. k = Loss_backward) cs = replicate 150 Loss_backward
          \<and> torch w' = (library_hello_step hello_api ^^ 150) (torch hw)
          \<and> stdout w' = stdout hw @
              map (\<lambda>i. Hello_line i
                         (library_hello_loss hello_api ((library_hello_step hello_api ^^ i) (torch hw))))
                  [0..<150]))
   \<and> (torch_tensor ag [2] True s0 = (a, s1) \<and> torch_tensor ag [1] True s1 = (b, s2)
        \<and> tensor_add ag a b s2 = (c, s3) \<and> tensor_add_scalar ag b 1 s3 = (d, s4)
        \<and> tensor_mul ag c d s4 = (e, s5)
        \<and> s6 = retain_grad ag e (retain_grad ag d (retain_grad ag c s5))
        \<and> s7 = tensor_backward ag e s6 \<longrightarrow>
        cg_notebook ag s0 =
          (s7, [Tensor_line (tensor_data ag e s6),
                Grad_line [tensor_grad ag a s7],
                Grad_line [tensor_grad ag b s7],
                Grad_line [tensor_grad ag a s7, tensor_grad ag b s7, tensor_grad ag c s7,
                           tensor_grad ag d s7, tensor_grad ag e s7]]))
   \<and> cf_bbm (cf_training sk g0 dataset_X dataset_y)
       = fst (fit_with sk (RandomState sk SEED)
                (cf_X_train (cf_training sk g0 dataset_X dataset_y))
                (cf_y_train (cf_training sk g0 dataset_X dataset_y)))
   \<and> (pick_user bbm_predict desired X_test = Inr user
        \<and> show_explanation np_round bbm_predict desired feature_names user elite = Inr cell \<longrightarrow>
        user \<in> set X_test \<and> cf_example cell = elite \<and> np_sub elite user = Inr (cf_explanation cell))
   \<and> (sigmoid_r has_real_derivative sigmoidPrime_r (sigmoid_r t)) (at t)
   \<and> W2 (backward self X y out)
       = mat_add (W2 self)
           (matmul (torch_t (z2 self)) (mat_mul (mat_sub y out) (sigmoidPrime out)))
   \<and> W1 (backward self X y out)
       = mat_add (W1 self)
           (matmul (torch_t X)
              (mat_mul (matmul (mat_mul (mat_sub y out) (sigmoidPrime out)) (torch_t (W2 self)))
                       (sigmoidPrime (z2 self))))
   \<and> ((\<forall>r \<in> set (sigmoid (matmul X' (W1 net))). length r = length ws)
        \<and> sigmoid (matmul X' (W1 net)) \<noteq> []
        \<and> length ys = length (sigmoid (matmul X' (W1 net)))
        \<and> j < length ws \<and> W2 net = map (\<lambda>v. [v]) ws \<longrightarrow>
        (\<exists>g. W2 (train net X' (map (\<lambda>v. [v]) ys)) ! j = [ws ! j + g]
           \<and> ((\<lambda>v. (\<Sum>k = 0..<length (sigmoid (matmul X' (W1 net))).
                       (ys ! k - sigmoid_r (dot (sigmoid (matmul X' (W1 net)) ! k) (ws[j := v])))\<^sup>2 / 2))
                has_real_derivative - g) (at (ws ! j))))"
proof (intro conjI impI)
  assume h: "module_accepts api train_data \<and> module_accepts api test_data \<and> shuffle_permutes api
      \<and> train_data \<noteq> [] \<and> test_data \<noteq> []"
  then have a: "module_accepts api train_data" "module_accepts api test_data"
    "shuffle_permutes api" "train_data \<noteq> []" "test_data \<noteq> []"
    by blast+
  let ?cs = "concat (replicate 10 (epoch_calls (length train_data) (length test_data)))"
  have f: "filter (\<lambda>k. k = Loss_backward) ?cs = replicate (10 * length train_data) Loss_backward"
    by (rule run_calls_backward)
  have ten: "length [0..<10] = 10" by (simp only: length_upt)
  have run: "\<exists>w' td' cs. epochs lbl api test_data [0..<10] (w, train_data) = Inr (w', td')
          \<and> calls w' = calls w @ cs
          \<and> filter (\<lambda>k. k = Loss_backward) cs = replicate (10 * length train_data) Loss_backward
          \<and> (torch w', rng w', td') = (library_epoch api ^^ 10) (torch w, rng w, train_data)"
    for lbl
  proof -
    from epochs_ten[OF a, of lbl w] obtain w' td' where
      r: "epochs lbl api test_data [0..<10] (w, train_data) = Inr (w', td')"
      and c: "calls w' = calls w @ ?cs"
      by blast
    from epochs_run[OF r] have "(torch w', rng w', td')
        = (library_epoch api ^^ 10) (torch w, rng w, train_data)"
      unfolding ten .
    with r c f show ?thesis by blast
  qed
  from run[of "''ITER''"]
  show "\<exists>w' td' cs. train_bow api train_data test_data w = Inr (w', td')
          \<and> calls w' = calls w @ cs
          \<and> filter (\<lambda>k. k = Loss_backward) cs = replicate (10 * length train_data) Loss_backward
          \<and> (torch w', rng w', td') = (library_epoch api ^^ 10) (torch w, rng w, train_data)"
    unfolding train_bow_def .
  from run[of "''epoch''"]
  show "\<exists>w' td' cs. cbow_training api train_data test_data w = Inr (w', td')
          \<and> calls w' = calls w @ cs
          \<and> filter (\<lambda>k. k = Loss_backward) cs = replicate (10 * length train_data) Loss_backward
          \<and> (torch w', rng w', td') = (library_epoch api ^^ 10) (torch w, rng w, train_data)"
    unfolding cbow_training_def .
  from epoch_ok[OF a, of label ITER w] obtain w' td' where
    e: "epoch label api test_data ITER (w, train_data) = Inr (w', td')"
    by blast
  from epoch_run[OF e] e
  show "\<exists>w' td'. epoch label api test_data ITER (w, train_data) = Inr (w', td')
          \<and> (torch w', rng w', td') = library_epoch api (torch w, rng w, train_data)
          \<and> stdout w' = stdout w @
              [Log_line label (ITER + 1)
                 (sum_list (map (\<lambda>(scores, tag). criterion api scores tag)
                              (library_scores api (module_train api (torch w)) td'))
                    / real (length td'))
                 (real (length (filter (\<lambda>(scores, tag). torch_argmax scores = tag)
                                  (library_scores api (module_train api (torch w)) td')))
                    / real (length td'))
                 (real (length (filter (\<lambda>(x, tag). torch_argmax (projr (module_call api (torch w') x))
                                                    = tag)
                                  test_data))
                    / real (length test_data))]"
    by blast
next
  assume "module_accepts hello_api [(hello_x, hello_y)]"
  from hello_hundred_fifty[OF this, of hw] obtain w' where
    r: "hello_training hello_api hw = Inr w'"
    and c: "calls w' = calls hw @ concat (replicate 150 hello_calls)"
    by blast
  from hello_run[OF r] r c hello_calls_backward[of 150]
  show "\<exists>w' cs. hello_training hello_api hw = Inr w'
          \<and> calls w' = calls hw @ cs
          \<and> filter (\<lambda>k. k = Loss_backward) cs = replicate 150 Loss_backward
          \<and> torch w' = (library_hello_step hello_api ^^ 150) (torch hw)
          \<and> stdout w' = stdout hw @
              map (\<lambda>i. Hello_line i
                         (library_hello_loss hello_api ((library_hello_step hello_api ^^ i) (torch hw))))
                  [0..<150]"
    by blast
next
  assume "torch_tensor ag [2] True s0 = (a, s1) \<and> torch_tensor ag [1] True s1 = (b, s2)
        \<and> tensor_add ag a b s2 = (c, s3) \<and> tensor_add_scalar ag b 1 s3 = (d, s4)
        \<and> tensor_mul ag c d s4 = (e, s5)
        \<and> s6 = retain_grad ag e (retain_grad ag d (retain_grad ag c s5))
        \<and> s7 = tensor_backward ag e s6"
  then have g: "torch_tensor ag [2] True s0 = (a, s1)" "torch_tensor ag [1] True s1 = (b, s2)"
    "tensor_add ag a b s2 = (c, s3)" "tensor_add_scalar ag b 1 s3 = (d, s4)"
    "tensor_mul ag c d s4 = (e, s5)"
    "s6 = retain_grad ag e (retain_grad ag d (retain_grad ag c s5))"
    "s7 = tensor_backward ag e s6"
    by blast+
  show "cg_notebook ag s0 =
          (s7, [Tensor_line (tensor_data ag e s6),
                Grad_line [tensor_grad ag a s7],
                Grad_line [tensor_grad ag b s7],
                Grad_line [tensor_grad ag a s7, tensor_grad ag b s7, tensor_grad ag c s7,
                           tensor_grad ag d s7, tensor_grad ag e s7]])"
    by (rule cg_notebook_calls[OF g])
next
  show "cf_bbm (cf_training sk g0 dataset_X dataset_y)
       = fst (fit_with sk (RandomState sk SEED)
                (cf_X_train (cf_training sk g0 dataset_X dataset_y))
                (cf_y_train (cf_training sk g0 dataset_X dataset_y)))"
    by (rule cf_training_model)
next
  assume u: "pick_user bbm_predict desired X_test = Inr user
        \<and> show_explanation np_round bbm_predict desired feature_names user elite = Inr cell"
  then show "user \<in> set X_test"
    using pick_user_undesired[of bbm_predict desired X_test user] by blast
  from u show "cf_example cell = elite"
    using show_explanation_values[of np_round bbm_predict desired feature_names user elite cell]
    by blast
  from u show "np_sub elite user = Inr (cf_explanation cell)"
    using show_explanation_values[of np_round bbm_predict desired feature_names user elite cell]
    by blast
next
  show "(sigmoid_r has_real_derivative sigmoidPrime_r (sigmoid_r t)) (at t)"
    using sigmoid_r_has_derivative[of t] by (simp add: sigmoidPrime_r_def)
next
  show "W2 (backward self X y out)
       = mat_add (W2 self)
           (matmul (torch_t (z2 self)) (mat_mul (mat_sub y out) (sigmoidPrime out)))"
    by (rule backward_W2)
next
  show "W1 (backward self X y out)
       = mat_add (W1 self)
           (matmul (torch_t X)
              (mat_mul (matmul (mat_mul (mat_sub y out) (sigmoidPrime out)) (torch_t (W2 self)))
                       (sigmoidPrime (z2 self))))"
    by (rule backward_W1)
next
  assume "(\<forall>r \<in> set (sigmoid (matmul X' (W1 net))). length r = length ws)
        \<and> sigmoid (matmul X' (W1 net)) \<noteq> []
        \<and> length ys = length (sigmoid (matmul X' (W1 net)))
        \<and> j < length ws \<and> W2 net = map (\<lambda>v. [v]) ws"
  then have a: "\<forall>r \<in> set (sigmoid (matmul X' (W1 net))). length r = length ws"
    "sigmoid (matmul X' (W1 net)) \<noteq> []"
    "length ys = length (sigmoid (matmul X' (W1 net)))"
    "j < length ws" "W2 net = map (\<lambda>v. [v]) ws"
    by blast+
  show "\<exists>g. W2 (train net X' (map (\<lambda>v. [v]) ys)) ! j = [ws ! j + g]
           \<and> ((\<lambda>v. (\<Sum>k = 0..<length (sigmoid (matmul X' (W1 net))).
                       (ys ! k - sigmoid_r (dot (sigmoid (matmul X' (W1 net)) ! k) (ws[j := v])))\<^sup>2 / 2))
                has_real_derivative - g) (at (ws ! j))"
    by (rule train_W2_is_gradient_step[OF a])
qed

theorem gradients_by_library_except_from_scratch_witness:
  "module_accepts toy_api toy_train \<and> module_accepts toy_api toy_test \<and> shuffle_permutes toy_api
   \<and> toy_train \<noteq> [] \<and> toy_test \<noteq> []
   \<and> module_accepts sgd_hello_api [(hello_x, hello_y)]
   \<and> (\<exists>w' td' cs. train_bow toy_api toy_train toy_test (toy_world 1) = Inr (w', td')
          \<and> calls w' = calls (toy_world 1) @ cs
          \<and> filter (\<lambda>k. k = Loss_backward) cs = replicate (10 * length toy_train) Loss_backward
          \<and> (torch w', rng w', td')
              = (library_epoch toy_api ^^ 10) (torch (toy_world 1), rng (toy_world 1), toy_train))
   \<and> (\<exists>w' td'. epoch ''ITER'' toy_api toy_test 0 (toy_world 1, toy_train) = Inr (w', td')
          \<and> (torch w', rng w', td')
              = library_epoch toy_api (torch (toy_world 1), rng (toy_world 1), toy_train)
          \<and> stdout w' = stdout (toy_world 1) @
              [Log_line ''ITER'' (0 + 1)
                 (sum_list (map (\<lambda>(scores, tag). criterion toy_api scores tag)
                              (library_scores toy_api (module_train toy_api (torch (toy_world 1))) td'))
                    / real (length td'))
                 (real (length (filter (\<lambda>(scores, tag). torch_argmax scores = tag)
                                  (library_scores toy_api
                                     (module_train toy_api (torch (toy_world 1))) td')))
                    / real (length td'))
                 (real (length (filter (\<lambda>(x, tag). torch_argmax (projr (module_call toy_api (torch w') x))
                                                    = tag)
                                  toy_test))
                    / real (length toy_test))])
   \<and> epoch ''ITER'' toy_api toy_test 0 (toy_world 1, toy_train)
       = Inr (\<lparr>torch = (0, 0), rng = 2, calls = epoch_calls 2 1,
               stdout = [Log_line ''ITER'' 1 1 0 1]\<rparr>, [([3], 1), ([1, 2], 0)])
   \<and> (\<exists>w' cs. hello_training sgd_hello_api sgd_world = Inr w'
          \<and> calls w' = calls sgd_world @ cs
          \<and> filter (\<lambda>k. k = Loss_backward) cs = replicate 150 Loss_backward
          \<and> torch w' = (library_hello_step sgd_hello_api ^^ 150) (torch sgd_world)
          \<and> stdout w' = stdout sgd_world @
              map (\<lambda>i. Hello_line i
                         (library_hello_loss sgd_hello_api
                            ((library_hello_step sgd_hello_api ^^ i) (torch sgd_world))))
                  [0..<150])
   \<and> torch_tensor tape_api [2] True [] = (0, take 1 tape_graph)
   \<and> torch_tensor tape_api [1] True (take 1 tape_graph) = (1, take 2 tape_graph)
   \<and> tensor_add tape_api 0 1 (take 2 tape_graph) = (2, take 3 tape_graph)
   \<and> tensor_add_scalar tape_api 1 1 (take 3 tape_graph) = (3, take 4 tape_graph)
   \<and> tensor_mul tape_api 2 3 (take 4 tape_graph) = (4, tape_graph)
   \<and> tape_graph = retain_grad tape_api 4 (retain_grad tape_api 3 (retain_grad tape_api 2 tape_graph))
   \<and> tape_after_backward = tensor_backward tape_api 4 tape_graph
   \<and> cg_notebook tape_api []
       = (tape_after_backward,
          [Tensor_line [6], Grad_line [Some [2]], Grad_line [Some [5]],
           Grad_line [Some [2], Some [5], Some [2], Some [3], Some [1]]])
   \<and> pick_user example_predict desired_class example_X_test = Inr [0, 2000, 40]
   \<and> show_explanation example_round example_predict desired_class example_features
        [0, 2000, 40] [5, 2000, 40] = Inr example_cell
   \<and> [0, 2000, 40] \<in> set example_X_test
   \<and> cf_example example_cell = [5, 2000, 40]
   \<and> np_sub [5, 2000, 40] [0, 2000, 40] = Inr (cf_explanation example_cell)
   \<and> list_all (\<lambda>r. length r = length [0, 0, 0 :: real])
        (sigmoid (matmul X_scaled (W1 zero_network)))
   \<and> sigmoid (matmul X_scaled (W1 zero_network)) \<noteq> []
   \<and> length [23 / 25, 1, 89 / 100 :: real] = length (sigmoid (matmul X_scaled (W1 zero_network)))
   \<and> 0 < length [0, 0, 0 :: real]
   \<and> W2 zero_network = map (\<lambda>v. [v]) [0, 0, 0]
   \<and> (\<exists>g. W2 (train zero_network X_scaled (map (\<lambda>v. [v]) [23 / 25, 1, 89 / 100])) ! 0
             = [[0, 0, 0] ! 0 + g]
          \<and> ((\<lambda>v. (\<Sum>k = 0..<length (sigmoid (matmul X_scaled (W1 zero_network))).
                      ([23 / 25, 1, 89 / 100] ! k
                        - sigmoid_r (dot (sigmoid (matmul X_scaled (W1 zero_network)) ! k)
                                         ([0, 0, 0][0 := v])))\<^sup>2 / 2))
               has_real_derivative - g) (at ([0, 0, 0] ! 0)))"
proof -
  have g1: "\<forall>r \<in> set (sigmoid (matmul X_scaled (W1 zero_network))). length r = length [0, 0, 0 :: real]"
    and g2: "sigmoid (matmul X_scaled (W1 zero_network)) \<noteq> []"
    and g3: "length [23 / 25, 1, 89 / 100 :: real]
             = length (sigmoid (matmul X_scaled (W1 zero_network)))"
    by (simp_all add: hidden_zero_network)
  have g4: "0 < length [0, 0, 0 :: real]" by simp
  have g5: "W2 zero_network = map (\<lambda>v. [v]) [0, 0, 0]"
    by (simp add: zero_network_def Neural_Network_init_def)
  have g1': "list_all (\<lambda>r. length r = length [0, 0, 0 :: real])
        (sigmoid (matmul X_scaled (W1 zero_network)))"
    using g1 by (simp only: list_all_iff)
  note h = toy_api_accepts[of toy_train] toy_api_accepts[of toy_test] toy_api_shuffle
    toy_data_nonempty sgd_hello_api_accepts[of "[(hello_x, hello_y)]"]
  note inst = gradients_by_library_except_from_scratch[where api = toy_api
      and train_data = toy_train and test_data = toy_test and w = "toy_world 1"
      and label = "''ITER''" and ITER = 0
      and hello_api = sgd_hello_api and hw = sgd_world
      and ag = tape_api and ?s0.0 = "[]" and a = 0 and ?s1.0 = "take 1 tape_graph" and b = 1
      and ?s2.0 = "take 2 tape_graph" and c = 2 and ?s3.0 = "take 3 tape_graph" and d = 3
      and ?s4.0 = "take 4 tape_graph" and e = 4 and ?s5.0 = tape_graph and ?s6.0 = tape_graph
      and ?s7.0 = tape_after_backward
      and bbm_predict = example_predict and desired = desired_class and X_test = example_X_test
      and user = "[0, 2000, 40]" and np_round = example_round
      and feature_names = example_features and elite = "[5, 2000, 40]" and cell = example_cell
      and X' = X_scaled
      and net = zero_network and ws = "[0, 0, 0]" and ys = "[23 / 25, 1, 89 / 100]" and j = 0]
  note A = inst[THEN conjunct1]
  note B = inst[THEN conjunct2, THEN conjunct1]
  note C = inst[THEN conjunct2, THEN conjunct2, THEN conjunct1]
  note D = inst[THEN conjunct2, THEN conjunct2, THEN conjunct2, THEN conjunct2, THEN conjunct1]
  note E = inst[THEN conjunct2, THEN conjunct2, THEN conjunct2, THEN conjunct2, THEN conjunct2,
      THEN conjunct2, THEN conjunct2, THEN conjunct2]
  have hyp: "module_accepts toy_api toy_train \<and> module_accepts toy_api toy_test
      \<and> shuffle_permutes toy_api \<and> toy_train \<noteq> [] \<and> toy_test \<noteq> []"
    using h by blast
  note A' = A[rule_format, OF hyp]
  note 1 = A'[THEN conjunct1]
  note 2 = A'[THEN conjunct2, THEN conjunct2]
  note 3 = B[rule_format, OF sgd_hello_api_accepts]
  have "cg_notebook tape_api []
       = (tape_after_backward,
          [Tensor_line (tensor_data tape_api 4 tape_graph),
           Grad_line [tensor_grad tape_api 0 tape_after_backward],
           Grad_line [tensor_grad tape_api 1 tape_after_backward],
           Grad_line [tensor_grad tape_api 0 tape_after_backward,
                      tensor_grad tape_api 1 tape_after_backward,
                      tensor_grad tape_api 2 tape_after_backward,
                      tensor_grad tape_api 3 tape_after_backward,
                      tensor_grad tape_api 4 tape_after_backward]])"
    by (rule C[rule_format, OF tape_run])
  then have 4: "cg_notebook tape_api []
       = (tape_after_backward,
          [Tensor_line [6], Grad_line [Some [2]], Grad_line [Some [5]],
           Grad_line [Some [2], Some [5], Some [2], Some [3], Some [1]]])"
    using tape_reads by (simp only:)
  have 5: "[0, 2000, 40] \<in> set example_X_test \<and> cf_example example_cell = [5, 2000, 40]
     \<and> np_sub [5, 2000, 40] [0, 2000, 40] = Inr (cf_explanation example_cell)"
    by (rule D[rule_format, OF conjI, OF example_pick_user example_cell_shown])
  have hyp6: "(\<forall>r \<in> set (sigmoid (matmul X_scaled (W1 zero_network))). length r = length [0, 0, 0 :: real])
      \<and> sigmoid (matmul X_scaled (W1 zero_network)) \<noteq> []
      \<and> length [23 / 25, 1, 89 / 100 :: real] = length (sigmoid (matmul X_scaled (W1 zero_network)))
      \<and> 0 < length [0, 0, 0 :: real]
      \<and> W2 zero_network = map (\<lambda>v. [v]) [0, 0, 0]"
    using g1 g2 g3 g4 g5 by (intro conjI)
  note 6 = E[THEN mp, OF hyp6]
  show ?thesis
    apply (intro conjI)
    apply (rule h(1))
    apply (rule h(2))
    apply (rule h(3))
    apply (rule h(4)[THEN conjunct1])
    apply (rule h(4)[THEN conjunct2])
    apply (rule sgd_hello_api_accepts)
    apply (rule 1)
    apply (rule 2)
    apply (rule toy_first_epoch)
    apply (rule 3)
    apply (rule tape_run[THEN conjunct1])
    apply (rule tape_run[THEN conjunct2, THEN conjunct1])
    apply (rule tape_run[THEN conjunct2, THEN conjunct2, THEN conjunct1])
    apply (rule tape_run[THEN conjunct2, THEN conjunct2, THEN conjunct2, THEN conjunct1])
    apply (rule tape_run[THEN conjunct2, THEN conjunct2, THEN conjunct2, THEN conjunct2,
        THEN conjunct1])
    apply (rule tape_run[THEN conjunct2, THEN conjunct2, THEN conjunct2, THEN conjunct2,
        THEN conjunct2, THEN conjunct1])
    apply (rule tape_run[THEN conjunct2, THEN conjunct2, THEN conjunct2, THEN conjunct2,
        THEN conjunct2, THEN conjunct2])
    apply (rule 4)
    apply (rule example_pick_user)
    apply (rule example_cell_shown)
    apply (rule 5[THEN conjunct1])
    apply (rule 5[THEN conjunct2, THEN conjunct1])
    apply (rule 5[THEN conjunct2, THEN conjunct2])
    apply (rule g1')
    apply (rule g2)
    apply (rule g3)
    apply (rule g4)
    apply (rule g5)
    apply (rule 6)
    done
qed

text \<open>
  The claim as stated fails for the from-scratch network. On zero weights its forward pass
  gives 1/2 everywhere, where \<open>sigmoidPrime\<close> returns 1/4, the derivative of the sigmoid at
  0; one call of \<open>train\<close> then moves every entry of \<open>W2\<close> from 0 to 131/800, which is minus
  the derivative of the half squared error of the three samples with respect to that
  entry. No library computed this gradient.
\<close>

theorem from_scratch_backward_computes_gradient:
  "fst (forward zero_network X_scaled) = [[1 / 2], [1 / 2], [1 / 2]]
   \<and> sigmoidPrime [[1 / 2], [1 / 2], [1 / 2]] = [[1 / 4], [1 / 4], [1 / 4]]
   \<and> (sigmoid_r has_real_derivative 1 / 4) (at 0)
   \<and> W2 zero_network = [[0], [0], [0]]
   \<and> W2 (train zero_network X_scaled y_scaled) = [[131 / 800], [131 / 800], [131 / 800]]
   \<and> ((\<lambda>v. (23 / 25 - sigmoid_r (1 / 2 * v))\<^sup>2 / 2 + (1 - sigmoid_r (1 / 2 * v))\<^sup>2 / 2
             + (89 / 100 - sigmoid_r (1 / 2 * v))\<^sup>2 / 2)
        has_real_derivative - (131 / 800)) (at 0)"
proof -
  have 1: "fst (forward zero_network X_scaled) = [[1 / 2], [1 / 2], [1 / 2]]"
    by (simp add: forward_zero_network)
  have 2: "sigmoidPrime [[1 / 2], [1 / 2], [1 / 2]] = [[1 / 4], [1 / 4], [1 / 4]]"
    by (simp add: sigmoidPrime_def sigmoidPrime_r_def)
  have 3: "(sigmoid_r has_real_derivative 1 / 4) (at 0)"
    using sigmoid_r_has_derivative[of 0] by (simp add: sigmoid_r_0)
  have 4: "W2 zero_network = [[0], [0], [0]]"
    by (simp add: zero_network_def Neural_Network_init_def)
  have 5: "W2 (train zero_network X_scaled y_scaled) = [[131 / 800], [131 / 800], [131 / 800]]"
    using train_zero_network by (rule conjunct1)
  have d: "((\<lambda>v. (b - sigmoid_r (1 / 2 * v))\<^sup>2 / 2) has_real_derivative
             - (1 / 2 * ((b - 1 / 2) * (1 / 4)))) (at 0)" for b
    using half_squared_error_derivative[of b "1 / 2" 0]
    by (simp add: sigmoid_r_0 sigmoidPrime_r_def)
  have 6: "((\<lambda>v. (23 / 25 - sigmoid_r (1 / 2 * v))\<^sup>2 / 2 + (1 - sigmoid_r (1 / 2 * v))\<^sup>2 / 2
             + (89 / 100 - sigmoid_r (1 / 2 * v))\<^sup>2 / 2)
        has_real_derivative - (131 / 800)) (at 0)"
    by (rule derivative_eq_intros d | simp)+
  from 1 2 3 4 5 6 show ?thesis by (intro conjI)
qed


end
